theory Spec2Isabelle
  imports Complex_Main
begin

section \<open>Numbers\<close>

text \<open>
  Every \<^verbatim>\<open>float64\<close> of the Go source is modelled as a real number: arithmetic is
  exact, and the special values NaN and the infinities have no counterpart. The
  only place where the source builds an infinity on purpose is the default rate
  limit of an actuator (\<^verbatim>\<open>math.Inf(1)\<close>); it is modelled by \<open>None\<close> in a
  \<open>real option\<close>. A Go \<^verbatim>\<open>map[string]float64\<close> is a partial function from
  strings to reals.
\<close>

section \<open>Math primitives (aircraft\_state.go)\<close>

record Vector3 =
  X :: real
  Y :: real
  Z :: real

definition Vector3_Add :: "Vector3 \<Rightarrow> Vector3 \<Rightarrow> Vector3" where
  "Vector3_Add v other = \<lparr>X = X v + X other, Y = Y v + Y other, Z = Z v + Z other\<rparr>"

definition Vector3_Scale :: "Vector3 \<Rightarrow> real \<Rightarrow> Vector3" where
  "Vector3_Scale v scalar = \<lparr>X = X v * scalar, Y = Y v * scalar, Z = Z v * scalar\<rparr>"

definition Magnitude :: "Vector3 \<Rightarrow> real" where
  "Magnitude v = sqrt (X v * X v + Y v * Y v + Z v * Z v)"

definition Vector3_Normalize :: "Vector3 \<Rightarrow> Vector3" where
  "Vector3_Normalize v =
     (let mag = Magnitude v in
      if mag = 0 then \<lparr>X = 0, Y = 0, Z = 0\<rparr>
      else \<lparr>X = X v / mag, Y = Y v / mag, Z = Z v / mag\<rparr>)"

text \<open>The fields of a quaternion are W, X, Y, Z in the source; the last three
  carry a prefix here because a record field name is global.\<close>

record Quaternion =
  W :: real
  QX :: real
  QY :: real
  QZ :: real

definition Quaternion_Norm :: "Quaternion \<Rightarrow> real" where
  "Quaternion_Norm q = sqrt (W q * W q + QX q * QX q + QY q * QY q + QZ q * QZ q)"

definition Quaternion_Normalize :: "Quaternion \<Rightarrow> Quaternion" where
  "Quaternion_Normalize q =
     (let norm = Quaternion_Norm q in
      if norm = 0 then \<lparr>W = 1, QX = 0, QY = 0, QZ = 0\<rparr>
      else \<lparr>W = W q / norm, QX = QX q / norm, QY = QY q / norm, QZ = QZ q / norm\<rparr>)"

definition Multiply :: "Quaternion \<Rightarrow> Quaternion \<Rightarrow> Quaternion" where
  "Multiply q other =
     \<lparr>W = W q * W other - QX q * QX other - QY q * QY other - QZ q * QZ other,
      QX = W q * QX other + QX q * W other + QY q * QZ other - QZ q * QY other,
      QY = W q * QY other - QX q * QZ other + QY q * W other + QZ q * QX other,
      QZ = W q * QZ other + QX q * QY other - QY q * QX other + QZ q * W other\<rparr>"

definition RotateVector :: "Quaternion \<Rightarrow> Vector3 \<Rightarrow> Vector3" where
  "RotateVector q v =
     (let qv = \<lparr>W = 0, QX = X v, QY = Y v, QZ = Z v\<rparr>;
          qConj = \<lparr>W = W q, QX = - QX q, QY = - QY q, QZ = - QZ q\<rparr>;
          temp = Multiply q qv;
          result = Multiply temp qConj
      in \<lparr>X = QX result, Y = QY result, Z = QZ result\<rparr>)"

definition Quaternion_Add :: "Quaternion \<Rightarrow> Quaternion \<Rightarrow> Quaternion" where
  "Quaternion_Add q other =
     \<lparr>W = W q + W other, QX = QX q + QX other, QY = QY q + QY other, QZ = QZ q + QZ other\<rparr>"

definition Quaternion_Scale :: "Quaternion \<Rightarrow> real \<Rightarrow> Quaternion" where
  "Quaternion_Scale q scalar =
     \<lparr>W = W q * scalar, QX = QX q * scalar, QY = QY q * scalar, QZ = QZ q * scalar\<rparr>"

section \<open>Aircraft state (aircraft\_state.go)\<close>

text \<open>
  \<open>Atan2\<close> stands for the library function \<^verbatim>\<open>math.Atan2\<close> on finite arguments,
  \<open>powr\<close> for \<^verbatim>\<open>math.Pow\<close> (its base is positive wherever the model calls it),
  \<open>arcsin\<close> for \<^verbatim>\<open>math.Asin\<close>.
\<close>

definition Atan2 :: "real \<Rightarrow> real \<Rightarrow> real" where
  "Atan2 y x =
     (if 0 < x then arctan (y / x)
      else if x < 0 then (if 0 \<le> y then arctan (y / x) + pi else arctan (y / x) - pi)
      else if 0 < y then pi / 2
      else if y < 0 then - (pi / 2)
      else 0)"

definition ToEuler :: "Quaternion \<Rightarrow> real \<times> real \<times> real" where
  "ToEuler q =
     (let sinr_cosp = 2 * (W q * QX q + QY q * QZ q);
          cosr_cosp = 1 - 2 * (QX q * QX q + QY q * QY q);
          roll = Atan2 sinr_cosp cosr_cosp;
          sinp = 2 * (W q * QY q - QZ q * QX q);
          pitch = (if 1 \<le> \<bar>sinp\<bar> then (if 0 \<le> sinp then pi / 2 else - (pi / 2))
                   else arcsin sinp);
          siny_cosp = 2 * (W q * QZ q + QX q * QY q);
          cosy_cosp = 1 - 2 * (QY q * QY q + QZ q * QZ q);
          yaw = Atan2 siny_cosp cosy_cosp
      in (roll, pitch, yaw))"

definition NewQuaternionFromEuler :: "real \<Rightarrow> real \<Rightarrow> real \<Rightarrow> Quaternion" where
  "NewQuaternionFromEuler roll pitch yaw =
     (let cr = cos (roll * 0.5); sr = sin (roll * 0.5);
          cp = cos (pitch * 0.5); sp = sin (pitch * 0.5);
          cy = cos (yaw * 0.5); sy = sin (yaw * 0.5)
      in \<lparr>W = cr * cp * cy + sr * sp * sy,
          QX = sr * cp * cy - cr * sp * sy,
          QY = cr * sp * cy + sr * cp * sy,
          QZ = cr * cp * sy - sr * sp * cy\<rparr>)"

text \<open>Pilot commands. The field \<^verbatim>\<open>Propeller\<close> of the source is \<open>PropellerPitch\<close>
  here, and the fields \<^verbatim>\<open>Elevator\<close> and \<^verbatim>\<open>Rudder\<close> of the control surfaces are
  \<open>SurfElevator\<close> and \<open>SurfRudder\<close>: a record field name is global.\<close>

record ControlInputs =
  Aileron :: real
  Elevator :: real
  Rudder :: real
  Throttle :: real
  Flaps :: real
  Gear :: bool
  Brake :: real
  Mixture :: real
  PropellerPitch :: real

record ControlSurfaces =
  AileronLeft :: real
  AileronRight :: real
  SurfElevator :: real
  SurfRudder :: real
  FlapLeft :: real
  FlapRight :: real

text \<open>
  The fields of \<^verbatim>\<open>AircraftState\<close> that the integrators, the atmosphere and
  derived-parameter updates and the flight control system read or write. The
  remaining fields of the source (time stamp, latitude, longitude, accelerations,
  trim, engine and gear snapshots, force and moment breakdowns) are copied
  unchanged by \<^verbatim>\<open>Copy\<close> and touched by none of the functions modelled here.
\<close>

record AircraftState =
  Time :: real
  Position :: Vector3
  Altitude :: real
  Orientation :: Quaternion
  Roll :: real
  Pitch :: real
  Yaw :: real
  Velocity :: Vector3
  AngularRate :: Vector3
  Alpha :: real
  Beta :: real
  Mach :: real
  IndicatedAirspeed :: real
  TrueAirspeed :: real
  CalibratedAirspeed :: real
  GroundSpeed :: real
  Temperature :: real
  Pressure :: real
  Density :: real
  SoundSpeed :: real
  DynamicPressure :: real
  ControlSurfaces :: ControlSurfaces
  Controls :: ControlInputs

definition seaLevelTemp :: real where "seaLevelTemp = 288.15"
definition seaLevelPressure :: real where "seaLevelPressure = 101325.0"
definition tempLapseRate :: real where "tempLapseRate = 0.0065"
definition gasConstant :: real where "gasConstant = 287.05"
definition gamma :: real where "gamma = 1.4"

definition UpdateAtmosphere :: "AircraftState \<Rightarrow> AircraftState" where
  "UpdateAtmosphere state =
     (let altitude = (if Altitude state < 0 then 0 else Altitude state);
          state = state\<lparr>Temperature :=
                    (if altitude \<le> 11000 then seaLevelTemp - tempLapseRate * altitude
                     else 216.65)\<rparr>;
          state = state\<lparr>Pressure :=
                    (if altitude \<le> 11000
                     then seaLevelPressure *
                          (Temperature state / seaLevelTemp) powr
                            (9.80665 / (gasConstant * tempLapseRate))
                     else (let p11 = seaLevelPressure *
                                 (216.65 / seaLevelTemp) powr
                                   (9.80665 / (gasConstant * tempLapseRate))
                           in p11 * exp (- 9.80665 * (altitude - 11000)
                                           / (gasConstant * 216.65))))\<rparr>;
          state = state\<lparr>Density := Pressure state / (gasConstant * Temperature state)\<rparr>;
          state = state\<lparr>SoundSpeed := sqrt (gamma * gasConstant * Temperature state)\<rparr>
      in state\<lparr>DynamicPressure :=
                 0.5 * Density state * TrueAirspeed state * TrueAirspeed state\<rparr>)"

definition UpdateDerivedParameters :: "AircraftState \<Rightarrow> AircraftState" where
  "UpdateDerivedParameters state =
     (let (roll, pitch, yaw) = ToEuler (Orientation state);
          state = state\<lparr>Roll := roll, Pitch := pitch, Yaw := yaw\<rparr>;
          state = state\<lparr>TrueAirspeed := Magnitude (Velocity state)\<rparr>;
          state = state\<lparr>IndicatedAirspeed :=
                    TrueAirspeed state * sqrt (Density state / 1.225)\<rparr>;
          state = state\<lparr>CalibratedAirspeed := IndicatedAirspeed state\<rparr>;
          state = (if 0 < SoundSpeed state
                   then state\<lparr>Mach := TrueAirspeed state / SoundSpeed state\<rparr>
                   else state);
          state = (if X (Velocity state) \<noteq> 0 \<or> Z (Velocity state) \<noteq> 0
                   then state\<lparr>Alpha := Atan2 (- Z (Velocity state)) (X (Velocity state))\<rparr>
                   else state);
          state = (if 0 < TrueAirspeed state
                   then state\<lparr>Beta := arcsin (Y (Velocity state) / TrueAirspeed state)\<rparr>
                   else state);
          groundVel = \<lparr>X = X (Velocity state), Y = Y (Velocity state), Z = 0\<rparr>;
          state = state\<lparr>GroundSpeed := Magnitude groundVel\<rparr>
      in state\<lparr>DynamicPressure :=
                 0.5 * Density state * TrueAirspeed state * TrueAirspeed state\<rparr>)"

definition NewControlInputs :: ControlInputs where
  "NewControlInputs =
     \<lparr>Aileron = 0.0, Elevator = 0.0, Rudder = 0.0, Throttle = 0.0, Flaps = 0.0,
      Gear = True, Brake = 0.0, Mixture = 0.8, PropellerPitch = 1.0\<rparr>"

text \<open>\<^verbatim>\<open>NewAircraftState\<close>: the fields the struct literal does not name start at
  Go's zero value.\<close>

definition NewAircraftState :: AircraftState where
  "NewAircraftState =
     (let state =
        \<lparr>Time = 0.0,
         Position = \<lparr>X = 0, Y = 0, Z = 0\<rparr>,
         Altitude = 1000.0,
         Orientation = NewQuaternionFromEuler 0 0 0,
         Roll = 0.0, Pitch = 0.0, Yaw = 0.0,
         Velocity = \<lparr>X = 50.0, Y = 0, Z = 0\<rparr>,
         AngularRate = \<lparr>X = 0, Y = 0, Z = 0\<rparr>,
         Alpha = 0, Beta = 0, Mach = 0,
         IndicatedAirspeed = 0, TrueAirspeed = 0, CalibratedAirspeed = 0, GroundSpeed = 0,
         Temperature = 0, Pressure = 0, Density = 0, SoundSpeed = 0, DynamicPressure = 0,
         ControlSurfaces = \<lparr>AileronLeft = 0, AileronRight = 0, SurfElevator = 0,
                            SurfRudder = 0, FlapLeft = 0, FlapRight = 0\<rparr>,
         Controls = NewControlInputs\<rparr>;
          state = UpdateAtmosphere state
      in UpdateDerivedParameters state)"

section \<open>Integrators (integration\_engine.go)\<close>

record StateDerivatives =
  PositionDot :: Vector3
  OrientationDot :: Quaternion
  VelocityDot :: Vector3
  AngularRateDot :: Vector3
  AltitudeDot :: real
  MassDot :: real

text \<open>Each integrator copies the state (\<^verbatim>\<open>state.Copy()\<close>) and returns the
  copy; in the model the argument is a value and the result a new value.\<close>

definition EulerIntegrator_Integrate ::
  "AircraftState \<Rightarrow> StateDerivatives \<Rightarrow> real \<Rightarrow> AircraftState" where
  "EulerIntegrator_Integrate state derivatives dt =
     (let newState = state;
          newState = newState\<lparr>Time := Time newState + dt\<rparr>;
          earthVel = RotateVector (Orientation state) (Velocity state);
          newState = newState\<lparr>Position :=
                       Vector3_Add (Position state) (Vector3_Scale earthVel dt)\<rparr>;
          omegaQuat = \<lparr>W = 0, QX = X (AngularRate state), QY = Y (AngularRate state),
                       QZ = Z (AngularRate state)\<rparr>;
          orientationDot = Quaternion_Scale (Multiply (Orientation state) omegaQuat) 0.5;
          newState = newState\<lparr>Orientation :=
                       Quaternion_Normalize
                         (Quaternion_Add (Orientation state)
                            (Quaternion_Scale orientationDot dt))\<rparr>;
          newState = newState\<lparr>Velocity :=
                       Vector3_Add (Velocity state)
                         (Vector3_Scale (VelocityDot derivatives) dt)\<rparr>;
          newState = newState\<lparr>AngularRate :=
                       Vector3_Add (AngularRate state)
                         (Vector3_Scale (AngularRateDot derivatives) dt)\<rparr>;
          newState = newState\<lparr>Altitude := - Z (Position newState)\<rparr>;
          newState = UpdateAtmosphere newState
      in UpdateDerivedParameters newState)"


text \<open>
  The Adams-Bashforth integrator keeps the derivatives of the previous call. The
  pointer \<^verbatim>\<open>previousDerivatives\<close> is \<^verbatim>\<open>nil\<close> until the first call; reading through
  it while it is \<^verbatim>\<open>nil\<close> would be a run-time panic, the result \<open>None\<close> of the
  model. The function returns the new state and the updated integrator.
\<close>

record AdamsBashforth2Integrator =
  previousDerivatives :: "StateDerivatives option"
  hasPrevious :: bool

definition NewAdamsBashforth2Integrator :: AdamsBashforth2Integrator where
  "NewAdamsBashforth2Integrator = \<lparr>previousDerivatives = None, hasPrevious = False\<rparr>"

definition AdamsBashforth2Integrator_Integrate ::
  "AdamsBashforth2Integrator \<Rightarrow> AircraftState \<Rightarrow> StateDerivatives \<Rightarrow> real
     \<Rightarrow> (AircraftState \<times> AdamsBashforth2Integrator) option" where
  "AdamsBashforth2Integrator_Integrate ab state derivatives dt =
     (if \<not> hasPrevious ab then
        (let result = EulerIntegrator_Integrate state derivatives dt
         in Some (result, ab\<lparr>previousDerivatives := Some derivatives, hasPrevious := True\<rparr>))
      else
        (case previousDerivatives ab of
           None \<Rightarrow> None
         | Some prev \<Rightarrow>
            (let newState = state;
                 newState = newState\<lparr>Time := Time newState + dt\<rparr>;
                 earthVel = RotateVector (Orientation state) (Velocity state);
                 prevEarthVel = RotateVector (Orientation state) (Velocity state);
                 positionStep = Vector3_Scale
                                  (Vector3_Add (Vector3_Scale earthVel 1.5)
                                     (Vector3_Scale prevEarthVel (- 0.5)))
                                  dt;
                 newState = newState\<lparr>Position := Vector3_Add (Position state) positionStep\<rparr>;
                 velocityStep = Vector3_Scale
                                  (Vector3_Add (Vector3_Scale (VelocityDot derivatives) 1.5)
                                     (Vector3_Scale (VelocityDot prev) (- 0.5)))
                                  dt;
                 newState = newState\<lparr>Velocity := Vector3_Add (Velocity state) velocityStep\<rparr>;
                 angularStep = Vector3_Scale
                                 (Vector3_Add (Vector3_Scale (AngularRateDot derivatives) 1.5)
                                    (Vector3_Scale (AngularRateDot prev) (- 0.5)))
                                 dt;
                 newState = newState\<lparr>AngularRate :=
                              Vector3_Add (AngularRate state) angularStep\<rparr>;
                 omegaQuat = \<lparr>W = 0, QX = X (AngularRate newState),
                              QY = Y (AngularRate newState), QZ = Z (AngularRate newState)\<rparr>;
                 orientationDot = Quaternion_Scale (Multiply (Orientation state) omegaQuat) 0.5;
                 newState = newState\<lparr>Orientation :=
                              Quaternion_Normalize
                                (Quaternion_Add (Orientation state)
                                   (Quaternion_Scale orientationDot dt))\<rparr>;
                 newState = newState\<lparr>Altitude := - Z (Position newState)\<rparr>;
                 newState = UpdateAtmosphere newState;
                 newState = UpdateDerivedParameters newState
             in Some (newState, ab\<lparr>previousDerivatives := Some derivatives\<rparr>))))"

section \<open>Adams-Bashforth formula and example inputs\<close>

text \<open>The two-step Adams-Bashforth formula as the specification writes it:
  y(n+1) = y(n) + dt/2 * (3 f(n) - f(n-1)), for a scalar and componentwise for a vector.\<close>

definition AB2_formula :: "real \<Rightarrow> real \<Rightarrow> real \<Rightarrow> real \<Rightarrow> real" where
  "AB2_formula y f_n f_prev dt = y + 1 / 2 * dt * (3 * f_n - f_prev)"

definition AB2_formula3 :: "Vector3 \<Rightarrow> Vector3 \<Rightarrow> Vector3 \<Rightarrow> real \<Rightarrow> Vector3" where
  "AB2_formula3 y f_n f_prev dt =
     \<lparr>X = AB2_formula (X y) (X f_n) (X f_prev) dt,
      Y = AB2_formula (Y y) (Y f_n) (Y f_prev) dt,
      Z = AB2_formula (Z y) (Z f_n) (Z f_prev) dt\<rparr>"


text \<open>Example inputs: two derivative values whose position derivative is the
  Earth-frame velocity of the state they belong to, the state after one step from
  \<open>NewAircraftState\<close>, and the integrator after that step.\<close>

definition c7_d0 :: StateDerivatives where
  "c7_d0 = \<lparr>PositionDot = \<lparr>X = 50, Y = 0, Z = 0\<rparr>,
            OrientationDot = \<lparr>W = 0, QX = 0, QY = 0, QZ = 0\<rparr>,
            VelocityDot = \<lparr>X = 10, Y = 0, Z = 0\<rparr>,
            AngularRateDot = \<lparr>X = 0, Y = 0, Z = 0\<rparr>,
            AltitudeDot = 0, MassDot = 0\<rparr>"

definition c7_d1 :: StateDerivatives where
  "c7_d1 = \<lparr>PositionDot = \<lparr>X = 60, Y = 0, Z = 0\<rparr>,
            OrientationDot = \<lparr>W = 0, QX = 0, QY = 0, QZ = 0\<rparr>,
            VelocityDot = \<lparr>X = 10, Y = 0, Z = 0\<rparr>,
            AngularRateDot = \<lparr>X = 0, Y = 0, Z = 0\<rparr>,
            AltitudeDot = 0, MassDot = 0\<rparr>"

definition c7_s1 :: AircraftState where
  "c7_s1 = EulerIntegrator_Integrate NewAircraftState c7_d0 1"

definition c7_ab1 :: AdamsBashforth2Integrator where
  "c7_ab1 = \<lparr>previousDerivatives = Some c7_d0, hasPrevious = True\<rparr>"

section \<open>Propulsion (propulsion system source)\<close>

text \<open>
  The engine, propeller, fuel system and tanks are reached through pointers owned
  by the propulsion system alone, so they are nested records here. Names and the
  mounting position and orientation of the engine are left out: \<open>Update\<close> reads
  none of them. The propeller's field \<^verbatim>\<open>RPM\<close> is \<open>PropRPM\<close>.
\<close>

record PistonEngine =
  IsRunning :: bool
  RPM :: real
  ManifoldPressure :: real
  ThrottlePosition :: real
  MaxRPM :: real
  MaxMAP :: real
  IdleRPM :: real
  IdleMAP :: real

record Propeller =
  Diameter :: real
  PropRPM :: real
  Thrust :: real
  Torque :: real
  InducedVelocity :: real

record FuelTank =
  Number :: int
  Capacity :: real
  Contents :: real
  Priority :: int

record FuelSystem =
  Tanks :: "FuelTank list"
  TotalCapacity :: real
  TotalContents :: real
  FuelFlow :: real

record PropulsionSystem =
  Engine :: PistonEngine
  Propeller :: Propeller
  FuelSystem :: FuelSystem
  MaxThrust :: real
  ReferenceRPM :: real
  ReferenceMAP :: real
  RunningFactor :: real

text \<open>The tank table of \<^verbatim>\<open>createFuelSystemFromXML\<close>: number, capacity, contents,
  priority.\<close>

definition tankConfigs :: "(int \<times> real \<times> real \<times> int) list" where
  "tankConfigs =
     [(0, 553.84, 396.0, 1), (1, 553.84, 396.0, 1), (2, 511.7, 0.0, 1),
      (3, 451.5, 0.0, 1), (4, 451.5, 0.0, 1)]"

fun createFuelSystem_loop :: "(int \<times> real \<times> real \<times> int) list \<Rightarrow> FuelSystem \<Rightarrow> FuelSystem" where
  "createFuelSystem_loop [] fs = fs"
| "createFuelSystem_loop ((number, capacity, contents, priority) # rest) fs =
     createFuelSystem_loop rest
       (fs\<lparr>Tanks := Tanks fs @ [\<lparr>Number = number, Capacity = capacity,
                                  Contents = contents, Priority = priority\<rparr>],
           TotalCapacity := TotalCapacity fs + capacity,
           TotalContents := TotalContents fs + contents\<rparr>)"

definition createFuelSystemFromXML :: FuelSystem where
  "createFuelSystemFromXML =
     createFuelSystem_loop tankConfigs
       \<lparr>Tanks = [], TotalCapacity = 0, TotalContents = 0, FuelFlow = 0\<rparr>"

definition NewPropulsionSystem :: PropulsionSystem where
  "NewPropulsionSystem =
     \<lparr>Engine = \<lparr>IsRunning = False, RPM = 0.0, ManifoldPressure = 29.92,
                ThrottlePosition = 0.0, MaxRPM = 3000.0, MaxMAP = 61.0,
                IdleRPM = 800.0, IdleMAP = 15.0\<rparr>,
      Propeller = \<lparr>Diameter = 11.2, PropRPM = 0.0, Thrust = 0.0, Torque = 0.0,
                   InducedVelocity = 0.0\<rparr>,
      FuelSystem = createFuelSystemFromXML,
      MaxThrust = 200.0, ReferenceRPM = 1260.0, ReferenceMAP = 81.0, RunningFactor = 0.3\<rparr>"

definition updateEngine :: "PropulsionSystem \<Rightarrow> real \<Rightarrow> PropulsionSystem" where
  "updateEngine ps dt =
     (let ps = (if \<not> IsRunning (Engine ps) \<and> 0.1 < ThrottlePosition (Engine ps)
                then ps\<lparr>Engine := (Engine ps)\<lparr>IsRunning := True\<rparr>\<rparr>
                else ps);
          ps = (if IsRunning (Engine ps)
                then (let throttle = ThrottlePosition (Engine ps) in
                      ps\<lparr>Engine := (Engine ps)
                           \<lparr>RPM := IdleRPM (Engine ps)
                                    + throttle * (MaxRPM (Engine ps) - IdleRPM (Engine ps)),
                            ManifoldPressure := IdleMAP (Engine ps)
                                    + throttle * (MaxMAP (Engine ps) - IdleMAP (Engine ps))\<rparr>\<rparr>)
                else ps\<lparr>Engine := (Engine ps)\<lparr>RPM := 0.0, ManifoldPressure := 29.92\<rparr>\<rparr>)
      in ps\<lparr>Propeller := (Propeller ps)\<lparr>PropRPM := RPM (Engine ps)\<rparr>\<rparr>)"

definition updatePropeller :: "PropulsionSystem \<Rightarrow> real \<Rightarrow> PropulsionSystem" where
  "updatePropeller ps dt =
     (let rpmFactor = PropRPM (Propeller ps) / ReferenceRPM ps;
          mapFactor = ManifoldPressure (Engine ps) / ReferenceMAP ps;
          ps = ps\<lparr>Propeller := (Propeller ps)
                    \<lparr>Thrust := RunningFactor ps * rpmFactor * mapFactor * MaxThrust ps\<rparr>\<rparr>;
          ps = ps\<lparr>Propeller := (Propeller ps)\<lparr>Thrust := max 0.0 (Thrust (Propeller ps))\<rparr>\<rparr>
      in if 0 < Thrust (Propeller ps)
         then ps\<lparr>Propeller := (Propeller ps)
                   \<lparr>InducedVelocity := sqrt (Thrust (Propeller ps) / 0.5)\<rparr>\<rparr>
         else ps\<lparr>Propeller := (Propeller ps)\<lparr>InducedVelocity := 0.0\<rparr>\<rparr>)"

fun consumeFuel_loop :: "FuelTank list \<Rightarrow> real \<Rightarrow> real \<Rightarrow> FuelTank list \<times> real" where
  "consumeFuel_loop [] remainingBurn totalContents = ([], totalContents)"
| "consumeFuel_loop (tank # rest) remainingBurn totalContents =
     (if remainingBurn \<le> 0 \<or> Contents tank \<le> 0
      then (let (ts, totalContents') = consumeFuel_loop rest remainingBurn totalContents
            in (tank # ts, totalContents'))
      else (let burnFromTank = min remainingBurn (Contents tank);
                tank' = tank\<lparr>Contents := Contents tank - burnFromTank\<rparr>;
                (ts, totalContents') = consumeFuel_loop rest (remainingBurn - burnFromTank)
                                 (totalContents - burnFromTank)
            in (tank' # ts, totalContents')))"

definition consumeFuel :: "PropulsionSystem \<Rightarrow> real \<Rightarrow> PropulsionSystem" where
  "consumeFuel ps fuelBurn =
     (let (tanks, totalContents) = consumeFuel_loop (Tanks (FuelSystem ps)) fuelBurn
                             (TotalContents (FuelSystem ps))
      in ps\<lparr>FuelSystem := (FuelSystem ps)\<lparr>Tanks := tanks, TotalContents := totalContents\<rparr>\<rparr>)"

definition updateFuelConsumption :: "PropulsionSystem \<Rightarrow> real \<Rightarrow> PropulsionSystem" where
  "updateFuelConsumption ps dt =
     (if IsRunning (Engine ps) \<and> 0 < Thrust (Propeller ps)
      then (let estimatedHP = Thrust (Propeller ps) * 0.75;
                ps = ps\<lparr>FuelSystem := (FuelSystem ps)\<lparr>FuelFlow := estimatedHP * 0.5\<rparr>\<rparr>;
                fuelBurn = FuelFlow (FuelSystem ps) * dt / 3600.0
            in consumeFuel ps fuelBurn)
      else ps\<lparr>FuelSystem := (FuelSystem ps)\<lparr>FuelFlow := 0.0\<rparr>\<rparr>)"

text \<open>\<open>Update\<close> sets the running factor last, after \<open>updatePropeller\<close> has read it.\<close>

definition Update :: "PropulsionSystem \<Rightarrow> real \<Rightarrow> real \<Rightarrow> PropulsionSystem" where
  "Update ps throttleInput dt =
     (let ps = ps\<lparr>Engine := (Engine ps)
                    \<lparr>ThrottlePosition := max 0.0 (min 1.0 throttleInput)\<rparr>\<rparr>;
          ps = updateEngine ps dt;
          ps = updatePropeller ps dt;
          ps = updateFuelConsumption ps dt
      in if IsRunning (Engine ps) then ps\<lparr>RunningFactor := 1.0\<rparr>
         else ps\<lparr>RunningFactor := 0.3\<rparr>)"

text \<open>The propulsion system of \<open>NewPropulsionSystem\<close> after the throttle has been set
  to 0.5 and \<open>updateEngine\<close> has run, inside \<open>Update NewPropulsionSystem 0.5 0.01\<close>.\<close>

definition c5_started :: PropulsionSystem where
  "c5_started = updateEngine (NewPropulsionSystem\<lparr>Engine := (Engine NewPropulsionSystem)
       \<lparr>ThrottlePosition := max 0.0 (min 1.0 0.5)\<rparr>\<rparr>) 0.01"

section \<open>Property manager (fcs\_property\_manager.go)\<close>

text \<open>
  The two maps of the property manager. The mutex and the listeners are left
  out: a listener is only notified (in a goroutine of its own) and \<^verbatim>\<open>Set\<close> and
  \<^verbatim>\<open>Get\<close> return the same values with or without it.
\<close>

record PropertyManager =
  properties :: "string \<rightharpoonup> real"
  aliases :: "string \<rightharpoonup> string"

definition PropertyManager_Set :: "PropertyManager \<Rightarrow> string \<Rightarrow> real \<Rightarrow> PropertyManager" where
  "PropertyManager_Set pm name val =
     (let name = (case aliases pm name of Some alias \<Rightarrow> alias | None \<Rightarrow> name)
      in pm\<lparr>properties := (properties pm)(name \<mapsto> val)\<rparr>)"

definition PropertyManager_Get :: "PropertyManager \<Rightarrow> string \<Rightarrow> real" where
  "PropertyManager_Get pm name =
     (let name = (case aliases pm name of Some alias \<Rightarrow> alias | None \<Rightarrow> name)
      in case properties pm name of Some val \<Rightarrow> val | None \<Rightarrow> 0.0)"

definition SetAlias :: "PropertyManager \<Rightarrow> string \<Rightarrow> string \<Rightarrow> PropertyManager" where
  "SetAlias pm alias target = pm\<lparr>aliases := (aliases pm)(alias \<mapsto> target)\<rparr>"

text \<open>A run of \<^verbatim>\<open>Set\<close> calls, in the order of the list.\<close>

fun SetAll :: "PropertyManager \<Rightarrow> (string \<times> real) list \<Rightarrow> PropertyManager" where
  "SetAll pm [] = pm"
| "SetAll pm ((name, val) # rest) = SetAll (PropertyManager_Set pm name val) rest"

text \<open>The assignments of \<^verbatim>\<open>initializeStandardProperties\<close>, in source order (the
  four pilot inputs are assigned twice there; the second assignment changes
  nothing).\<close>

definition standardProperties :: "(string \<times> real) list" where
  "standardProperties =
     [(''fcs/aileron-cmd-norm'', 0.0), (''fcs/elevator-cmd-norm'', 0.0),
      (''fcs/rudder-cmd-norm'', 0.0), (''fcs/throttle-cmd-norm'', 0.0),
      (''fcs/flap-cmd-norm'', 0.0), (''fcs/speedbrake-cmd-norm'', 0.0),
      (''fcs/gear-cmd-norm'', 0.0),
      (''fcs/left-aileron-pos-rad'', 0.0), (''fcs/right-aileron-pos-rad'', 0.0),
      (''fcs/elevator-pos-rad'', 0.0), (''fcs/rudder-pos-rad'', 0.0),
      (''fcs/flap-pos-norm'', 0.0), (''fcs/speedbrake-pos-norm'', 0.0),
      (''atmosphere/density-slugft3'', 0.002378), (''atmosphere/pressure-psf'', 2116.2),
      (''atmosphere/temperature-R'', 518.67), (''atmosphere/rho'', 1.225),
      (''velocities/vc-kts'', 0.0), (''velocities/ve-kts'', 0.0),
      (''velocities/vt-fps'', 0.0), (''velocities/mach'', 0.0),
      (''velocities/alpha-rad'', 0.0), (''velocities/beta-rad'', 0.0),
      (''velocities/p-rad_sec'', 0.0), (''velocities/q-rad_sec'', 0.0),
      (''velocities/r-rad_sec'', 0.0),
      (''position/h-sl-ft'', 0.0), (''attitude/phi-rad'', 0.0),
      (''attitude/theta-rad'', 0.0), (''attitude/psi-rad'', 0.0),
      (''forces/fbx-lbs'', 0.0), (''forces/fby-lbs'', 0.0), (''forces/fbz-lbs'', 0.0),
      (''moments/l-lbsft'', 0.0), (''moments/m-lbsft'', 0.0), (''moments/n-lbsft'', 0.0)]"

definition NewPropertyManager :: PropertyManager where
  "NewPropertyManager =
     \<lparr>properties = map_of (rev standardProperties), aliases = Map.empty\<rparr>"

definition UpdateFromAircraftState :: "PropertyManager \<Rightarrow> AircraftState \<Rightarrow> PropertyManager" where
  "UpdateFromAircraftState pm state =
     SetAll pm
       [(''fcs/aileron-cmd-norm'', Aileron (Controls state)),
        (''fcs/elevator-cmd-norm'', Elevator (Controls state)),
        (''fcs/rudder-cmd-norm'', Rudder (Controls state)),
        (''fcs/throttle-cmd-norm'', Throttle (Controls state)),
        (''fcs/flap-cmd-norm'', Flaps (Controls state)),
        (''fcs/left-aileron-pos-rad'', AileronLeft (ControlSurfaces state)),
        (''fcs/right-aileron-pos-rad'', AileronRight (ControlSurfaces state)),
        (''fcs/elevator-pos-rad'', SurfElevator (ControlSurfaces state)),
        (''fcs/rudder-pos-rad'', SurfRudder (ControlSurfaces state)),
        (''atmosphere/rho'', Density state),
        (''atmosphere/pressure-psf'', Pressure state * 0.020885),
        (''atmosphere/temperature-R'', Temperature state * 1.8),
        (''velocities/vt-fps'', Magnitude (Velocity state) * 3.28084),
        (''velocities/vc-kts'', CalibratedAirspeed state * 1.94384),
        (''velocities/alpha-rad'', 0.0),
        (''velocities/beta-rad'', 0.0),
        (''velocities/p-rad_sec'', X (AngularRate state)),
        (''velocities/q-rad_sec'', Y (AngularRate state)),
        (''velocities/r-rad_sec'', Z (AngularRate state)),
        (''position/h-sl-ft'', Altitude state * 3.28084),
        (''attitude/phi-rad'', 0.0),
        (''attitude/theta-rad'', 0.0),
        (''attitude/psi-rad'', 0.0)]"

definition ApplyToAircraftState :: "PropertyManager \<Rightarrow> AircraftState \<Rightarrow> AircraftState" where
  "ApplyToAircraftState pm state =
     state\<lparr>ControlSurfaces := (ControlSurfaces state)
       \<lparr>AileronLeft := PropertyManager_Get pm ''fcs/left-aileron-pos-rad'',
        AileronRight := PropertyManager_Get pm ''fcs/right-aileron-pos-rad'',
        SurfElevator := PropertyManager_Get pm ''fcs/elevator-pos-rad'',
        SurfRudder := PropertyManager_Get pm ''fcs/rudder-pos-rad''\<rparr>\<rparr>"

section \<open>Flight control components (FCS components source)\<close>

text \<open>
  \<^verbatim>\<open>BaseComponent\<close> is embedded in every component struct; the component records
  extend it. \<open>RateLimit = None\<close> is the rate limit \<^verbatim>\<open>math.Inf(1)\<close>. The lag
  filter's fields \<^verbatim>\<open>output\<close> and \<^verbatim>\<open>initialized\<close> are \<open>lfOutput\<close> and
  \<open>lfInitialized\<close>.
\<close>

record BaseComponent =
  Name :: string
  Type :: string
  Inputs :: "string list"
  Output :: string
  RateGroup :: string
  Enabled :: bool

record ActuatorComponent = BaseComponent +
  RateLimit :: "real option"
  Lag :: real
  HysteresisWidth :: real
  BiasValue :: real
  currentValue :: real
  targetValue :: real
  previousInput :: real
  initialized :: bool

record LagFilterComponent = BaseComponent +
  C1 :: real
  lfOutput :: real
  lfInitialized :: bool

record GainComponent = BaseComponent +
  Gain :: real

record SummerComponent = BaseComponent +
  Signs :: "real list"
  Bias :: real

record ClipperComponent = BaseComponent +
  MinValue :: real
  MaxValue :: real

record SwitchComponent = BaseComponent +
  TestProperty :: string
  TestValue :: real
  TestType :: string
  TrueValue :: real
  FalseValue :: real
  TrueInput :: string
  FalseInput :: string

definition NewActuatorComponent :: "string \<Rightarrow> string \<Rightarrow> string \<Rightarrow> ActuatorComponent" where
  "NewActuatorComponent name input outp =
     \<lparr>Name = name, Type = ''ACTUATOR'', Inputs = [input], Output = outp,
      RateGroup = '''', Enabled = True,
      RateLimit = None, Lag = 0.0, HysteresisWidth = 0.0, BiasValue = 0.0,
      currentValue = 0, targetValue = 0, previousInput = 0, initialized = False\<rparr>"

definition SetRateLimit :: "ActuatorComponent \<Rightarrow> real \<Rightarrow> ActuatorComponent" where
  "SetRateLimit ac rateLimit = ac\<lparr>RateLimit := Some rateLimit\<rparr>"

definition SetLag :: "ActuatorComponent \<Rightarrow> real \<Rightarrow> ActuatorComponent" where
  "SetLag ac lag = ac\<lparr>Lag := lag\<rparr>"

definition SetHysteresis :: "ActuatorComponent \<Rightarrow> real \<Rightarrow> ActuatorComponent" where
  "SetHysteresis ac width = ac\<lparr>HysteresisWidth := width\<rparr>"

text \<open>Every \<^verbatim>\<open>Execute\<close> returns its value, the component with its new internal
  state and the property manager after the write. The four blocks of the
  actuator's \<^verbatim>\<open>Execute\<close> (hysteresis, first-run initialisation, rate limiting, lag
  filtering) are named functions, applied in the order of the source.\<close>

definition Actuator_hysteresis :: "ActuatorComponent \<Rightarrow> real \<Rightarrow> real \<times> ActuatorComponent" where
  "Actuator_hysteresis ac inputValue =
     (if 0.0 < HysteresisWidth ac then
        (let halfWidth = HysteresisWidth ac / 2.0;
             inputValue = (if \<bar>inputValue - previousInput ac\<bar> < halfWidth
                           then previousInput ac else inputValue)
         in (inputValue, ac\<lparr>previousInput := inputValue\<rparr>))
      else (inputValue, ac))"

definition Actuator_initialize :: "ActuatorComponent \<Rightarrow> ActuatorComponent" where
  "Actuator_initialize ac =
     (if \<not> initialized ac
      then ac\<lparr>currentValue := 0.0, targetValue := 0.0, initialized := True\<rparr>
      else ac)"

definition Actuator_rateLimit :: "ActuatorComponent \<Rightarrow> real \<Rightarrow> real \<Rightarrow> ActuatorComponent" where
  "Actuator_rateLimit ac inputValue dt =
     (case RateLimit ac of
        Some rateLimit \<Rightarrow>
          (if 0.0 < rateLimit then
             (let maxChange = rateLimit * dt in
              if targetValue ac + maxChange < inputValue
              then ac\<lparr>targetValue := targetValue ac + maxChange\<rparr>
              else if inputValue < targetValue ac - maxChange
              then ac\<lparr>targetValue := targetValue ac - maxChange\<rparr>
              else ac\<lparr>targetValue := inputValue\<rparr>)
           else ac\<lparr>targetValue := inputValue\<rparr>)
      | None \<Rightarrow> ac\<lparr>targetValue := inputValue\<rparr>)"

definition Actuator_lag :: "ActuatorComponent \<Rightarrow> real \<Rightarrow> ActuatorComponent" where
  "Actuator_lag ac dt =
     (if 0.0 < Lag ac
      then (let alpha = dt / (Lag ac + dt)
            in ac\<lparr>currentValue :=
                    currentValue ac + alpha * (targetValue ac - currentValue ac)\<rparr>)
      else ac\<lparr>currentValue := targetValue ac\<rparr>)"

definition ActuatorComponent_Execute ::
  "ActuatorComponent \<Rightarrow> PropertyManager \<Rightarrow> real
     \<Rightarrow> real \<times> ActuatorComponent \<times> PropertyManager" where
  "ActuatorComponent_Execute ac props dt =
     (if \<not> Enabled ac \<or> length (Inputs ac) = 0 then (currentValue ac, ac, props)
      else
        (let inputValue = PropertyManager_Get props (Inputs ac ! 0) + BiasValue ac;
             (inputValue, ac) = Actuator_hysteresis ac inputValue;
             ac = Actuator_initialize ac;
             ac = Actuator_rateLimit ac inputValue dt;
             ac = Actuator_lag ac dt;
             props = (if Output ac \<noteq> ''''
                      then PropertyManager_Set props (Output ac) (currentValue ac)
                      else props)
         in (currentValue ac, ac, props)))"

definition ActuatorComponent_Reset :: "ActuatorComponent \<Rightarrow> ActuatorComponent" where
  "ActuatorComponent_Reset ac =
     ac\<lparr>currentValue := 0.0, targetValue := 0.0, previousInput := 0.0, initialized := False\<rparr>"

definition NewLagFilterComponent ::
  "string \<Rightarrow> string \<Rightarrow> string \<Rightarrow> real \<Rightarrow> LagFilterComponent" where
  "NewLagFilterComponent name input outp timeConstant =
     \<lparr>Name = name, Type = ''LAG_FILTER'', Inputs = [input], Output = outp,
      RateGroup = '''', Enabled = True,
      C1 = timeConstant, lfOutput = 0, lfInitialized = False\<rparr>"

text \<open>The pass-through branch of the lag filter reads \<^verbatim>\<open>lf.Inputs[0]\<close> also when
  the input list is empty: an index out of range, a run-time panic, the result
  \<open>None\<close>.\<close>

definition LagFilterComponent_Execute ::
  "LagFilterComponent \<Rightarrow> PropertyManager \<Rightarrow> real
     \<Rightarrow> (real \<times> LagFilterComponent \<times> PropertyManager) option" where
  "LagFilterComponent_Execute lf props dt =
     (if \<not> Enabled lf \<or> length (Inputs lf) = 0 \<or> C1 lf \<le> 0.0 then
        (if length (Inputs lf) = 0 then None
         else (let input = PropertyManager_Get props (Inputs lf ! 0)
               in Some (input, lf, PropertyManager_Set props (Output lf) input)))
      else
        (let input = PropertyManager_Get props (Inputs lf ! 0);
             lf = (if \<not> lfInitialized lf then lf\<lparr>lfOutput := 0.0, lfInitialized := True\<rparr>
                   else lf);
             alpha = dt / (C1 lf + dt);
             lf = lf\<lparr>lfOutput := lfOutput lf + alpha * (input - lfOutput lf)\<rparr>;
             props = (if Output lf \<noteq> ''''
                           then PropertyManager_Set props (Output lf) (lfOutput lf)
                           else props)
         in Some (lfOutput lf, lf, props)))"

definition LagFilterComponent_Reset :: "LagFilterComponent \<Rightarrow> LagFilterComponent" where
  "LagFilterComponent_Reset lf = lf\<lparr>lfOutput := 0.0, lfInitialized := False\<rparr>"

definition NewGainComponent :: "string \<Rightarrow> string \<Rightarrow> string \<Rightarrow> real \<Rightarrow> GainComponent" where
  "NewGainComponent name input outp gain =
     \<lparr>Name = name, Type = ''GAIN'', Inputs = [input], Output = outp,
      RateGroup = '''', Enabled = True, Gain = gain\<rparr>"

definition GainComponent_Execute ::
  "GainComponent \<Rightarrow> PropertyManager \<Rightarrow> real \<Rightarrow> real \<times> GainComponent \<times> PropertyManager" where
  "GainComponent_Execute gc props dt =
     (if \<not> Enabled gc \<or> length (Inputs gc) = 0 then (0.0, gc, props)
      else
        (let input = PropertyManager_Get props (Inputs gc ! 0);
             outp = input * Gain gc;
             props = (if Output gc \<noteq> ''''
                           then PropertyManager_Set props (Output gc) outp
                           else props)
         in (outp, gc, props)))"

definition NewSummerComponent :: "string \<Rightarrow> string list \<Rightarrow> string \<Rightarrow> SummerComponent" where
  "NewSummerComponent name inputs outp =
     \<lparr>Name = name, Type = ''SUMMER'', Inputs = inputs, Output = outp,
      RateGroup = '''', Enabled = True,
      Signs = replicate (length inputs) 1.0, Bias = 0.0\<rparr>"

text \<open>The loop of the summer over its inputs, from index \<open>i\<close> on; \<open>acc\<close> is the
  variable \<^verbatim>\<open>sum\<close> of the source.\<close>

fun Summer_loop :: "real list \<Rightarrow> PropertyManager \<Rightarrow> nat \<Rightarrow> string list \<Rightarrow> real \<Rightarrow> real" where
  "Summer_loop signs props i [] acc = acc"
| "Summer_loop signs props i (input # rest) acc =
     (let sign = (if i < length signs then signs ! i else 1.0)
      in Summer_loop signs props (i + 1) rest
           (acc + sign * PropertyManager_Get props input))"

definition SummerComponent_Execute ::
  "SummerComponent \<Rightarrow> PropertyManager \<Rightarrow> real
     \<Rightarrow> real \<times> SummerComponent \<times> PropertyManager" where
  "SummerComponent_Execute sc props dt =
     (if \<not> Enabled sc then (0.0, sc, props)
      else
        (let acc = Summer_loop (Signs sc) props 0 (Inputs sc) (Bias sc);
             props = (if Output sc \<noteq> ''''
                           then PropertyManager_Set props (Output sc) acc
                           else props)
         in (acc, sc, props)))"

definition NewClipperComponent ::
  "string \<Rightarrow> string \<Rightarrow> string \<Rightarrow> real \<Rightarrow> real \<Rightarrow> ClipperComponent" where
  "NewClipperComponent name input outp minVal maxVal =
     \<lparr>Name = name, Type = ''CLIPPER'', Inputs = [input], Output = outp,
      RateGroup = '''', Enabled = True, MinValue = minVal, MaxValue = maxVal\<rparr>"

definition ClipperComponent_Execute ::
  "ClipperComponent \<Rightarrow> PropertyManager \<Rightarrow> real
     \<Rightarrow> real \<times> ClipperComponent \<times> PropertyManager" where
  "ClipperComponent_Execute cc props dt =
     (if \<not> Enabled cc \<or> length (Inputs cc) = 0 then (0.0, cc, props)
      else
        (let input = PropertyManager_Get props (Inputs cc ! 0);
             outp = max (MinValue cc) (min (MaxValue cc) input);
             props = (if Output cc \<noteq> ''''
                           then PropertyManager_Set props (Output cc) outp
                           else props)
         in (outp, cc, props)))"

definition NewSwitchComponent :: "string \<Rightarrow> string \<Rightarrow> SwitchComponent" where
  "NewSwitchComponent name outp =
     \<lparr>Name = name, Type = ''SWITCH'', Inputs = [], Output = outp,
      RateGroup = '''', Enabled = True,
      TestProperty = '''', TestValue = 0, TestType = ''GT'',
      TrueValue = 1.0, FalseValue = 0.0, TrueInput = '''', FalseInput = ''''\<rparr>"

definition SwitchComponent_Execute ::
  "SwitchComponent \<Rightarrow> PropertyManager \<Rightarrow> real
     \<Rightarrow> real \<times> SwitchComponent \<times> PropertyManager" where
  "SwitchComponent_Execute sw props dt =
     (if \<not> Enabled sw then (0.0, sw, props)
      else
        (let testResult =
               (if TestProperty sw \<noteq> '''' then
                  (let testVal = PropertyManager_Get props (TestProperty sw) in
                   if TestType sw = ''GT'' then TestValue sw < testVal
                   else if TestType sw = ''LT'' then testVal < TestValue sw
                   else if TestType sw = ''GE'' then TestValue sw \<le> testVal
                   else if TestType sw = ''LE'' then testVal \<le> TestValue sw
                   else if TestType sw = ''EQ'' then \<bar>testVal - TestValue sw\<bar> < 1 / 10 ^ 10
                   else if TestType sw = ''NE'' then 1 / 10 ^ 10 \<le> \<bar>testVal - TestValue sw\<bar>
                   else False)
                else False);
             outp = (if testResult
                     then (if TrueInput sw \<noteq> ''''
                           then PropertyManager_Get props (TrueInput sw)
                           else TrueValue sw)
                     else (if FalseInput sw \<noteq> ''''
                           then PropertyManager_Get props (FalseInput sw)
                           else FalseValue sw));
             props = (if Output sw \<noteq> ''''
                           then PropertyManager_Set props (Output sw) outp
                           else props)
         in (outp, sw, props)))"

text \<open>The interface \<^verbatim>\<open>ComponentProcessor\<close> with its six implementations.\<close>

datatype ComponentProcessor =
    ActuatorC ActuatorComponent
  | LagFilterC LagFilterComponent
  | GainC GainComponent
  | SummerC SummerComponent
  | ClipperC ClipperComponent
  | SwitchC SwitchComponent

fun ComponentProcessor_Execute ::
  "ComponentProcessor \<Rightarrow> PropertyManager \<Rightarrow> real
     \<Rightarrow> (real \<times> ComponentProcessor \<times> PropertyManager) option" where
  "ComponentProcessor_Execute (ActuatorC ac) props dt =
     (let (v, ac', pm') = ActuatorComponent_Execute ac props dt
      in Some (v, ActuatorC ac', pm'))"
| "ComponentProcessor_Execute (LagFilterC lf) props dt =
     (case LagFilterComponent_Execute lf props dt of
        None \<Rightarrow> None
      | Some (v, lf', pm') \<Rightarrow> Some (v, LagFilterC lf', pm'))"
| "ComponentProcessor_Execute (GainC gc) props dt =
     (let (v, gc', pm') = GainComponent_Execute gc props dt
      in Some (v, GainC gc', pm'))"
| "ComponentProcessor_Execute (SummerC sc) props dt =
     (let (v, sc', pm') = SummerComponent_Execute sc props dt
      in Some (v, SummerC sc', pm'))"
| "ComponentProcessor_Execute (ClipperC cc) props dt =
     (let (v, cc', pm') = ClipperComponent_Execute cc props dt
      in Some (v, ClipperC cc', pm'))"
| "ComponentProcessor_Execute (SwitchC sw) props dt =
     (let (v, sw', pm') = SwitchComponent_Execute sw props dt
      in Some (v, SwitchC sw', pm'))"

fun GetName :: "ComponentProcessor \<Rightarrow> string" where
  "GetName (ActuatorC c) = Name c"
| "GetName (LagFilterC c) = Name c"
| "GetName (GainC c) = Name c"
| "GetName (SummerC c) = Name c"
| "GetName (ClipperC c) = Name c"
| "GetName (SwitchC c) = Name c"

fun GetRateGroup :: "ComponentProcessor \<Rightarrow> string" where
  "GetRateGroup (ActuatorC c) = RateGroup c"
| "GetRateGroup (LagFilterC c) = RateGroup c"
| "GetRateGroup (GainC c) = RateGroup c"
| "GetRateGroup (SummerC c) = RateGroup c"
| "GetRateGroup (ClipperC c) = RateGroup c"
| "GetRateGroup (SwitchC c) = RateGroup c"

fun SetRateGroup :: "ComponentProcessor \<Rightarrow> string \<Rightarrow> ComponentProcessor" where
  "SetRateGroup (ActuatorC c) rateGroup = ActuatorC (c\<lparr>RateGroup := rateGroup\<rparr>)"
| "SetRateGroup (LagFilterC c) rateGroup = LagFilterC (c\<lparr>RateGroup := rateGroup\<rparr>)"
| "SetRateGroup (GainC c) rateGroup = GainC (c\<lparr>RateGroup := rateGroup\<rparr>)"
| "SetRateGroup (SummerC c) rateGroup = SummerC (c\<lparr>RateGroup := rateGroup\<rparr>)"
| "SetRateGroup (ClipperC c) rateGroup = ClipperC (c\<lparr>RateGroup := rateGroup\<rparr>)"
| "SetRateGroup (SwitchC c) rateGroup = SwitchC (c\<lparr>RateGroup := rateGroup\<rparr>)"
section \<open>Flight control system scheduler (FCS execution engine source)\<close>

text \<open>
  Components are shared by reference: the master index, the channels and the rate
  groups hold pointers to the same component objects, and \<^verbatim>\<open>Execute\<close> changes the
  objects in place. The model keeps the objects in a heap, a map from addresses
  to components; an address without an object is a \<^verbatim>\<open>nil\<close> component, and
  calling a method on it is a run-time panic, the result \<open>None\<close>. The wall-clock
  fields (\<^verbatim>\<open>LastExecution\<close>, \<^verbatim>\<open>ExecutionTime\<close>, \<^verbatim>\<open>TotalTime\<close>) are left out. The
  fields \<^verbatim>\<open>Name\<close>, \<^verbatim>\<open>Components\<close> and \<^verbatim>\<open>Enabled\<close> carry the prefix of their struct.
\<close>

type_synonym addr = nat

type_synonym heap = "addr \<rightharpoonup> ComponentProcessor"

record RateGroupScheduler =
  rgsName :: string
  RateHz :: real
  Period :: real
  rgsComponents :: "addr list"
  rgsEnabled :: bool

definition NewRateGroupScheduler :: "string \<Rightarrow> real \<Rightarrow> RateGroupScheduler" where
  "NewRateGroupScheduler name rateHz =
     \<lparr>rgsName = name, RateHz = rateHz, Period = 1.0 / rateHz,
      rgsComponents = [], rgsEnabled = True\<rparr>"

definition RateGroupScheduler_AddComponent ::
  "heap \<Rightarrow> RateGroupScheduler \<Rightarrow> addr \<Rightarrow> (heap \<times> RateGroupScheduler) option" where
  "RateGroupScheduler_AddComponent h rgs component =
     (case h component of
        None \<Rightarrow> None
      | Some c \<Rightarrow>
          Some (h(component \<mapsto> SetRateGroup c (rgsName rgs)),
                rgs\<lparr>rgsComponents := rgsComponents rgs @ [component]\<rparr>))"

text \<open>The loop of \<^verbatim>\<open>RateGroupScheduler.Execute\<close> over the component list.\<close>

fun execComponents ::
  "addr list \<Rightarrow> heap \<Rightarrow> PropertyManager \<Rightarrow> real \<Rightarrow> (heap \<times> PropertyManager) option" where
  "execComponents [] h props dt = Some (h, props)"
| "execComponents (component # rest) h props dt =
     (case h component of
        None \<Rightarrow> None
      | Some c \<Rightarrow>
          (case ComponentProcessor_Execute c props dt of
             None \<Rightarrow> None
           | Some (v, c', props') \<Rightarrow> execComponents rest (h(component \<mapsto> c')) props' dt))"

definition RateGroupScheduler_Execute ::
  "heap \<Rightarrow> RateGroupScheduler \<Rightarrow> PropertyManager \<Rightarrow> real
     \<Rightarrow> (heap \<times> PropertyManager) option" where
  "RateGroupScheduler_Execute h rgs props dt =
     (if \<not> rgsEnabled rgs then Some (h, props)
      else execComponents (rgsComponents rgs) h props dt)"

record ChannelProcessor =
  chName :: string
  chComponents :: "addr list"
  chEnabled :: bool

record FlightControlSystem =
  fcsName :: string
  Properties :: PropertyManager
  RateGroups :: "string \<rightharpoonup> RateGroupScheduler"
  Channels :: "string \<rightharpoonup> ChannelProcessor"
  fcsComponents :: "string \<rightharpoonup> addr"
  DefaultRate :: real
  fcsEnabled :: bool
  TotalExecutions :: int

definition NewFlightControlSystem :: "string \<Rightarrow> real \<Rightarrow> FlightControlSystem" where
  "NewFlightControlSystem name defaultRateHz =
     \<lparr>fcsName = name, Properties = NewPropertyManager,
      RateGroups = Map.empty(''default'' \<mapsto> NewRateGroupScheduler ''default'' defaultRateHz),
      Channels = Map.empty, fcsComponents = Map.empty,
      DefaultRate = defaultRateHz, fcsEnabled = True, TotalExecutions = 0\<rparr>"

definition AddRateGroup :: "FlightControlSystem \<Rightarrow> string \<Rightarrow> real \<Rightarrow> FlightControlSystem" where
  "AddRateGroup fcs name rateHz =
     fcs\<lparr>RateGroups := (RateGroups fcs)(name \<mapsto> NewRateGroupScheduler name rateHz)\<rparr>"

definition FlightControlSystem_AddComponent ::
  "heap \<Rightarrow> FlightControlSystem \<Rightarrow> addr \<Rightarrow> (heap \<times> FlightControlSystem) option" where
  "FlightControlSystem_AddComponent h fcs component =
     (case h component of
        None \<Rightarrow> None
      | Some c \<Rightarrow>
          (let fcs = fcs\<lparr>fcsComponents := (fcsComponents fcs)(GetName c \<mapsto> component)\<rparr>;
               rateGroupName = GetRateGroup c;
               (h, rateGroupName) =
                 (if rateGroupName = ''''
                  then (h(component \<mapsto> SetRateGroup c ''default''), ''default'')
                  else (h, rateGroupName));
               target = (case RateGroups fcs rateGroupName of
                           Some rateGroup \<Rightarrow> Some (rateGroupName, rateGroup)
                         | None \<Rightarrow>
                             (case RateGroups fcs ''default'' of
                                Some rateGroup \<Rightarrow> Some (''default'', rateGroup)
                              | None \<Rightarrow> None))
           in case target of
                None \<Rightarrow> None
              | Some (key, rateGroup) \<Rightarrow>
                  (case RateGroupScheduler_AddComponent h rateGroup component of
                     None \<Rightarrow> None
                   | Some (h', rateGroup') \<Rightarrow>
                       Some (h', fcs\<lparr>RateGroups := (RateGroups fcs)(key \<mapsto> rateGroup')\<rparr>))))"

text \<open>
  \<^verbatim>\<open>FlightControlSystem.Execute\<close> ranges over the Go map \<^verbatim>\<open>fcs.RateGroups\<close>. The
  order in which a \<^verbatim>\<open>range\<close> statement visits the keys of a map is not fixed by
  the language and differs from run to run; the model takes the order of one run
  as the argument \<open>order\<close>, and \<open>visitOrder\<close> says that a list is a possible one:
  every key of the map exactly once.
\<close>

definition visitOrder :: "FlightControlSystem \<Rightarrow> string list \<Rightarrow> bool" where
  "visitOrder fcs order \<longleftrightarrow> distinct order \<and> set order = dom (RateGroups fcs)"

fun execRateGroups ::
  "string list \<Rightarrow> (string \<rightharpoonup> RateGroupScheduler) \<Rightarrow> heap \<Rightarrow> PropertyManager \<Rightarrow> real
     \<Rightarrow> (heap \<times> PropertyManager) option" where
  "execRateGroups [] groups h props dt = Some (h, props)"
| "execRateGroups (key # rest) groups h props dt =
     (case groups key of
        None \<Rightarrow> execRateGroups rest groups h props dt
      | Some rateGroup \<Rightarrow>
          (case RateGroupScheduler_Execute h rateGroup props dt of
             None \<Rightarrow> None
           | Some (h', props') \<Rightarrow> execRateGroups rest groups h' props' dt))"

definition FlightControlSystem_Execute ::
  "string list \<Rightarrow> heap \<Rightarrow> FlightControlSystem \<Rightarrow> AircraftState \<Rightarrow> real
     \<Rightarrow> (heap \<times> FlightControlSystem \<times> AircraftState) option" where
  "FlightControlSystem_Execute order h fcs state dt =
     (if \<not> fcsEnabled fcs then Some (h, fcs, state)
      else
        (let props = UpdateFromAircraftState (Properties fcs) state
         in case execRateGroups order (RateGroups fcs) h props dt of
              None \<Rightarrow> None
            | Some (h', props') \<Rightarrow>
                Some (h',
                      fcs\<lparr>Properties := props', TotalExecutions := TotalExecutions fcs + 1\<rparr>,
                      ApplyToAircraftState props' state)))"

section \<open>The actuator stages as the specification words them\<close>

text \<open>
  Hysteresis: if the change since the last accepted input is within the
  half-width, keep the previous input. Rate limiting: the change of the target is
  clamped to plus or minus rate limit times dt. Lag:
  output += dt / (tau + dt) * (target - output).
\<close>

definition hysteresis_stage :: "real \<Rightarrow> real \<Rightarrow> real \<Rightarrow> real" where
  "hysteresis_stage width previous inp =
     (if \<bar>inp - previous\<bar> < width / 2 then previous else inp)"

definition rate_limit_stage :: "real \<Rightarrow> real \<Rightarrow> real \<Rightarrow> real \<Rightarrow> real" where
  "rate_limit_stage rateLimit dt target inp =
     target + max (- (rateLimit * dt)) (min (rateLimit * dt) (inp - target))"

definition lag_stage :: "real \<Rightarrow> real \<Rightarrow> real \<Rightarrow> real \<Rightarrow> real" where
  "lag_stage tau dt out target = out + dt / (tau + dt) * (target - out)"

text \<open>The stages in order, from the value read from the input property: the
  accepted input (bias added, hysteresis applied), the rate-limited target
  (starting from 0 on the first execution) and the lagged output (likewise).\<close>

definition actuator_accepted :: "ActuatorComponent \<Rightarrow> real \<Rightarrow> real" where
  "actuator_accepted ac inputProperty =
     hysteresis_stage (HysteresisWidth ac) (previousInput ac) (inputProperty + BiasValue ac)"

definition actuator_target :: "ActuatorComponent \<Rightarrow> real \<Rightarrow> real \<Rightarrow> real" where
  "actuator_target ac inputProperty dt =
     (case RateLimit ac of
        None \<Rightarrow> actuator_accepted ac inputProperty
      | Some rateLimit \<Rightarrow>
          rate_limit_stage rateLimit dt (if initialized ac then targetValue ac else 0)
            (actuator_accepted ac inputProperty))"

definition actuator_output :: "ActuatorComponent \<Rightarrow> real \<Rightarrow> real \<Rightarrow> real" where
  "actuator_output ac inputProperty dt =
     lag_stage (Lag ac) dt (if initialized ac then currentValue ac else 0)
       (actuator_target ac inputProperty dt)"

text \<open>The guards of \<^verbatim>\<open>Execute\<close>: the rate limit is applied when it is finite and
  positive, the lag when the time constant is positive; otherwise the stage hands
  its input on unchanged.\<close>

definition guarded_target :: "ActuatorComponent \<Rightarrow> real \<Rightarrow> real \<Rightarrow> real" where
  "guarded_target ac inputProperty dt =
     (case RateLimit ac of
        None \<Rightarrow> actuator_accepted ac inputProperty
      | Some rateLimit \<Rightarrow>
          if 0 < rateLimit
          then rate_limit_stage rateLimit dt (if initialized ac then targetValue ac else 0)
                 (actuator_accepted ac inputProperty)
          else actuator_accepted ac inputProperty)"

definition guarded_output :: "ActuatorComponent \<Rightarrow> real \<Rightarrow> real \<Rightarrow> real" where
  "guarded_output ac inputProperty dt =
     (if 0 < Lag ac
      then lag_stage (Lag ac) dt (if initialized ac then currentValue ac else 0)
             (guarded_target ac inputProperty dt)
      else guarded_target ac inputProperty dt)"

text \<open>The elevator actuator of \<^verbatim>\<open>CreateStandardP51DFlightControlSystem\<close>.\<close>

definition elevatorActuator :: ActuatorComponent where
  "elevatorActuator =
     SetHysteresis
       (SetLag
          (SetRateLimit
             (NewActuatorComponent ''fcs/elevator-actuator'' ''fcs/elevator-cmd-norm''
                ''fcs/elevator-pos-rad'')
             2.5)
          0.06)
       0.02"

section \<open>Example flight control systems\<close>

text \<open>
  Two components of \<^verbatim>\<open>CreateStandardP51DFlightControlSystem\<close>, built and added as
  the source does: the right aileron gain, which names no rate group and lands in
  "default", and the right aileron actuator, which reads the gain's output and
  runs in the rate group "high"; they live at the addresses 10 and 20. \<open>c1_setup1\<close> is the system with the gain alone,
  \<open>c1_setup\<close> the system with both.
\<close>

definition c1_gain :: ComponentProcessor where
  "c1_gain = GainC (NewGainComponent ''fcs/right-aileron-gain'' ''fcs/aileron-cmd-norm''
                      ''fcs/right-aileron-cmd-norm'' (- 1.0))"

definition c1_act :: ActuatorComponent where
  "c1_act =
     (SetLag
        (SetRateLimit
           (NewActuatorComponent ''fcs/right-aileron-actuator''
              ''fcs/right-aileron-cmd-norm'' ''fcs/right-aileron-pos-rad'')
           3.0)
        0.04)\<lparr>RateGroup := ''high''\<rparr>"

definition c1_actuator :: ComponentProcessor where
  "c1_actuator = ActuatorC c1_act"

definition c1_heap0 :: heap where
  "c1_heap0 = Map.empty(10 \<mapsto> c1_gain, 20 \<mapsto> c1_actuator)"

definition c1_fcs0 :: FlightControlSystem where
  "c1_fcs0 = AddRateGroup (NewFlightControlSystem ''P51D FCS'' 120.0) ''high'' 120.0"

definition c1_setup1 :: "(heap \<times> FlightControlSystem) option" where
  "c1_setup1 = FlightControlSystem_AddComponent c1_heap0 c1_fcs0 10"

definition c1_heap1 :: heap where
  "c1_heap1 = fst (the c1_setup1)"

definition c1_fcs1 :: FlightControlSystem where
  "c1_fcs1 = snd (the c1_setup1)"

definition c1_setup :: "(heap \<times> FlightControlSystem) option" where
  "c1_setup = FlightControlSystem_AddComponent c1_heap1 c1_fcs1 20"

definition c1_heap :: heap where
  "c1_heap = fst (the c1_setup)"

definition c1_fcs :: FlightControlSystem where
  "c1_fcs = snd (the c1_setup)"

text \<open>The pilot holds full right aileron.\<close>

definition c1_state :: AircraftState where
  "c1_state = NewAircraftState\<lparr>Controls := NewControlInputs\<lparr>Aileron := 1\<rparr>\<rparr>"

text \<open>A rate group whose execution does nothing: disabled, or without
  components.\<close>

definition idleGroup :: "RateGroupScheduler \<Rightarrow> bool" where
  "idleGroup rateGroup \<longleftrightarrow> \<not> rgsEnabled rateGroup \<or> rgsComponents rateGroup = []"

section \<open>Table engine (jsbsimxmlparser.go)\<close>

text \<open>
  An error returned by the source is a value of \<open>error\<close>, one constructor per
  message; \<open>Panic\<close> is a run-time panic (an index out of range, a \<^verbatim>\<open>nil\<close>
  dereference), which no caller of the source recovers from.
\<close>

datatype error =
    NilFunction
  | NoValidOperation
  | NoValues
  | InputCount nat nat
  | UnsupportedDimension nat
  | Panic

definition index :: "'a list \<Rightarrow> nat \<Rightarrow> error + 'a" where
  "index xs i = (if i < length xs then Inr (xs ! i) else Inl Panic)"

record Table1D =
  Indices :: "real list"
  Values :: "real list"

record Table2D =
  Breakpoint :: real
  RowIndices :: "real list"
  ColIndices :: "real list"
  Data :: "real list list"

text \<open>
  The text of a \<^verbatim>\<open>tableData\<close> element is kept in tokenised form: \<open>tdLines\<close> holds,
  for each line of the trimmed text, the numbers \<^verbatim>\<open>strconv.ParseFloat\<close> returns for
  the fields of the line (a blank line is the empty list), and \<open>tdBreakpoint\<close> the
  number it returns for the breakpoint attribute. Splitting the text and
  converting the numerals are not modelled.
\<close>

record TableData =
  tdBreakpoint :: real
  tdLines :: "real list list"

record IndependentVar =
  Lookup :: string
  ivValue :: string

record Table =
  tblName :: string
  IndependentVar :: "IndependentVar list"
  TableData :: "TableData list"

record ParsedTable =
  ptName :: string
  Dimension :: nat
  IndependentVars :: "string list"
  LookupTypes :: "string list"
  Data1D :: "Table1D option"
  Data2D :: "Table2D option"
  Data3D :: "Table2D list"

text \<open>\<^verbatim>\<open>strings.TrimSpace\<close> on the white space of ASCII.\<close>

definition isSpace :: "char \<Rightarrow> bool" where
  "isSpace c \<longleftrightarrow> c \<in> {CHR '' '', CHR 0x09, CHR 0x0A, CHR 0x0B, CHR 0x0C, CHR 0x0D}"

definition TrimSpace :: "string \<Rightarrow> string" where
  "TrimSpace s = rev (dropWhile isSpace (rev (dropWhile isSpace s)))"

fun parse1DTableData_loop :: "real list list \<Rightarrow> Table1D \<Rightarrow> Table1D" where
  "parse1DTableData_loop [] t = t"
| "parse1DTableData_loop (flds # rest) t =
     parse1DTableData_loop rest
       (if 2 \<le> length flds
        then t\<lparr>Indices := Indices t @ [flds ! 0], Values := Values t @ [flds ! 1]\<rparr>
        else t)"

definition parse1DTableData :: "real list list \<Rightarrow> Table1D" where
  "parse1DTableData lines = parse1DTableData_loop lines \<lparr>Indices = [], Values = []\<rparr>"

fun parse2DTableData_loop :: "real list list \<Rightarrow> Table2D \<Rightarrow> Table2D" where
  "parse2DTableData_loop [] t = t"
| "parse2DTableData_loop (flds # rest) t =
     parse2DTableData_loop rest
       (if 0 < length flds
        then t\<lparr>RowIndices := RowIndices t @ [flds ! 0], Data := Data t @ [tl flds]\<rparr>
        else t)"

definition parse2DTableData :: "real list list \<Rightarrow> Table2D option" where
  "parse2DTableData lines =
     (if length lines < 2 then None
      else Some (parse2DTableData_loop (tl lines)
                   \<lparr>Breakpoint = 0, RowIndices = [], ColIndices = hd lines, Data = []\<rparr>))"

fun ParseTable_3D :: "TableData list \<Rightarrow> error + Table2D list" where
  "ParseTable_3D [] = Inr []"
| "ParseTable_3D (td # rest) =
     (case parse2DTableData (tdLines td) of
        None \<Rightarrow> Inl Panic
      | Some parsed2D \<Rightarrow>
          (case ParseTable_3D rest of
             Inl e \<Rightarrow> Inl e
           | Inr ts \<Rightarrow>
               Inr (\<lparr>Breakpoint = tdBreakpoint td, RowIndices = RowIndices parsed2D,
                     ColIndices = ColIndices parsed2D, Data = Data parsed2D\<rparr> # ts)))"

definition ParseTable :: "Table \<Rightarrow> error + ParsedTable" where
  "ParseTable t =
     (let pt = \<lparr>ptName = tblName t, Dimension = 0,
                 IndependentVars = map (\<lambda>iv. TrimSpace (ivValue iv)) (IndependentVar t),
                 LookupTypes = map Lookup (IndependentVar t),
                 Data1D = None, Data2D = None, Data3D = []\<rparr>
      in if length (IndependentVar t) = 1 then
           (case index (TableData t) 0 of
              Inl e \<Rightarrow> Inl e
            | Inr td \<Rightarrow> Inr (pt\<lparr>Dimension := 1,
                                 Data1D := Some (parse1DTableData (tdLines td))\<rparr>))
         else if length (IndependentVar t) = 2 then
           (case index (TableData t) 0 of
              Inl e \<Rightarrow> Inl e
            | Inr td \<Rightarrow> Inr (pt\<lparr>Dimension := 2, Data2D := parse2DTableData (tdLines td)\<rparr>))
         else if length (IndependentVar t) = 3 then
           (case ParseTable_3D (TableData t) of
              Inl e \<Rightarrow> Inl e
            | Inr ts \<Rightarrow> Inr (pt\<lparr>Dimension := 3, Data3D := ts\<rparr>))
         else Inr pt)"

text \<open>The search loop of \<^verbatim>\<open>interpolate1D\<close>, from index \<open>i\<close> on.\<close>

function interpolate1D_loop :: "Table1D \<Rightarrow> real \<Rightarrow> nat \<Rightarrow> error + real" where
  "interpolate1D_loop t x i =
     (if i + 1 < length (Indices t) then
        (if Indices t ! i \<le> x \<and> x \<le> Indices t ! (i + 1) then
           (let frac = (x - Indices t ! i) / (Indices t ! (i + 1) - Indices t ! i)
            in case (index (Values t) i, index (Values t) (i + 1)) of
                 (Inr vi, Inr vj) \<Rightarrow> Inr (vi + frac * (vj - vi))
               | _ \<Rightarrow> Inl Panic)
         else interpolate1D_loop t x (i + 1))
      else index (Values t) (length (Indices t) - 1))"
  by pat_completeness auto
termination
  by (relation "measure (\<lambda>(t, x, i). length (Indices t) - i)") auto

definition interpolate1D :: "Table1D \<Rightarrow> real \<Rightarrow> error + real" where
  "interpolate1D t x =
     (let n = length (Indices t) in
      if n = 0 then Inr 0
      else if x \<le> Indices t ! 0 then index (Values t) 0
      else if Indices t ! (n - 1) \<le> x then index (Values t) (n - 1)
      else interpolate1D_loop t x 0)"

function findIndices_loop :: "real list \<Rightarrow> real \<Rightarrow> nat \<Rightarrow> nat \<times> nat \<times> real" where
  "findIndices_loop indices val i =
     (if i + 1 < length indices then
        (if indices ! i \<le> val \<and> val \<le> indices ! (i + 1) then
           (i, i + 1,
            if indices ! (i + 1) \<noteq> indices ! i
            then (val - indices ! i) / (indices ! (i + 1) - indices ! i) else 0.0)
         else findIndices_loop indices val (i + 1))
      else (length indices - 1, length indices - 1, 0))"
  by pat_completeness auto
termination
  by (relation "measure (\<lambda>(indices, val, i). length indices - i)") auto

definition findIndices :: "real list \<Rightarrow> real \<Rightarrow> nat \<times> nat \<times> real" where
  "findIndices indices val =
     (let n = length indices in
      if n = 0 then (0, 0, 0)
      else if val \<le> indices ! 0 then (0, 0, 0)
      else if indices ! (n - 1) \<le> val then (n - 1, n - 1, 0)
      else findIndices_loop indices val 0)"

text \<open>\<open>cell d r c\<close> is the read \<^verbatim>\<open>t.Data[r][c]\<close>.\<close>

definition cell :: "real list list \<Rightarrow> nat \<Rightarrow> nat \<Rightarrow> error + real" where
  "cell d r c = (case index d r of Inl e \<Rightarrow> Inl e | Inr row \<Rightarrow> index row c)"

text \<open>\<open>lerp a b fraction\<close> is the expression \<^verbatim>\<open>a + frac*(b-a)\<close> over two reads, a panic
  if either read panics.\<close>

definition lerp :: "error + real \<Rightarrow> error + real \<Rightarrow> real \<Rightarrow> error + real" where
  "lerp a b fraction =
     (case (a, b) of (Inr va, Inr vb) \<Rightarrow> Inr (va + fraction * (vb - va)) | _ \<Rightarrow> Inl Panic)"

definition interpolate2D :: "Table2D option \<Rightarrow> real \<Rightarrow> real \<Rightarrow> error + real" where
  "interpolate2D topt row col =
     (case topt of
        None \<Rightarrow> Inr 0
      | Some t \<Rightarrow>
          if length (Data t) = 0 then Inr 0
          else if length (RowIndices t) = 0 \<or> length (ColIndices t) = 0
                  \<or> length (Data t) = 0 then Inr 0
          else if \<exists>r \<in> set (Data t). length r = 0 then Inr 0
          else
            (let (rowIdx1, rowIdx2, rowFrac) = findIndices (RowIndices t) row;
                 (colIdx1, colIdx2, colFrac) = findIndices (ColIndices t) col
             in if length (Data t) \<le> rowIdx1 \<or> length (Data t) \<le> rowIdx2 then Inr 0
                else if length (Data t ! 0) = 0 \<or> length (Data t ! 0) \<le> colIdx1
                        \<or> length (Data t ! 0) \<le> colIdx2 then Inr 0
                else if length (ColIndices t) = 1 \<or> colIdx1 = colIdx2 then
                  (if length (RowIndices t) = 1 \<or> rowIdx1 = rowIdx2
                   then cell (Data t) rowIdx1 colIdx1
                   else lerp (cell (Data t) rowIdx1 colIdx1) (cell (Data t) rowIdx2 colIdx1)
                          rowFrac)
                else if length (RowIndices t) = 1 \<or> rowIdx1 = rowIdx2 then
                  lerp (cell (Data t) rowIdx1 colIdx1) (cell (Data t) rowIdx1 colIdx2) colFrac
                else
                  (let v1 = lerp (cell (Data t) rowIdx1 colIdx1) (cell (Data t) rowIdx1 colIdx2)
                              colFrac;
                       v2 = lerp (cell (Data t) rowIdx2 colIdx1) (cell (Data t) rowIdx2 colIdx2)
                              colFrac
                   in lerp v1 v2 rowFrac)))"

function interpolate3D_loop :: "Table2D list \<Rightarrow> real \<Rightarrow> nat \<Rightarrow> nat \<times> nat \<times> real" where
  "interpolate3D_loop tables tbl i =
     (if i + 1 < length tables then
        (if Breakpoint (tables ! i) \<le> tbl \<and> tbl \<le> Breakpoint (tables ! (i + 1)) then
           (i, i + 1,
            if Breakpoint (tables ! (i + 1)) \<noteq> Breakpoint (tables ! i)
            then (tbl - Breakpoint (tables ! i))
                   / (Breakpoint (tables ! (i + 1)) - Breakpoint (tables ! i))
            else 0.0)
         else interpolate3D_loop tables tbl (i + 1))
      else (0, 0, 0.0))"
  by pat_completeness auto
termination
  by (relation "measure (\<lambda>(tables, tbl, i). length tables - i)") auto

definition interpolate3D :: "Table2D list \<Rightarrow> real \<Rightarrow> real \<Rightarrow> real \<Rightarrow> error + real" where
  "interpolate3D tables row col tbl =
     (if length tables = 0 then Inr 0
      else
        (let (tableIdx1, tableIdx2, tableFrac) = interpolate3D_loop tables tbl 0
         in if tbl < Breakpoint (tables ! 0) then interpolate2D (Some (tables ! 0)) row col
            else if Breakpoint (tables ! (length tables - 1)) < tbl
            then interpolate2D (Some (tables ! (length tables - 1))) row col
            else lerp (interpolate2D (Some (tables ! tableIdx1)) row col)
                      (interpolate2D (Some (tables ! tableIdx2)) row col) tableFrac))"

definition InterpolateTable :: "ParsedTable \<Rightarrow> real list \<Rightarrow> error + real" where
  "InterpolateTable pt inputs =
     (if Dimension pt = 1 then
        (if length inputs \<noteq> 1 then Inl (InputCount 1 (length inputs))
         else case Data1D pt of
                None \<Rightarrow> Inl Panic
              | Some t \<Rightarrow> interpolate1D t (inputs ! 0))
      else if Dimension pt = 2 then
        (if length inputs \<noteq> 2 then Inl (InputCount 2 (length inputs))
         else interpolate2D (Data2D pt) (inputs ! 0) (inputs ! 1))
      else if Dimension pt = 3 then
        (if length inputs \<noteq> 3 then Inl (InputCount 3 (length inputs))
         else interpolate3D (Data3D pt) (inputs ! 0) (inputs ! 1) (inputs ! 2))
      else Inl (UnsupportedDimension (Dimension pt)))"

declare interpolate1D_loop.simps [simp del]
declare findIndices_loop.simps [simp del]
declare interpolate3D_loop.simps [simp del]

section \<open>Expression evaluator (jsbsimxmlparser.go)\<close>

text \<open>
  The math helpers of the source are its own approximations, not the library
  functions; they carry a prime here because their names are taken. The
  conversion \<^verbatim>\<open>int(y)\<close> of a float is \<open>toInt\<close>: it drops the fractional part.
\<close>

definition toInt :: "real \<Rightarrow> int" where
  "toInt y = (if 0 \<le> y then \<lfloor>y\<rfloor> else \<lceil>y\<rceil>)"

fun pow_loop :: "real \<Rightarrow> nat \<Rightarrow> real \<Rightarrow> real" where
  "pow_loop x 0 result = result"
| "pow_loop x (Suc k) result = pow_loop x k (result * x)"

definition pow' :: "real \<Rightarrow> real \<Rightarrow> real" where
  "pow' x y = pow_loop x (nat (toInt y)) 1.0"

definition abs' :: "real \<Rightarrow> real" where
  "abs' x = (if x < 0 then - x else x)"

definition fmod :: "real \<Rightarrow> real \<Rightarrow> real" where
  "fmod x y = (if y = 0 then x else x - y * of_int (toInt (x / y)))"

text \<open>The loop of \<^verbatim>\<open>sin\<close>: \<open>k\<close> iterations are left, \<open>i\<close> is the loop counter.\<close>

fun sin_loop :: "real \<Rightarrow> nat \<Rightarrow> nat \<Rightarrow> real \<Rightarrow> real \<Rightarrow> real" where
  "sin_loop x 0 i term result = result"
| "sin_loop x (Suc k) i term result =
     (let term = term * (- x * x / real ((2 * i) * (2 * i + 1)))
      in sin_loop x k (i + 1) term (result + term))"

definition sin' :: "real \<Rightarrow> real" where
  "sin' x = (let x = fmod x (2 * 3.14159265359) in sin_loop x 10 1 x x)"

definition cos' :: "real \<Rightarrow> real" where
  "cos' x = sin' (x + 3.14159265359 / 2)"

definition tan' :: "real \<Rightarrow> real" where
  "tan' x = (let c = cos' x in if c \<noteq> 0 then sin' x / c else 0)"

definition asin' :: "real \<Rightarrow> real" where
  "asin' x = (if x < - 1 \<or> 1 < x then 0
              else x + (x * x * x) / 6 + (3 * x * x * x * x * x) / 40)"

definition acos' :: "real \<Rightarrow> real" where
  "acos' x = 3.14159265359 / 2 - asin' x"

definition atan' :: "real \<Rightarrow> real" where
  "atan' x = x - (x * x * x) / 3 + (x * x * x * x * x) / 5"

text \<open>The reduction loops of \<^verbatim>\<open>performOperation\<close>, each over the values still to
  come.\<close>

fun product_loop :: "real list \<Rightarrow> real \<Rightarrow> real" where
  "product_loop [] result = result"
| "product_loop (v # vs) result = product_loop vs (result * v)"

fun sum_loop :: "real list \<Rightarrow> real \<Rightarrow> real" where
  "sum_loop [] result = result"
| "sum_loop (v # vs) result = sum_loop vs (result + v)"

fun difference_loop :: "real list \<Rightarrow> real \<Rightarrow> real" where
  "difference_loop [] result = result"
| "difference_loop (v # vs) result = difference_loop vs (result - v)"

fun quotient_loop :: "real list \<Rightarrow> real \<Rightarrow> real" where
  "quotient_loop [] result = result"
| "quotient_loop (v # vs) result =
     quotient_loop vs (if v \<noteq> 0 then result / v else result)"

definition performOperation :: "string \<Rightarrow> real list \<Rightarrow> real" where
  "performOperation opType vals =
     (if length vals = 0 then 0
      else if opType = ''product'' then product_loop vals 1.0
      else if opType = ''sum'' then sum_loop vals 0.0
      else if opType = ''difference'' then
        (if length vals < 2 then vals ! 0 else difference_loop (tl vals) (vals ! 0))
      else if opType = ''quotient'' then
        (if length vals < 2 then vals ! 0 else quotient_loop (tl vals) (vals ! 0))
      else if opType = ''pow'' then
        (if length vals < 2 then vals ! 0 else pow' (vals ! 0) (vals ! 1))
      else if opType = ''abs'' then abs' (vals ! 0)
      else if opType = ''sin'' then sin' (vals ! 0)
      else if opType = ''cos'' then cos' (vals ! 0)
      else if opType = ''tan'' then tan' (vals ! 0)
      else if opType = ''asin'' then asin' (vals ! 0)
      else if opType = ''acos'' then acos' (vals ! 0)
      else if opType = ''atan'' then atan' (vals ! 0)
      else vals ! 0)"

text \<open>
  An expression node. The fields \<^verbatim>\<open>Value\<close> and \<^verbatim>\<open>Table\<close> are \<open>opValue\<close> and
  \<open>opTable\<close>, the twelve nested operations carry the prefix \<open>op\<close>; an absent
  (\<^verbatim>\<open>nil\<close>) table or operation is \<open>None\<close>.
\<close>

datatype Operation =
  Operation
    (Property: "string list")
    (opValue: "real list")
    (opTable: "Table option")
    (opProduct: "Operation option")
    (opDifference: "Operation option")
    (opSum: "Operation option")
    (opQuotient: "Operation option")
    (opPow: "Operation option")
    (opAbs: "Operation option")
    (opSin: "Operation option")
    (opCos: "Operation option")
    (opTan: "Operation option")
    (opAsin: "Operation option")
    (opAcos: "Operation option")
    (opAtan: "Operation option")

text \<open>The first loop of \<^verbatim>\<open>evaluateOperation\<close>: the store's value for every property
  name the store holds; a name it does not hold adds nothing.\<close>

fun propertyValues :: "string list \<Rightarrow> (string \<rightharpoonup> real) \<Rightarrow> real list" where
  "propertyValues [] props = []"
| "propertyValues (prop # rest) props =
     (case props prop of
        Some val \<Rightarrow> val # propertyValues rest props
      | None \<Rightarrow> propertyValues rest props)"

text \<open>The inputs of a table lookup: \<^verbatim>\<open>properties[varName]\<close>, which is 0 for a name
  the store does not hold.\<close>

definition tableInputs :: "string list \<Rightarrow> (string \<rightharpoonup> real) \<Rightarrow> real list" where
  "tableInputs varNames props =
     map (\<lambda>varName. case props varName of Some val \<Rightarrow> val | None \<Rightarrow> 0) varNames"

definition evaluateTable :: "Table \<Rightarrow> (string \<rightharpoonup> real) \<Rightarrow> error + real" where
  "evaluateTable t props =
     (case ParseTable t of
        Inl e \<Rightarrow> Inl e
      | Inr pt \<Rightarrow> InterpolateTable pt (tableInputs (IndependentVars pt) props))"

text \<open>
  \<open>appendResult vals r\<close> is one step of the collection: \<open>r\<close> is the result of a
  nested evaluation, if the field is present. A value is appended; an error is
  dropped (the source tests \<^verbatim>\<open>err == nil\<close>); a panic ends the evaluation.
\<close>

fun appendResult :: "error + real list \<Rightarrow> (error + real) option \<Rightarrow> error + real list" where
  "appendResult (Inl e) r = Inl e"
| "appendResult (Inr vals) None = Inr vals"
| "appendResult (Inr vals) (Some (Inr val)) = Inr (vals @ [val])"
| "appendResult (Inr vals) (Some (Inl Panic)) = Inl Panic"
| "appendResult (Inr vals) (Some (Inl e)) = Inr vals"

text \<open>
  \<^verbatim>\<open>evaluateOperation\<close> in two parts: \<open>collectValues\<close> builds the slice \<^verbatim>\<open>values\<close>
  (property values, literal values, the nested product, sum, difference and
  quotient, then the table), \<open>evaluateOperation\<close> reduces it.
\<close>

fun collectValues :: "Operation \<Rightarrow> (string \<rightharpoonup> real) \<Rightarrow> error + real list"
  and evaluateOperation :: "Operation \<Rightarrow> string \<Rightarrow> (string \<rightharpoonup> real) \<Rightarrow> error + real" where
  "collectValues
     (Operation names literals tbl sProduct sDifference sSum sQuotient
        sPow sAbs sSin sCos sTan sAsin sAcos sAtan)
     props =
     (let vals = Inr (propertyValues names props @ literals);
          vals = appendResult vals
                   (case sProduct of None \<Rightarrow> None
                    | Some sub \<Rightarrow> Some (evaluateOperation sub ''product'' props));
          vals = appendResult vals
                   (case sSum of None \<Rightarrow> None
                    | Some sub \<Rightarrow> Some (evaluateOperation sub ''sum'' props));
          vals = appendResult vals
                   (case sDifference of None \<Rightarrow> None
                    | Some sub \<Rightarrow> Some (evaluateOperation sub ''difference'' props));
          vals = appendResult vals
                   (case sQuotient of None \<Rightarrow> None
                    | Some sub \<Rightarrow> Some (evaluateOperation sub ''quotient'' props))
      in appendResult vals
           (case tbl of None \<Rightarrow> None | Some t \<Rightarrow> Some (evaluateTable t props)))"
| "evaluateOperation oper opType props =
     (case collectValues oper props of
        Inl e \<Rightarrow> Inl e
      | Inr vals \<Rightarrow>
          if length vals = 0 then Inl NoValues else Inr (performOperation opType vals))"

text \<open>A function of the configuration; its operation fields carry the prefix
  \<open>fn\<close>.\<close>

record Function =
  fnName :: string
  fnDescription :: string
  fnProduct :: "Operation option"
  fnDifference :: "Operation option"
  fnSum :: "Operation option"
  fnQuotient :: "Operation option"
  fnPow :: "Operation option"
  fnAbs :: "Operation option"
  fnSin :: "Operation option"
  fnCos :: "Operation option"
  fnTan :: "Operation option"
  fnAsin :: "Operation option"
  fnAcos :: "Operation option"
  fnAtan :: "Operation option"
  fnTable :: "Table option"

definition EvaluateFunction :: "Function option \<Rightarrow> (string \<rightharpoonup> real) \<Rightarrow> error + real" where
  "EvaluateFunction fopt props =
     (case fopt of
        None \<Rightarrow> Inl NilFunction
      | Some f \<Rightarrow>
          (case fnProduct f of Some oper \<Rightarrow> evaluateOperation oper ''product'' props | None \<Rightarrow>
          (case fnSum f of Some oper \<Rightarrow> evaluateOperation oper ''sum'' props | None \<Rightarrow>
          (case fnDifference f of Some oper \<Rightarrow> evaluateOperation oper ''difference'' props | None \<Rightarrow>
          (case fnQuotient f of Some oper \<Rightarrow> evaluateOperation oper ''quotient'' props | None \<Rightarrow>
          (case fnPow f of Some oper \<Rightarrow> evaluateOperation oper ''pow'' props | None \<Rightarrow>
          (case fnAbs f of Some oper \<Rightarrow> evaluateOperation oper ''abs'' props | None \<Rightarrow>
          (case fnSin f of Some oper \<Rightarrow> evaluateOperation oper ''sin'' props | None \<Rightarrow>
          (case fnCos f of Some oper \<Rightarrow> evaluateOperation oper ''cos'' props | None \<Rightarrow>
          (case fnTan f of Some oper \<Rightarrow> evaluateOperation oper ''tan'' props | None \<Rightarrow>
          (case fnAsin f of Some oper \<Rightarrow> evaluateOperation oper ''asin'' props | None \<Rightarrow>
          (case fnAcos f of Some oper \<Rightarrow> evaluateOperation oper ''acos'' props | None \<Rightarrow>
          (case fnAtan f of Some oper \<Rightarrow> evaluateOperation oper ''atan'' props | None \<Rightarrow>
          (case fnTable f of
             Some t \<Rightarrow> evaluateTable t props
           | None \<Rightarrow> Inl NoValidOperation))))))))))))))"

text \<open>
  The first of the twelve operation fields that is present, with its operation
  name, in the order in which \<open>EvaluateFunction\<close> tests them.
\<close>

definition firstOperation :: "Function \<Rightarrow> (Operation \<times> string) option" where
  "firstOperation f =
     (case fnProduct f of Some oper \<Rightarrow> Some (oper, ''product'') | None \<Rightarrow>
     (case fnSum f of Some oper \<Rightarrow> Some (oper, ''sum'') | None \<Rightarrow>
     (case fnDifference f of Some oper \<Rightarrow> Some (oper, ''difference'') | None \<Rightarrow>
     (case fnQuotient f of Some oper \<Rightarrow> Some (oper, ''quotient'') | None \<Rightarrow>
     (case fnPow f of Some oper \<Rightarrow> Some (oper, ''pow'') | None \<Rightarrow>
     (case fnAbs f of Some oper \<Rightarrow> Some (oper, ''abs'') | None \<Rightarrow>
     (case fnSin f of Some oper \<Rightarrow> Some (oper, ''sin'') | None \<Rightarrow>
     (case fnCos f of Some oper \<Rightarrow> Some (oper, ''cos'') | None \<Rightarrow>
     (case fnTan f of Some oper \<Rightarrow> Some (oper, ''tan'') | None \<Rightarrow>
     (case fnAsin f of Some oper \<Rightarrow> Some (oper, ''asin'') | None \<Rightarrow>
     (case fnAcos f of Some oper \<Rightarrow> Some (oper, ''acos'') | None \<Rightarrow>
     (case fnAtan f of Some oper \<Rightarrow> Some (oper, ''atan'') | None \<Rightarrow> None))))))))))))"

text \<open>Example nodes: a node with property references and literal values only, a
  function with no field set, and a function with a single product node.\<close>

definition leaf :: "string list \<Rightarrow> real list \<Rightarrow> Operation" where
  "leaf names literals =
     Operation names literals None None None None None None None None None None None None None"

definition emptyFunction :: Function where
  "emptyFunction =
     \<lparr>fnName = '''', fnDescription = '''', fnProduct = None, fnDifference = None,
      fnSum = None, fnQuotient = None, fnPow = None, fnAbs = None, fnSin = None,
      fnCos = None, fnTan = None, fnAsin = None, fnAcos = None, fnAtan = None,
      fnTable = None\<rparr>"

definition productFunction :: "Operation \<Rightarrow> Function" where
  "productFunction oper = emptyFunction\<lparr>fnProduct := Some oper\<rparr>"

section \<open>float64 (IEEE 754 binary64, as Go computes with it)\<close>

text \<open>
  Where a claim depends on rounding, overflow, signed zeros or NaN, the code is
  modelled over this type instead of the reals. A value is a finite number (the
  positive zero is \<open>Finite 0\<close>), the negative zero, an infinity or NaN. Every
  arithmetic operation computes the exact real result and rounds it to the
  nearest binary64 value, ties to even, each operation on its own (no fused
  multiply-add, as the Go compiler emits for amd64).
\<close>

datatype float64 = Finite real | NegZero | PosInf | NegInf | NaN

fun isNaN :: "float64 \<Rightarrow> bool" where
  "isNaN NaN = True"
| "isNaN _ = False"

fun isFinite :: "float64 \<Rightarrow> bool" where
  "isFinite (Finite r) = True"
| "isFinite NegZero = True"
| "isFinite _ = False"

fun val64 :: "float64 \<Rightarrow> real" where
  "val64 (Finite r) = r"
| "val64 _ = 0"

text \<open>The sign bit.\<close>

fun signbit :: "float64 \<Rightarrow> bool" where
  "signbit (Finite r) = (r < 0)"
| "signbit NegZero = True"
| "signbit NegInf = True"
| "signbit _ = False"

definition zero64 :: "bool \<Rightarrow> float64" where
  "zero64 negative = (if negative then NegZero else Finite 0)"

definition inf64 :: "bool \<Rightarrow> float64" where
  "inf64 negative = (if negative then NegInf else PosInf)"

text \<open>Rounding to nearest, ties to even. The spacing of the binary64 values
  around a positive real \<open>a\<close> is \<open>2 powr ulp_exponent a\<close>: 52 fraction bits below
  the leading bit, and the fixed spacing \<open>2 powr -1074\<close> of the subnormal range
  below \<open>2 powr -1022\<close>. A rounded magnitude of \<open>2 powr 1024\<close> or more overflows to
  an infinity.\<close>

definition round_even :: "real \<Rightarrow> int" where
  "round_even r =
     (let f = \<lfloor>r\<rfloor>; d = r - of_int f
      in if d < 1 / 2 then f else if 1 / 2 < d then f + 1
         else if even f then f else f + 1)"

definition ulp_exponent :: "real \<Rightarrow> int" where
  "ulp_exponent a = max \<lfloor>log 2 a\<rfloor> (- 1022) - 52"

definition round_magnitude :: "real \<Rightarrow> real" where
  "round_magnitude a =
     of_int (round_even (a / 2 powr of_int (ulp_exponent a))) * 2 powr of_int (ulp_exponent a)"

definition overflow_threshold :: real where
  "overflow_threshold = 2 powr 1024"

definition fl :: "real \<Rightarrow> float64" where
  "fl x =
     (let m = round_magnitude \<bar>x\<bar>
      in if overflow_threshold \<le> m then inf64 (x < 0)
         else if m = 0 then zero64 (x < 0)
         else Finite (if x < 0 then - m else m))"

text \<open>The arithmetic operators of Go on float64 and \<^verbatim>\<open>math.Sqrt\<close>.\<close>

definition fneg :: "float64 \<Rightarrow> float64" where
  "fneg a =
     (case a of
        Finite r \<Rightarrow> if r = 0 then NegZero else Finite (- r)
      | NegZero \<Rightarrow> Finite 0
      | PosInf \<Rightarrow> NegInf
      | NegInf \<Rightarrow> PosInf
      | NaN \<Rightarrow> NaN)"

definition fadd :: "float64 \<Rightarrow> float64 \<Rightarrow> float64" where
  "fadd a b =
     (if isNaN a \<or> isNaN b then NaN
      else if \<not> isFinite a then (if \<not> isFinite b \<and> b \<noteq> a then NaN else a)
      else if \<not> isFinite b then b
      else if val64 a + val64 b = 0 then zero64 (a = NegZero \<and> b = NegZero)
      else fl (val64 a + val64 b))"

definition fsub :: "float64 \<Rightarrow> float64 \<Rightarrow> float64" where
  "fsub a b = fadd a (fneg b)"

definition fmul :: "float64 \<Rightarrow> float64 \<Rightarrow> float64" where
  "fmul a b =
     (if isNaN a \<or> isNaN b then NaN
      else if \<not> isFinite a \<or> \<not> isFinite b
      then (if (isFinite a \<and> val64 a = 0) \<or> (isFinite b \<and> val64 b = 0) then NaN
            else inf64 (signbit a \<noteq> signbit b))
      else if val64 a * val64 b = 0 then zero64 (signbit a \<noteq> signbit b)
      else fl (val64 a * val64 b))"

definition fdiv :: "float64 \<Rightarrow> float64 \<Rightarrow> float64" where
  "fdiv a b =
     (if isNaN a \<or> isNaN b then NaN
      else if \<not> isFinite a
      then (if \<not> isFinite b then NaN else inf64 (signbit a \<noteq> signbit b))
      else if \<not> isFinite b then zero64 (signbit a \<noteq> signbit b)
      else if val64 b = 0
      then (if val64 a = 0 then NaN else inf64 (signbit a \<noteq> signbit b))
      else if val64 a = 0 then zero64 (signbit a \<noteq> signbit b)
      else fl (val64 a / val64 b))"

definition fsqrt :: "float64 \<Rightarrow> float64" where
  "fsqrt a =
     (case a of
        Finite r \<Rightarrow> if r < 0 then NaN else if r = 0 then Finite 0 else fl (sqrt r)
      | NegZero \<Rightarrow> NegZero
      | PosInf \<Rightarrow> PosInf
      | NegInf \<Rightarrow> NaN
      | NaN \<Rightarrow> NaN)"

text \<open>The comparisons of Go: every comparison with NaN is false, and the two
  zeros are equal.\<close>

definition fle :: "float64 \<Rightarrow> float64 \<Rightarrow> bool" where
  "fle a b \<longleftrightarrow>
     \<not> isNaN a \<and> \<not> isNaN b
     \<and> (a = NegInf \<or> b = PosInf \<or> (isFinite a \<and> isFinite b \<and> val64 a \<le> val64 b))"

definition flt :: "float64 \<Rightarrow> float64 \<Rightarrow> bool" where
  "flt a b \<longleftrightarrow> \<not> isNaN a \<and> \<not> isNaN b \<and> \<not> fle b a"

definition feq :: "float64 \<Rightarrow> float64 \<Rightarrow> bool" where
  "feq a b \<longleftrightarrow> fle a b \<and> fle b a"

text \<open>\<^verbatim>\<open>math.Max\<close> and \<^verbatim>\<open>math.Min\<close>: an infinity of the winning sign first, then
  NaN if either argument is NaN, then the zeros by sign.\<close>

definition Max64 :: "float64 \<Rightarrow> float64 \<Rightarrow> float64" where
  "Max64 x y =
     (if x = PosInf \<or> y = PosInf then PosInf
      else if isNaN x \<or> isNaN y then NaN
      else if feq x (Finite 0) \<and> feq x y then (if signbit x then y else x)
      else if flt y x then x else y)"

definition Min64 :: "float64 \<Rightarrow> float64 \<Rightarrow> float64" where
  "Min64 x y =
     (if x = NegInf \<or> y = NegInf then NegInf
      else if isNaN x \<or> isNaN y then NaN
      else if feq x (Finite 0) \<and> feq x y then (if signbit x then x else y)
      else if flt x y then x else y)"

section \<open>Vectors and quaternions over float64 (aircraft\_state.go)\<close>

record Vector3_f64 =
  X64 :: float64
  Y64 :: float64
  Z64 :: float64

record Quaternion_f64 =
  W64 :: float64
  QX64 :: float64
  QY64 :: float64
  QZ64 :: float64

definition Vector3_Magnitude64 :: "Vector3_f64 \<Rightarrow> float64" where
  "Vector3_Magnitude64 v =
     fsqrt (fadd (fadd (fmul (X64 v) (X64 v)) (fmul (Y64 v) (Y64 v))) (fmul (Z64 v) (Z64 v)))"

definition Vector3_Normalize64 :: "Vector3_f64 \<Rightarrow> Vector3_f64" where
  "Vector3_Normalize64 v =
     (let mag = Vector3_Magnitude64 v in
      if feq mag (Finite 0) then \<lparr>X64 = Finite 0, Y64 = Finite 0, Z64 = Finite 0\<rparr>
      else \<lparr>X64 = fdiv (X64 v) mag, Y64 = fdiv (Y64 v) mag, Z64 = fdiv (Z64 v) mag\<rparr>)"

definition Quaternion_Norm64 :: "Quaternion_f64 \<Rightarrow> float64" where
  "Quaternion_Norm64 q =
     fsqrt (fadd (fadd (fadd (fmul (W64 q) (W64 q)) (fmul (QX64 q) (QX64 q)))
                        (fmul (QY64 q) (QY64 q)))
                 (fmul (QZ64 q) (QZ64 q)))"

definition Quaternion_Normalize64 :: "Quaternion_f64 \<Rightarrow> Quaternion_f64" where
  "Quaternion_Normalize64 q =
     (let norm = Quaternion_Norm64 q in
      if feq norm (Finite 0)
      then \<lparr>W64 = Finite 1, QX64 = Finite 0, QY64 = Finite 0, QZ64 = Finite 0\<rparr>
      else \<lparr>W64 = fdiv (W64 q) norm, QX64 = fdiv (QX64 q) norm,
            QY64 = fdiv (QY64 q) norm, QZ64 = fdiv (QZ64 q) norm\<rparr>)"

text \<open>A float64 that is not NaN and not below zero: a finite number at or above
  zero with a clear sign bit, or the positive infinity.\<close>

fun nonneg64 :: "float64 \<Rightarrow> bool" where
  "nonneg64 (Finite r) = (0 \<le> r)"
| "nonneg64 PosInf = True"
| "nonneg64 _ = False"

section \<open>Propulsion over float64 (propulsion system source)\<close>

text \<open>
  The propulsion system once more, every \<^verbatim>\<open>float64\<close> field a \<open>float64\<close> and every
  operator the float64 one. A decimal constant of the source is the float64
  nearest to it, \<open>fl\<close> of the decimal.
\<close>

record PistonEngine64 =
  IsRunning64 :: bool
  RPM64 :: float64
  ManifoldPressure64 :: float64
  ThrottlePosition64 :: float64
  MaxRPM64 :: float64
  MaxMAP64 :: float64
  IdleRPM64 :: float64
  IdleMAP64 :: float64

record Propeller64 =
  Diameter64 :: float64
  PropRPM64 :: float64
  Thrust64 :: float64
  Torque64 :: float64
  InducedVelocity64 :: float64

record FuelTank64 =
  Number64 :: int
  Capacity64 :: float64
  Contents64 :: float64
  Priority64 :: int

record FuelSystem64 =
  Tanks64 :: "FuelTank64 list"
  TotalCapacity64 :: float64
  TotalContents64 :: float64
  FuelFlow64 :: float64

record PropulsionSystem64 =
  Engine64 :: PistonEngine64
  Propeller64 :: Propeller64
  FuelSystem64 :: FuelSystem64
  MaxThrust64 :: float64
  ReferenceRPM64 :: float64
  ReferenceMAP64 :: float64
  RunningFactor64 :: float64

fun createFuelSystem_loop64 ::
  "(int \<times> real \<times> real \<times> int) list \<Rightarrow> FuelSystem64 \<Rightarrow> FuelSystem64" where
  "createFuelSystem_loop64 [] fs = fs"
| "createFuelSystem_loop64 ((number, capacity, contents, priority) # rest) fs =
     createFuelSystem_loop64 rest
       (fs\<lparr>Tanks64 := Tanks64 fs @ [\<lparr>Number64 = number, Capacity64 = fl capacity,
                                      Contents64 = fl contents, Priority64 = priority\<rparr>],
           TotalCapacity64 := fadd (TotalCapacity64 fs) (fl capacity),
           TotalContents64 := fadd (TotalContents64 fs) (fl contents)\<rparr>)"

definition createFuelSystemFromXML64 :: FuelSystem64 where
  "createFuelSystemFromXML64 =
     createFuelSystem_loop64 tankConfigs
       \<lparr>Tanks64 = [], TotalCapacity64 = Finite 0, TotalContents64 = Finite 0,
        FuelFlow64 = Finite 0\<rparr>"

definition NewPropulsionSystem64 :: PropulsionSystem64 where
  "NewPropulsionSystem64 =
     \<lparr>Engine64 = \<lparr>IsRunning64 = False, RPM64 = Finite 0, ManifoldPressure64 = fl 29.92,
                  ThrottlePosition64 = Finite 0, MaxRPM64 = fl 3000, MaxMAP64 = fl 61,
                  IdleRPM64 = fl 800, IdleMAP64 = fl 15\<rparr>,
      Propeller64 = \<lparr>Diameter64 = fl 11.2, PropRPM64 = Finite 0, Thrust64 = Finite 0,
                     Torque64 = Finite 0, InducedVelocity64 = Finite 0\<rparr>,
      FuelSystem64 = createFuelSystemFromXML64,
      MaxThrust64 = fl 200, ReferenceRPM64 = fl 1260, ReferenceMAP64 = fl 81,
      RunningFactor64 = fl 0.3\<rparr>"

definition updateEngine64 :: "PropulsionSystem64 \<Rightarrow> float64 \<Rightarrow> PropulsionSystem64" where
  "updateEngine64 ps dt =
     (let ps = (if \<not> IsRunning64 (Engine64 ps) \<and> flt (fl 0.1) (ThrottlePosition64 (Engine64 ps))
                then ps\<lparr>Engine64 := (Engine64 ps)\<lparr>IsRunning64 := True\<rparr>\<rparr>
                else ps);
          ps = (if IsRunning64 (Engine64 ps)
                then (let throttle = ThrottlePosition64 (Engine64 ps) in
                      ps\<lparr>Engine64 := (Engine64 ps)
                           \<lparr>RPM64 := fadd (IdleRPM64 (Engine64 ps))
                                      (fmul throttle (fsub (MaxRPM64 (Engine64 ps))
                                                           (IdleRPM64 (Engine64 ps)))),
                            ManifoldPressure64 := fadd (IdleMAP64 (Engine64 ps))
                                      (fmul throttle (fsub (MaxMAP64 (Engine64 ps))
                                                           (IdleMAP64 (Engine64 ps))))\<rparr>\<rparr>)
                else ps\<lparr>Engine64 := (Engine64 ps)
                          \<lparr>RPM64 := Finite 0, ManifoldPressure64 := fl 29.92\<rparr>\<rparr>)
      in ps\<lparr>Propeller64 := (Propeller64 ps)\<lparr>PropRPM64 := RPM64 (Engine64 ps)\<rparr>\<rparr>)"

text \<open>The value of the thrust formula in \<^verbatim>\<open>updatePropeller\<close>, before \<^verbatim>\<open>math.Max\<close>.\<close>

definition thrustFormula64 :: "PropulsionSystem64 \<Rightarrow> float64" where
  "thrustFormula64 ps =
     (let rpmFactor = fdiv (PropRPM64 (Propeller64 ps)) (ReferenceRPM64 ps);
          mapFactor = fdiv (ManifoldPressure64 (Engine64 ps)) (ReferenceMAP64 ps)
      in fmul (fmul (fmul (RunningFactor64 ps) rpmFactor) mapFactor) (MaxThrust64 ps))"

definition updatePropeller64 :: "PropulsionSystem64 \<Rightarrow> float64 \<Rightarrow> PropulsionSystem64" where
  "updatePropeller64 ps dt =
     (let ps = ps\<lparr>Propeller64 := (Propeller64 ps)\<lparr>Thrust64 := thrustFormula64 ps\<rparr>\<rparr>;
          ps = ps\<lparr>Propeller64 := (Propeller64 ps)
                    \<lparr>Thrust64 := Max64 (Finite 0) (Thrust64 (Propeller64 ps))\<rparr>\<rparr>
      in if flt (Finite 0) (Thrust64 (Propeller64 ps))
         then ps\<lparr>Propeller64 := (Propeller64 ps)
                   \<lparr>InducedVelocity64 := fsqrt (fdiv (Thrust64 (Propeller64 ps)) (fl 0.5))\<rparr>\<rparr>
         else ps\<lparr>Propeller64 := (Propeller64 ps)\<lparr>InducedVelocity64 := Finite 0\<rparr>\<rparr>)"

fun consumeFuel_loop64 ::
  "FuelTank64 list \<Rightarrow> float64 \<Rightarrow> float64 \<Rightarrow> FuelTank64 list \<times> float64" where
  "consumeFuel_loop64 [] remainingBurn totalContents = ([], totalContents)"
| "consumeFuel_loop64 (tank # rest) remainingBurn totalContents =
     (if fle remainingBurn (Finite 0) \<or> fle (Contents64 tank) (Finite 0)
      then (let (ts, totalContents') = consumeFuel_loop64 rest remainingBurn totalContents
            in (tank # ts, totalContents'))
      else (let burnFromTank = Min64 remainingBurn (Contents64 tank);
                tank' = tank\<lparr>Contents64 := fsub (Contents64 tank) burnFromTank\<rparr>;
                (ts, totalContents') = consumeFuel_loop64 rest (fsub remainingBurn burnFromTank)
                                 (fsub totalContents burnFromTank)
            in (tank' # ts, totalContents')))"

definition consumeFuel64 :: "PropulsionSystem64 \<Rightarrow> float64 \<Rightarrow> PropulsionSystem64" where
  "consumeFuel64 ps fuelBurn =
     (let (tanks, totalContents) = consumeFuel_loop64 (Tanks64 (FuelSystem64 ps)) fuelBurn
                             (TotalContents64 (FuelSystem64 ps))
      in ps\<lparr>FuelSystem64 := (FuelSystem64 ps)
               \<lparr>Tanks64 := tanks, TotalContents64 := totalContents\<rparr>\<rparr>)"

definition updateFuelConsumption64 :: "PropulsionSystem64 \<Rightarrow> float64 \<Rightarrow> PropulsionSystem64" where
  "updateFuelConsumption64 ps dt =
     (if IsRunning64 (Engine64 ps) \<and> flt (Finite 0) (Thrust64 (Propeller64 ps))
      then (let estimatedHP = fmul (Thrust64 (Propeller64 ps)) (fl 0.75);
                ps = ps\<lparr>FuelSystem64 := (FuelSystem64 ps)
                          \<lparr>FuelFlow64 := fmul estimatedHP (fl 0.5)\<rparr>\<rparr>;
                fuelBurn = fdiv (fmul (FuelFlow64 (FuelSystem64 ps)) dt) (fl 3600)
            in consumeFuel64 ps fuelBurn)
      else ps\<lparr>FuelSystem64 := (FuelSystem64 ps)\<lparr>FuelFlow64 := Finite 0\<rparr>\<rparr>)"

definition Update64 :: "PropulsionSystem64 \<Rightarrow> float64 \<Rightarrow> float64 \<Rightarrow> PropulsionSystem64" where
  "Update64 ps throttleInput dt =
     (let ps = ps\<lparr>Engine64 := (Engine64 ps)
                    \<lparr>ThrottlePosition64 := Max64 (Finite 0) (Min64 (Finite 1) throttleInput)\<rparr>\<rparr>;
          ps = updateEngine64 ps dt;
          ps = updatePropeller64 ps dt;
          ps = updateFuelConsumption64 ps dt
      in if IsRunning64 (Engine64 ps) then ps\<lparr>RunningFactor64 := Finite 1\<rparr>
         else ps\<lparr>RunningFactor64 := fl 0.3\<rparr>)"

text \<open>The propulsion system after the throttle has been set and \<open>updateEngine\<close> has
  run, inside \<open>Update64 ps throttleInput dt\<close>: the state the thrust formula reads.\<close>

definition engineUpdated64 :: "PropulsionSystem64 \<Rightarrow> float64 \<Rightarrow> float64 \<Rightarrow> PropulsionSystem64" where
  "engineUpdated64 ps throttleInput dt =
     updateEngine64
       (ps\<lparr>Engine64 := (Engine64 ps)
             \<lparr>ThrottlePosition64 := Max64 (Finite 0) (Min64 (Finite 1) throttleInput)\<rparr>\<rparr>) dt"

section \<open>1D table lookup over float64 (jsbsimxmlparser.go)\<close>

record Table1D64 =
  Indices64 :: "float64 list"
  Values64 :: "float64 list"

text \<open>The search loop of \<^verbatim>\<open>interpolate1D\<close>, from index \<open>i\<close> on, and the function
  itself, with the comparisons and the arithmetic of float64.\<close>

function interpolate1D_loop64 :: "Table1D64 \<Rightarrow> float64 \<Rightarrow> nat \<Rightarrow> error + float64" where
  "interpolate1D_loop64 t x i =
     (if i + 1 < length (Indices64 t) then
        (if fle (Indices64 t ! i) x \<and> fle x (Indices64 t ! (i + 1)) then
           (let fraction = fdiv (fsub x (Indices64 t ! i))
                                (fsub (Indices64 t ! (i + 1)) (Indices64 t ! i))
            in case (index (Values64 t) i, index (Values64 t) (i + 1)) of
                 (Inr vi, Inr vj) \<Rightarrow> Inr (fadd vi (fmul fraction (fsub vj vi)))
               | _ \<Rightarrow> Inl Panic)
         else interpolate1D_loop64 t x (i + 1))
      else index (Values64 t) (length (Indices64 t) - 1))"
  by pat_completeness auto
termination
  by (relation "measure (\<lambda>(t, x, i). length (Indices64 t) - i)") auto

declare interpolate1D_loop64.simps [simp del]

definition interpolate1D64 :: "Table1D64 \<Rightarrow> float64 \<Rightarrow> error + float64" where
  "interpolate1D64 t x =
     (let n = length (Indices64 t) in
      if n = 0 then Inr (Finite 0)
      else if fle x (Indices64 t ! 0) then index (Values64 t) 0
      else if fle (Indices64 t ! (n - 1)) x then index (Values64 t) (n - 1)
      else interpolate1D_loop64 t x 0)"

text \<open>The interpolated value between the breakpoints \<open>j\<close> and \<open>j + 1\<close>.\<close>

definition interpolated64 :: "Table1D64 \<Rightarrow> float64 \<Rightarrow> nat \<Rightarrow> float64" where
  "interpolated64 t x j =
     fadd (Values64 t ! j)
       (fmul (fdiv (fsub x (Indices64 t ! j)) (fsub (Indices64 t ! (j + 1)) (Indices64 t ! j)))
             (fsub (Values64 t ! (j + 1)) (Values64 t ! j)))"

text \<open>A table with three increasing breakpoints whose middle value is small.\<close>

definition dip_table :: Table1D64 where
  "dip_table = \<lparr>Indices64 = [Finite 0, Finite 1, Finite 2],
                 Values64 = [Finite 1, Finite (2 powr - 60), Finite 1]\<rparr>"

section \<open>Properties of the math primitives\<close>

lemma Magnitude_zero_iff: "Magnitude v = 0 \<longleftrightarrow> X v = 0 \<and> Y v = 0 \<and> Z v = 0"
proof -
  have "X v * X v + Y v * Y v + Z v * Z v = 0 \<longleftrightarrow> X v = 0 \<and> Y v = 0 \<and> Z v = 0"
    by (metis add_nonneg_eq_0_iff add_nonneg_nonneg mult_eq_0_iff zero_le_square)
  moreover have "0 \<le> X v * X v + Y v * Y v + Z v * Z v"
    by (simp add: add_nonneg_nonneg)
  ultimately show ?thesis
    by (simp add: Magnitude_def)
qed

lemma Quaternion_Norm_zero_iff:
  "Quaternion_Norm q = 0 \<longleftrightarrow> W q = 0 \<and> QX q = 0 \<and> QY q = 0 \<and> QZ q = 0"
proof -
  have nn: "0 \<le> W q * W q" "0 \<le> QX q * QX q" "0 \<le> QY q * QY q" "0 \<le> QZ q * QZ q"
    by simp_all
  have "W q * W q + QX q * QX q + QY q * QY q + QZ q * QZ q = 0
        \<longleftrightarrow> W q = 0 \<and> QX q = 0 \<and> QY q = 0 \<and> QZ q = 0"
    using nn by (smt (verit) mult_eq_0_iff)
  then show ?thesis
    by (simp add: Quaternion_Norm_def add_nonneg_nonneg)
qed


section \<open>Properties of the integrators\<close>

lemma UpdateAtmosphere_keeps [simp]:
  "Orientation (UpdateAtmosphere s) = Orientation s"
  "Position (UpdateAtmosphere s) = Position s"
  "Velocity (UpdateAtmosphere s) = Velocity s"
  "AngularRate (UpdateAtmosphere s) = AngularRate s"
  by (simp_all add: UpdateAtmosphere_def Let_def)

lemma UpdateDerivedParameters_keeps [simp]:
  "Orientation (UpdateDerivedParameters s) = Orientation s"
  "Position (UpdateDerivedParameters s) = Position s"
  "Velocity (UpdateDerivedParameters s) = Velocity s"
  "AngularRate (UpdateDerivedParameters s) = AngularRate s"
  by (simp_all add: UpdateDerivedParameters_def Let_def split: prod.splits)

lemma NewAircraftState_fields:
  "Orientation NewAircraftState = \<lparr>W = 1, QX = 0, QY = 0, QZ = 0\<rparr>"
  "Position NewAircraftState = \<lparr>X = 0, Y = 0, Z = 0\<rparr>"
  "Velocity NewAircraftState = \<lparr>X = 50, Y = 0, Z = 0\<rparr>"
  "AngularRate NewAircraftState = \<lparr>X = 0, Y = 0, Z = 0\<rparr>"
  by (simp_all add: NewAircraftState_def Let_def NewQuaternionFromEuler_def)






text \<open>
  Claim C7, as amended. The first call of the Adams-Bashforth integrator is an
  Euler step. Every later call advances the body-frame velocity and the angular
  rate by y + dt/2 * (3 f(n) - f(n-1)) with the current and the stored previous
  derivative, and advances the position by dt times the current Earth-frame
  velocity: the source uses the current velocity in place of the previous one.
\<close>

theorem C7_ab2_steps:
  "AdamsBashforth2Integrator_Integrate NewAdamsBashforth2Integrator state derivatives dt
     = Some (EulerIntegrator_Integrate state derivatives dt,
             \<lparr>previousDerivatives = Some derivatives, hasPrevious = True\<rparr>)
   \<and> (hasPrevious ab \<and> previousDerivatives ab = Some prev \<longrightarrow>
        (\<exists>s'. AdamsBashforth2Integrator_Integrate ab state derivatives dt
                = Some (s', ab\<lparr>previousDerivatives := Some derivatives\<rparr>)
           \<and> Velocity s' = AB2_formula3 (Velocity state) (VelocityDot derivatives)
                              (VelocityDot prev) dt
           \<and> AngularRate s' = AB2_formula3 (AngularRate state) (AngularRateDot derivatives)
                                 (AngularRateDot prev) dt
           \<and> Position s' = Vector3_Add (Position state)
                 (Vector3_Scale (RotateVector (Orientation state) (Velocity state)) dt)))"
proof (intro conjI impI)
  show "AdamsBashforth2Integrator_Integrate NewAdamsBashforth2Integrator state derivatives dt
     = Some (EulerIntegrator_Integrate state derivatives dt,
             \<lparr>previousDerivatives = Some derivatives, hasPrevious = True\<rparr>)"
    by (simp add: AdamsBashforth2Integrator_Integrate_def NewAdamsBashforth2Integrator_def)
next
  assume h: "hasPrevious ab \<and> previousDerivatives ab = Some prev"
  show "\<exists>s'. AdamsBashforth2Integrator_Integrate ab state derivatives dt
                = Some (s', ab\<lparr>previousDerivatives := Some derivatives\<rparr>)
           \<and> Velocity s' = AB2_formula3 (Velocity state) (VelocityDot derivatives)
                              (VelocityDot prev) dt
           \<and> AngularRate s' = AB2_formula3 (AngularRate state) (AngularRateDot derivatives)
                                 (AngularRateDot prev) dt
           \<and> Position s' = Vector3_Add (Position state)
                 (Vector3_Scale (RotateVector (Orientation state) (Velocity state)) dt)"
    using h
    by (simp add: AdamsBashforth2Integrator_Integrate_def Let_def AB2_formula3_def
        AB2_formula_def Vector3_Add_def Vector3_Scale_def algebra_simps)
qed

lemma c7_s1_fields:
  "Position c7_s1 = \<lparr>X = 50, Y = 0, Z = 0\<rparr>"
  "Velocity c7_s1 = \<lparr>X = 60, Y = 0, Z = 0\<rparr>"
  "Orientation c7_s1 = \<lparr>W = 1, QX = 0, QY = 0, QZ = 0\<rparr>"
  by (simp_all add: c7_s1_def EulerIntegrator_Integrate_def Let_def NewAircraftState_fields
      c7_d0_def Vector3_Add_def Vector3_Scale_def RotateVector_def Multiply_def
      Quaternion_Add_def Quaternion_Scale_def Quaternion_Normalize_def Quaternion_Norm_def)

text \<open>
  Claim C7 as stated fails for the position. Two steps of one second from
  \<open>NewAircraftState\<close> (50 m/s forward, accelerating at 10 m/s per second): the position
  derivatives are 50 and then 60 m/s; the second step moves the position from 50
  to 110, where the Adams-Bashforth formula gives 115.
\<close>

theorem C7_position_counterexample:
  "AdamsBashforth2Integrator_Integrate NewAdamsBashforth2Integrator NewAircraftState c7_d0 1
     = Some (c7_s1, c7_ab1)
   \<and> PositionDot c7_d0 = RotateVector (Orientation NewAircraftState) (Velocity NewAircraftState)
   \<and> PositionDot c7_d1 = RotateVector (Orientation c7_s1) (Velocity c7_s1)
   \<and> map_option (X \<circ> Position \<circ> fst)
        (AdamsBashforth2Integrator_Integrate c7_ab1 c7_s1 c7_d1 1) = Some 110
   \<and> AB2_formula (X (Position c7_s1)) (X (PositionDot c7_d1)) (X (PositionDot c7_d0)) 1 = 115"
proof (intro conjI)
  show "AdamsBashforth2Integrator_Integrate NewAdamsBashforth2Integrator NewAircraftState c7_d0 1
     = Some (c7_s1, c7_ab1)"
    by (simp add: AdamsBashforth2Integrator_Integrate_def NewAdamsBashforth2Integrator_def
        c7_ab1_def c7_s1_def)
  show "PositionDot c7_d0 = RotateVector (Orientation NewAircraftState) (Velocity NewAircraftState)"
    by (simp add: NewAircraftState_fields c7_d0_def RotateVector_def Multiply_def)
  show "PositionDot c7_d1 = RotateVector (Orientation c7_s1) (Velocity c7_s1)"
    by (simp add: c7_s1_fields c7_d1_def RotateVector_def Multiply_def)
  show "map_option (X \<circ> Position \<circ> fst)
        (AdamsBashforth2Integrator_Integrate c7_ab1 c7_s1 c7_d1 1) = Some 110"
    by (simp add: AdamsBashforth2Integrator_Integrate_def c7_ab1_def c7_s1_fields Let_def
        RotateVector_def Multiply_def Vector3_Add_def Vector3_Scale_def)
  show "AB2_formula (X (Position c7_s1)) (X (PositionDot c7_d1)) (X (PositionDot c7_d0)) 1 = 115"
    by (simp add: AB2_formula_def c7_s1_fields c7_d0_def c7_d1_def)
qed

theorem C7_ab2_steps_witness:
  "hasPrevious c7_ab1 \<and> previousDerivatives c7_ab1 = Some c7_d0
   \<and> map_option (Velocity \<circ> fst) (AdamsBashforth2Integrator_Integrate c7_ab1 c7_s1 c7_d1 1)
       = Some \<lparr>X = 70, Y = 0, Z = 0\<rparr>"
proof -
  have h: "hasPrevious c7_ab1 \<and> previousDerivatives c7_ab1 = Some c7_d0"
    by (simp add: c7_ab1_def)
  from C7_ab2_steps [of c7_s1 c7_d1 1 c7_ab1 c7_d0] h
  obtain s' where "AdamsBashforth2Integrator_Integrate c7_ab1 c7_s1 c7_d1 1
                = Some (s', c7_ab1\<lparr>previousDerivatives := Some c7_d1\<rparr>)"
     "Velocity s' = AB2_formula3 (Velocity c7_s1) (VelocityDot c7_d1) (VelocityDot c7_d0) 1"
    by blast
  then show ?thesis using h
    by (simp add: c7_s1_fields AB2_formula3_def AB2_formula_def c7_d0_def c7_d1_def)
qed

section \<open>Properties of the propulsion system\<close>

lemma updateFuelConsumption_keeps [simp]:
  "Propeller (updateFuelConsumption ps dt) = Propeller ps"
  "Engine (updateFuelConsumption ps dt) = Engine ps"
  "MaxThrust (updateFuelConsumption ps dt) = MaxThrust ps"
  "ReferenceRPM (updateFuelConsumption ps dt) = ReferenceRPM ps"
  "ReferenceMAP (updateFuelConsumption ps dt) = ReferenceMAP ps"
  by (simp_all add: updateFuelConsumption_def consumeFuel_def Let_def split: prod.splits)

lemma Update_Propeller:
  "Propeller (Update ps thr dt) =
     Propeller (updatePropeller (updateEngine
        (ps\<lparr>Engine := (Engine ps)\<lparr>ThrottlePosition := max 0.0 (min 1.0 thr)\<rparr>\<rparr>) dt) dt)"
  by (simp add: Update_def Let_def)

lemma updatePropeller_Engine [simp]: "Engine (updatePropeller ps dt) = Engine ps"
  by (simp add: updatePropeller_def Let_def)

lemma Update_Engine:
  "Engine (Update ps thr dt) =
     Engine (updateEngine
        (ps\<lparr>Engine := (Engine ps)\<lparr>ThrottlePosition := max 0.0 (min 1.0 thr)\<rparr>\<rparr>) dt)"
  by (simp add: Update_def Let_def)

lemma updatePropeller_Thrust:
  "Thrust (Propeller (updatePropeller ps dt)) =
     max 0 (RunningFactor ps * (PropRPM (Propeller ps) / ReferenceRPM ps)
              * (ManifoldPressure (Engine ps) / ReferenceMAP ps) * MaxThrust ps)"
  by (simp add: updatePropeller_def Let_def)

lemma updatePropeller_InducedVelocity:
  "InducedVelocity (Propeller (updatePropeller ps dt)) =
     (if 0 < Thrust (Propeller (updatePropeller ps dt))
      then sqrt (Thrust (Propeller (updatePropeller ps dt)) / 0.5) else 0)"
  by (simp add: updatePropeller_def Let_def)

lemma Update_RunningFactor:
  "RunningFactor (Update ps thr dt) = (if IsRunning (Engine (Update ps thr dt)) then 1.0 else 0.3)"
  by (simp add: Update_def Let_def)

lemma Update_Thrust:
  "Thrust (Propeller (Update ps throttleInput dt))
     = max 0 (RunningFactor ps
              * (PropRPM (Propeller (Update ps throttleInput dt)) / ReferenceRPM ps)
              * (ManifoldPressure (Engine (Update ps throttleInput dt)) / ReferenceMAP ps)
              * MaxThrust ps)"
  "InducedVelocity (Propeller (Update ps throttleInput dt))
     = (if 0 < Thrust (Propeller (Update ps throttleInput dt))
        then sqrt (Thrust (Propeller (Update ps throttleInput dt)) / 0.5) else 0)"
proof -
  define ps1 where "ps1 = updateEngine
        (ps\<lparr>Engine := (Engine ps)\<lparr>ThrottlePosition := max 0.0 (min 1.0 throttleInput)\<rparr>\<rparr>) dt"
  have P: "Propeller (Update ps throttleInput dt) = Propeller (updatePropeller ps1 dt)"
    by (simp add: Update_Propeller ps1_def)
  have E: "Engine (Update ps throttleInput dt) = Engine ps1"
    by (simp add: Update_Engine ps1_def)
  have R: "PropRPM (Propeller (updatePropeller ps1 dt)) = PropRPM (Propeller ps1)"
    by (simp add: updatePropeller_def Let_def)
  have K: "RunningFactor ps1 = RunningFactor ps" "ReferenceRPM ps1 = ReferenceRPM ps"
    "ReferenceMAP ps1 = ReferenceMAP ps" "MaxThrust ps1 = MaxThrust ps"
    by (simp_all add: ps1_def updateEngine_def Let_def)
  have T: "Thrust (Propeller (updatePropeller ps1 dt))
       = max 0 (RunningFactor ps * (PropRPM (Propeller ps1) / ReferenceRPM ps)
                * (ManifoldPressure (Engine ps1) / ReferenceMAP ps) * MaxThrust ps)"
    by (simp add: updatePropeller_Thrust K)
  show "Thrust (Propeller (Update ps throttleInput dt))
     = max 0 (RunningFactor ps
              * (PropRPM (Propeller (Update ps throttleInput dt)) / ReferenceRPM ps)
              * (ManifoldPressure (Engine (Update ps throttleInput dt)) / ReferenceMAP ps)
              * MaxThrust ps)"
    using T by (simp add: P E R)
  show "InducedVelocity (Propeller (Update ps throttleInput dt))
     = (if 0 < Thrust (Propeller (Update ps throttleInput dt))
        then sqrt (Thrust (Propeller (Update ps throttleInput dt)) / 0.5) else 0)"
    unfolding P by (rule updatePropeller_InducedVelocity)
qed

text \<open>
  Where the thrust formula holds with the running factor of the engine state
  after the call: when the factor held before the call already fits that state
  (the engine was running with factor 1.0, or stays off with factor 0.3); the
  value is clamped below at 0.
\<close>

lemma Update_Thrust_current_factor:
  assumes "RunningFactor ps = (if IsRunning (Engine (Update ps throttleInput dt)) then 1.0 else 0.3)"
  shows "Thrust (Propeller (Update ps throttleInput dt))
     = max 0 (RunningFactor (Update ps throttleInput dt)
              * (PropRPM (Propeller (Update ps throttleInput dt)) / ReferenceRPM ps)
              * (ManifoldPressure (Engine (Update ps throttleInput dt)) / ReferenceMAP ps)
              * MaxThrust ps)"
  unfolding Update_RunningFactor assms [symmetric] by (rule Update_Thrust(1))

text \<open>
  The two checks of the thrust formula at reference conditions, on
  \<open>updatePropeller\<close> with the running factor 1.0: reference RPM and reference
  manifold pressure give the maximum thrust, and so do twice the reference RPM
  with half the reference manifold pressure.
\<close>

lemma updatePropeller_reference:
  assumes "RunningFactor ps = 1.0" and "ReferenceRPM ps \<noteq> 0" and "ReferenceMAP ps \<noteq> 0"
    and "0 \<le> MaxThrust ps"
  shows "PropRPM (Propeller ps) = ReferenceRPM ps \<Longrightarrow>
         ManifoldPressure (Engine ps) = ReferenceMAP ps \<Longrightarrow>
         Thrust (Propeller (updatePropeller ps dt)) = MaxThrust ps"
    and "PropRPM (Propeller ps) = 2.0 * ReferenceRPM ps \<Longrightarrow>
         ManifoldPressure (Engine ps) = 0.5 * ReferenceMAP ps \<Longrightarrow>
         Thrust (Propeller (updatePropeller ps dt)) = MaxThrust ps"
proof -
  show "PropRPM (Propeller ps) = ReferenceRPM ps \<Longrightarrow>
        ManifoldPressure (Engine ps) = ReferenceMAP ps \<Longrightarrow>
        Thrust (Propeller (updatePropeller ps dt)) = MaxThrust ps"
    using assms by (simp add: updatePropeller_Thrust)
next
  assume r: "PropRPM (Propeller ps) = 2.0 * ReferenceRPM ps"
    and m: "ManifoldPressure (Engine ps) = 0.5 * ReferenceMAP ps"
  show "Thrust (Propeller (updatePropeller ps dt)) = MaxThrust ps"
    unfolding updatePropeller_Thrust r m assms(1)
    using assms(2,3,4) by simp
qed

lemma c5_started_fields:
  "Engine c5_started
    = \<lparr>IsRunning = True, RPM = 1900, ManifoldPressure = 38,
                ThrottlePosition = 0.5, MaxRPM = 3000.0, MaxMAP = 61.0,
                IdleRPM = 800.0, IdleMAP = 15.0\<rparr>"
  "PropRPM (Propeller c5_started) = 1900"
  "RunningFactor c5_started = 0.3"
  "ReferenceRPM c5_started = 1260"
  "ReferenceMAP c5_started = 81"
  "MaxThrust c5_started = 200"
  by (simp_all add: c5_started_def updateEngine_def NewPropulsionSystem_def Let_def)

text \<open>
  Claim C5 at the update that starts the engine. From \<open>NewPropulsionSystem\<close>,
  \<open>Update\<close> with throttle 0.5 leaves the engine running at 1900 RPM and 38 inHg
  with running factor 1.0, but the thrust it stored was computed with the
  running factor 0.3 of the stopped engine: 0.3 * (1900/1260) * (38/81) * 200,
  not 1.0 * (1900/1260) * (38/81) * 200.
\<close>

theorem C5_startup_thrust:
  "IsRunning (Engine (Update NewPropulsionSystem 0.5 0.01))
   \<and> RunningFactor (Update NewPropulsionSystem 0.5 0.01) = 1.0
   \<and> PropRPM (Propeller (Update NewPropulsionSystem 0.5 0.01)) = 1900
   \<and> ManifoldPressure (Engine (Update NewPropulsionSystem 0.5 0.01)) = 38
   \<and> Thrust (Propeller (Update NewPropulsionSystem 0.5 0.01))
       = 0.3 * (1900 / 1260) * (38 / 81) * 200
   \<and> Thrust (Propeller (Update NewPropulsionSystem 0.5 0.01))
       \<noteq> 1.0 * (1900 / 1260) * (38 / 81) * 200"
proof -
  have E: "Engine (Update NewPropulsionSystem 0.5 0.01) = Engine c5_started"
    by (simp only: Update_Engine c5_started_def)
  have P: "Propeller (Update NewPropulsionSystem 0.5 0.01)
            = Propeller (updatePropeller c5_started 0.01)"
    by (simp only: Update_Propeller c5_started_def)
  have R: "PropRPM (Propeller (updatePropeller c5_started 0.01)) = 1900"
    by (simp add: updatePropeller_def Let_def c5_started_fields)
  have T: "Thrust (Propeller (updatePropeller c5_started 0.01))
             = 0.3 * (1900 / 1260) * (38 / 81) * 200"
    by (simp add: updatePropeller_Thrust c5_started_fields)
  have c1: "IsRunning (Engine (Update NewPropulsionSystem 0.5 0.01))"
    unfolding E by (simp add: c5_started_fields)
  have c2: "RunningFactor (Update NewPropulsionSystem 0.5 0.01) = 1.0"
    unfolding Update_RunningFactor E by (simp add: c5_started_fields)
  have c3: "PropRPM (Propeller (Update NewPropulsionSystem 0.5 0.01)) = 1900"
    unfolding P by (rule R)
  have c4: "ManifoldPressure (Engine (Update NewPropulsionSystem 0.5 0.01)) = 38"
    unfolding E by (simp add: c5_started_fields)
  have c5: "Thrust (Propeller (Update NewPropulsionSystem 0.5 0.01))
       = 0.3 * (1900 / 1260) * (38 / 81) * 200"
    unfolding P by (rule T)
  have c6: "Thrust (Propeller (Update NewPropulsionSystem 0.5 0.01))
       \<noteq> 1.0 * (1900 / 1260) * (38 / 81) * 200"
    unfolding P T by simp
  show ?thesis
    by (intro conjI c1 c2 c3 c4 c5 c6)
qed

section \<open>Properties of the actuator\<close>

lemma PropertyManager_Get_Set:
  "PropertyManager_Get (PropertyManager_Set pm name val) name = val"
  by (simp add: PropertyManager_Get_def PropertyManager_Set_def split: option.splits)

lemma rate_limit_stage_cases:
  assumes "0 \<le> (m::real)"
  shows "t + max (- m) (min m (i - t))
           = (if t + m < i then t + m else if i < t - m then t - m else i)"
  using assms by (auto simp: max_def min_def)

lemma ActuatorComponent_Execute_guarded:
  assumes en: "Enabled ac" and inp: "Inputs ac \<noteq> []" and dt: "0 \<le> dt"
  shows "ActuatorComponent_Execute ac props dt
           = (guarded_output ac (PropertyManager_Get props (hd (Inputs ac))) dt,
              ac\<lparr>previousInput :=
                   (if 0 < HysteresisWidth ac
                    then actuator_accepted ac (PropertyManager_Get props (hd (Inputs ac)))
                    else previousInput ac),
                 currentValue := guarded_output ac (PropertyManager_Get props (hd (Inputs ac))) dt,
                 targetValue := guarded_target ac (PropertyManager_Get props (hd (Inputs ac))) dt,
                 initialized := True\<rparr>,
              if Output ac \<noteq> ''''
              then PropertyManager_Set props (Output ac)
                     (guarded_output ac (PropertyManager_Get props (hd (Inputs ac))) dt)
              else props)"
proof -
  have hd0: "Inputs ac ! 0 = hd (Inputs ac)"
    using inp by (simp add: hd_conv_nth)
  define g where "g = PropertyManager_Get props (hd (Inputs ac))"
  define a where "a = actuator_accepted ac g"
  define t where "t = guarded_target ac g dt"
  define out where "out = guarded_output ac g dt"
  have a1: "0 < HysteresisWidth ac \<Longrightarrow>
      a = (if \<bar>g + BiasValue ac - previousInput ac\<bar> < HysteresisWidth ac / 2
           then previousInput ac else g + BiasValue ac)"
    by (simp add: a_def actuator_accepted_def hysteresis_stage_def)
  have a0: "\<not> 0 < HysteresisWidth ac \<Longrightarrow> a = g + BiasValue ac"
  proof -
    assume "\<not> 0 < HysteresisWidth ac"
    then have "\<not> \<bar>g + BiasValue ac - previousInput ac\<bar> < HysteresisWidth ac / 2"
      by linarith
    then show ?thesis
      by (simp only: a_def actuator_accepted_def hysteresis_stage_def if_False)
  qed
  have t1: "RateLimit ac = Some r \<Longrightarrow> 0 < r \<Longrightarrow>
      t = (let t0 = (if initialized ac then targetValue ac else 0); m = r * dt
           in if t0 + m < a then t0 + m else if a < t0 - m then t0 - m else a)" for r
  proof -
    assume r: "RateLimit ac = Some r" and r0: "0 < r"
    then have "0 \<le> r * dt" using dt by simp
    then show ?thesis
      using r r0 by (simp add: t_def a_def guarded_target_def rate_limit_stage_def
          rate_limit_stage_cases Let_def)
  qed
  have t2: "RateLimit ac = Some r \<Longrightarrow> \<not> 0 < r \<Longrightarrow> t = a" for r
    by (simp add: t_def a_def guarded_target_def)
  have t0: "RateLimit ac = None \<Longrightarrow> t = a"
    by (simp add: t_def a_def guarded_target_def)
  have o1: "0 < Lag ac \<Longrightarrow>
      out = (if initialized ac then currentValue ac else 0)
              + dt / (Lag ac + dt) * (t - (if initialized ac then currentValue ac else 0))"
    by (simp add: out_def t_def guarded_output_def lag_stage_def)
  have o0: "\<not> 0 < Lag ac \<Longrightarrow> out = t"
    by (simp add: out_def t_def guarded_output_def)
  have h: "Actuator_hysteresis ac (g + BiasValue ac)
             = (a, ac\<lparr>previousInput := (if 0 < HysteresisWidth ac then a else previousInput ac)\<rparr>)"
    by (cases "0 < HysteresisWidth ac") (simp_all add: Actuator_hysteresis_def Let_def a1 a0)
  define ac1 where "ac1 = ac\<lparr>previousInput := (if 0 < HysteresisWidth ac then a else previousInput ac)\<rparr>"
  define ac2 where "ac2 = ac1\<lparr>currentValue := (if initialized ac then currentValue ac else 0),
                              targetValue := (if initialized ac then targetValue ac else 0),
                              initialized := True\<rparr>"
  have i: "Actuator_initialize ac1 = ac2"
    by (cases "initialized ac") (simp_all add: Actuator_initialize_def ac1_def ac2_def)
  have r: "Actuator_rateLimit ac2 a dt = ac2\<lparr>targetValue := t\<rparr>"
  proof (cases "RateLimit ac")
    case None
    then show ?thesis
      by (simp add: Actuator_rateLimit_def ac2_def ac1_def t0)
  next
    case (Some r)
    show ?thesis
    proof (cases "0 < r")
      case True
      then show ?thesis
        using Some
        by (simp add: Actuator_rateLimit_def ac2_def ac1_def t1 [OF Some True] Let_def)
    next
      case False
      then show ?thesis
        using Some
        by (simp add: Actuator_rateLimit_def ac2_def ac1_def t2 [OF Some False])
    qed
  qed
  have l: "Actuator_lag (ac2\<lparr>targetValue := t\<rparr>) dt = ac2\<lparr>targetValue := t, currentValue := out\<rparr>"
    by (cases "0 < Lag ac") (simp_all add: Actuator_lag_def ac2_def ac1_def o1 o0 Let_def)
  have fin: "ac2\<lparr>targetValue := t, currentValue := out\<rparr>
               = ac\<lparr>previousInput := (if 0 < HysteresisWidth ac then a else previousInput ac),
                     currentValue := out, targetValue := t, initialized := True\<rparr>"
    by (simp add: ac2_def ac1_def)
  have outp: "Output (ac2\<lparr>targetValue := t, currentValue := out\<rparr>) = Output ac"
    "currentValue (ac2\<lparr>targetValue := t, currentValue := out\<rparr>) = out"
    by (simp_all add: ac2_def ac1_def)
  have "ActuatorComponent_Execute ac props dt
           = (out, ac2\<lparr>targetValue := t, currentValue := out\<rparr>,
              if Output ac \<noteq> [] then PropertyManager_Set props (Output ac) out else props)"
    using en inp
    by (simp add: ActuatorComponent_Execute_def hd0 g_def [symmetric] h ac1_def [symmetric]
        i r l outp)
  then have "ActuatorComponent_Execute ac props dt
           = (out, ac\<lparr>previousInput := (if 0 < HysteresisWidth ac then a else previousInput ac),
                 currentValue := out, targetValue := t, initialized := True\<rparr>,
              if Output ac \<noteq> [] then PropertyManager_Set props (Output ac) out else props)"
    by (simp only: fin)
  then show ?thesis
    by (simp only: out_def t_def a_def g_def)
qed

lemma guarded_stages_eq:
  assumes dt: "0 < dt" and lag: "0 \<le> Lag ac"
    and rl: "\<forall>r. RateLimit ac = Some r \<longrightarrow> 0 < r"
  shows "guarded_target ac inputProperty dt = actuator_target ac inputProperty dt"
    and "guarded_output ac inputProperty dt = actuator_output ac inputProperty dt"
proof -
  show t: "guarded_target ac inputProperty dt = actuator_target ac inputProperty dt"
    using rl by (simp add: guarded_target_def actuator_target_def split: option.split)
  show "guarded_output ac inputProperty dt = actuator_output ac inputProperty dt"
  proof (cases "0 < Lag ac")
    case True
    then show ?thesis by (simp add: guarded_output_def actuator_output_def t)
  next
    case False
    then have "Lag ac = 0" using lag by simp
    then show ?thesis
      using dt by (simp add: guarded_output_def actuator_output_def lag_stage_def t)
  qed
qed

lemma ActuatorComponent_Execute_stages:
  assumes en: "Enabled ac" and inp: "Inputs ac \<noteq> []" and dt: "0 < dt"
    and lag: "0 \<le> Lag ac"
    and rl: "\<forall>r. RateLimit ac = Some r \<longrightarrow> 0 < r"
  shows "ActuatorComponent_Execute ac props dt
           = (actuator_output ac (PropertyManager_Get props (hd (Inputs ac))) dt,
              ac\<lparr>previousInput :=
                   (if 0 < HysteresisWidth ac
                    then actuator_accepted ac (PropertyManager_Get props (hd (Inputs ac)))
                    else previousInput ac),
                 currentValue := actuator_output ac (PropertyManager_Get props (hd (Inputs ac))) dt,
                 targetValue := actuator_target ac (PropertyManager_Get props (hd (Inputs ac))) dt,
                 initialized := True\<rparr>,
              if Output ac \<noteq> ''''
              then PropertyManager_Set props (Output ac)
                     (actuator_output ac (PropertyManager_Get props (hd (Inputs ac))) dt)
              else props)"
proof -
  have "0 \<le> dt" using dt by simp
  from ActuatorComponent_Execute_guarded [OF en inp this, of props]
  show ?thesis
    by (simp only: guarded_stages_eq [OF dt lag rl])
qed

lemma elevatorActuator_fields:
  "Enabled elevatorActuator" "Inputs elevatorActuator = [''fcs/elevator-cmd-norm'']"
  "Lag elevatorActuator = 0.06" "HysteresisWidth elevatorActuator = 0.02"
  "RateLimit elevatorActuator = Some 2.5" "BiasValue elevatorActuator = 0"
  "previousInput elevatorActuator = 0" "\<not> initialized elevatorActuator"
  by (simp_all add: elevatorActuator_def SetHysteresis_def SetLag_def SetRateLimit_def
      NewActuatorComponent_def)

text \<open>
  Claim C6, amended. An enabled actuator with an input, executed with a
  non-negative dt, applies the stages in order: it reads the input property,
  adds the bias, applies hysteresis (an input within the half-width of the
  previous input is replaced by the previous input), limits the change of the
  target to plus or minus rate limit times dt when the rate limit is finite and
  positive (a rate limit that is zero, negative or infinite switches the stage
  off: the target is the accepted input), and applies the lag
  output += dt / (tau + dt) * (target - output) when tau is positive (otherwise
  the output is the target); the result is returned, kept as the new state and
  written to the output property. A disabled actuator, or one without an input,
  returns its current value and changes nothing. For a positive dt, a
  non-negative lag and a rate limit that is positive or infinite this is the
  composition the claim words. With rate limit 10, dt = 0.05, no lag and no
  hysteresis, a fresh actuator whose input property has stepped from 0 to 1
  returns 0.5 and writes 0.5.
\<close>

theorem C6_actuator_stages:
  "(Enabled ac \<and> Inputs ac \<noteq> [] \<and> 0 \<le> dt \<longrightarrow>
    ActuatorComponent_Execute ac props dt
      = (guarded_output ac (PropertyManager_Get props (hd (Inputs ac))) dt,
         ac\<lparr>previousInput :=
              (if 0 < HysteresisWidth ac
               then actuator_accepted ac (PropertyManager_Get props (hd (Inputs ac)))
               else previousInput ac),
            currentValue := guarded_output ac (PropertyManager_Get props (hd (Inputs ac))) dt,
            targetValue := guarded_target ac (PropertyManager_Get props (hd (Inputs ac))) dt,
            initialized := True\<rparr>,
         if Output ac \<noteq> ''''
         then PropertyManager_Set props (Output ac)
                (guarded_output ac (PropertyManager_Get props (hd (Inputs ac))) dt)
         else props))
   \<and> (\<not> Enabled ac \<or> Inputs ac = [] \<longrightarrow>
        ActuatorComponent_Execute ac props dt = (currentValue ac, ac, props))
   \<and> (0 < dt \<and> 0 \<le> Lag ac \<and> (\<forall>r. RateLimit ac = Some r \<longrightarrow> 0 < r) \<longrightarrow>
        guarded_target ac inputProperty dt = actuator_target ac inputProperty dt
        \<and> guarded_output ac inputProperty dt = actuator_output ac inputProperty dt)
   \<and> (PropertyManager_Get props ''cmd'' = 1 \<longrightarrow>
        fst (ActuatorComponent_Execute
               (SetRateLimit (NewActuatorComponent ''actuator'' ''cmd'' ''pos'') 10) props 0.05)
          = 0.5
        \<and> PropertyManager_Get
            (snd (snd (ActuatorComponent_Execute
               (SetRateLimit (NewActuatorComponent ''actuator'' ''cmd'' ''pos'') 10) props 0.05)))
            ''pos'' = 0.5)"
proof (intro conjI impI)
  assume "Enabled ac \<and> Inputs ac \<noteq> [] \<and> 0 \<le> dt"
  then show "ActuatorComponent_Execute ac props dt
      = (guarded_output ac (PropertyManager_Get props (hd (Inputs ac))) dt,
         ac\<lparr>previousInput :=
              (if 0 < HysteresisWidth ac
               then actuator_accepted ac (PropertyManager_Get props (hd (Inputs ac)))
               else previousInput ac),
            currentValue := guarded_output ac (PropertyManager_Get props (hd (Inputs ac))) dt,
            targetValue := guarded_target ac (PropertyManager_Get props (hd (Inputs ac))) dt,
            initialized := True\<rparr>,
         if Output ac \<noteq> ''''
         then PropertyManager_Set props (Output ac)
                (guarded_output ac (PropertyManager_Get props (hd (Inputs ac))) dt)
         else props)"
    by (intro ActuatorComponent_Execute_guarded) simp_all
next
  assume "\<not> Enabled ac \<or> Inputs ac = []"
  then show "ActuatorComponent_Execute ac props dt = (currentValue ac, ac, props)"
    by (auto simp: ActuatorComponent_Execute_def)
next
  assume h: "0 < dt \<and> 0 \<le> Lag ac \<and> (\<forall>r. RateLimit ac = Some r \<longrightarrow> 0 < r)"
  then show "guarded_target ac inputProperty dt = actuator_target ac inputProperty dt"
    by (intro guarded_stages_eq) simp_all
  from h show "guarded_output ac inputProperty dt = actuator_output ac inputProperty dt"
    by (intro guarded_stages_eq) simp_all
next
  assume one: "PropertyManager_Get props ''cmd'' = 1"
  define ac0 where "ac0 = SetRateLimit (NewActuatorComponent ''actuator'' ''cmd'' ''pos'') 10"
  have f: "Enabled ac0" "Inputs ac0 = [''cmd'']" "Lag ac0 = 0" "HysteresisWidth ac0 = 0"
    "RateLimit ac0 = Some 10" "BiasValue ac0 = 0" "previousInput ac0 = 0"
    "\<not> initialized ac0" "Output ac0 = ''pos''"
    by (simp_all add: ac0_def SetRateLimit_def NewActuatorComponent_def)
  have out: "guarded_output ac0 1 0.05 = 0.5"
    by (simp add: guarded_output_def guarded_target_def actuator_accepted_def
        hysteresis_stage_def rate_limit_stage_def lag_stage_def f)
  have ex: "ActuatorComponent_Execute ac0 props 0.05
      = (guarded_output ac0 (PropertyManager_Get props (hd (Inputs ac0))) 0.05,
         ac0\<lparr>previousInput :=
              (if 0 < HysteresisWidth ac0
               then actuator_accepted ac0 (PropertyManager_Get props (hd (Inputs ac0)))
               else previousInput ac0),
            currentValue := guarded_output ac0 (PropertyManager_Get props (hd (Inputs ac0))) 0.05,
            targetValue := guarded_target ac0 (PropertyManager_Get props (hd (Inputs ac0))) 0.05,
            initialized := True\<rparr>,
         if Output ac0 \<noteq> ''''
         then PropertyManager_Set props (Output ac0)
                (guarded_output ac0 (PropertyManager_Get props (hd (Inputs ac0))) 0.05)
         else props)"
    by (intro ActuatorComponent_Execute_guarded) (simp_all add: f)
  show "fst (ActuatorComponent_Execute
               (SetRateLimit (NewActuatorComponent ''actuator'' ''cmd'' ''pos'') 10) props 0.05)
          = 0.5"
    unfolding ac0_def [symmetric] ex using out by (simp add: f one)
  show "PropertyManager_Get
            (snd (snd (ActuatorComponent_Execute
               (SetRateLimit (NewActuatorComponent ''actuator'' ''cmd'' ''pos'') 10) props 0.05)))
            ''pos'' = 0.5"
    unfolding ac0_def [symmetric] ex using out by (simp add: f one PropertyManager_Get_Set)
qed

theorem C6_actuator_stages_witness:
  "Enabled elevatorActuator \<and> Inputs elevatorActuator \<noteq> [] \<and> (0::real) \<le> 0.01
   \<and> 0 \<le> Lag elevatorActuator \<and> RateLimit elevatorActuator = Some 2.5 \<and> (0::real) < 2.5
   \<and> PropertyManager_Get
        (PropertyManager_Set NewPropertyManager ''fcs/elevator-cmd-norm'' 1)
        ''fcs/elevator-cmd-norm'' = 1
   \<and> fst (ActuatorComponent_Execute elevatorActuator
             (PropertyManager_Set NewPropertyManager ''fcs/elevator-cmd-norm'' 1) 0.01)
       = 1 / 280
   \<and> actuator_output elevatorActuator 1 0.01 = 1 / 280
   \<and> ActuatorComponent_Execute (elevatorActuator\<lparr>Enabled := False\<rparr>) NewPropertyManager 0.01
       = (0, elevatorActuator\<lparr>Enabled := False\<rparr>, NewPropertyManager)
   \<and> fst (ActuatorComponent_Execute
             (SetRateLimit (NewActuatorComponent ''actuator'' ''cmd'' ''pos'') 10)
             (PropertyManager_Set NewPropertyManager ''cmd'' 1) 0.05) = 0.5"
proof -
  let ?props = "PropertyManager_Set NewPropertyManager ''fcs/elevator-cmd-norm'' 1"
  have hyp: "Enabled elevatorActuator \<and> Inputs elevatorActuator \<noteq> [] \<and> (0::real) \<le> 0.01"
    by (simp add: elevatorActuator_fields)
  have hyp2: "(0::real) < 0.01 \<and> 0 \<le> Lag elevatorActuator
      \<and> (\<forall>r. RateLimit elevatorActuator = Some r \<longrightarrow> 0 < r)"
    by (simp add: elevatorActuator_fields)
  have g: "PropertyManager_Get ?props (hd (Inputs elevatorActuator)) = 1"
    by (simp add: elevatorActuator_fields PropertyManager_Get_Set)
  have out: "actuator_output elevatorActuator 1 0.01 = 1 / 280"
    by (simp add: actuator_output_def actuator_target_def actuator_accepted_def
        hysteresis_stage_def rate_limit_stage_def lag_stage_def elevatorActuator_fields)
  have one: "PropertyManager_Get (PropertyManager_Set NewPropertyManager ''cmd'' 1) ''cmd'' = 1"
    by (rule PropertyManager_Get_Set)
  have cur: "currentValue elevatorActuator = 0"
    by (simp add: elevatorActuator_def SetHysteresis_def SetLag_def SetRateLimit_def
        NewActuatorComponent_def)
  note c6 = C6_actuator_stages [of elevatorActuator "0.01" ?props 1]
  from c6 hyp
  have e: "fst (ActuatorComponent_Execute elevatorActuator ?props 0.01)
          = guarded_output elevatorActuator (PropertyManager_Get ?props (hd (Inputs elevatorActuator))) 0.01"
    by simp
  from c6 hyp2
  have "guarded_output elevatorActuator 1 0.01 = actuator_output elevatorActuator 1 0.01"
    by blast
  with e have a: "fst (ActuatorComponent_Execute elevatorActuator ?props 0.01) = 1 / 280"
    by (simp only: g out)
  from C6_actuator_stages [of elevatorActuator "0.01" "PropertyManager_Set NewPropertyManager ''cmd'' 1" 1] one
  have b: "fst (ActuatorComponent_Execute
             (SetRateLimit (NewActuatorComponent ''actuator'' ''cmd'' ''pos'') 10)
             (PropertyManager_Set NewPropertyManager ''cmd'' 1) 0.05) = 0.5"
    by blast
  from C6_actuator_stages [of "elevatorActuator\<lparr>Enabled := False\<rparr>" "0.01" NewPropertyManager 1]
  have c: "ActuatorComponent_Execute (elevatorActuator\<lparr>Enabled := False\<rparr>) NewPropertyManager 0.01
       = (0, elevatorActuator\<lparr>Enabled := False\<rparr>, NewPropertyManager)"
    by (simp add: cur)
  show ?thesis
    using a b c out by (simp add: elevatorActuator_fields PropertyManager_Get_Set)
qed

text \<open>
  Claim C6 as stated fails when the rate limit is not positive: with rate limit 0
  the claimed clamp holds the target at 0, so the composition of the claim gives
  output 0, where \<^verbatim>\<open>Execute\<close> tests \<^verbatim>\<open>RateLimit > 0\<close>, skips the stage and
  returns the input 1.
\<close>

theorem C6_rate_limit_zero_counterexample:
  "fst (ActuatorComponent_Execute
          (SetRateLimit (NewActuatorComponent ''actuator'' ''cmd'' ''pos'') 0)
          (PropertyManager_Set NewPropertyManager ''cmd'' 1) 0.05) = 1
   \<and> actuator_output (SetRateLimit (NewActuatorComponent ''actuator'' ''cmd'' ''pos'') 0)
        (PropertyManager_Get (PropertyManager_Set NewPropertyManager ''cmd'' 1) ''cmd'') 0.05
       = 0"
proof -
  define ac0 where "ac0 = SetRateLimit (NewActuatorComponent ''actuator'' ''cmd'' ''pos'') 0"
  let ?props = "PropertyManager_Set NewPropertyManager ''cmd'' 1"
  have f: "Enabled ac0" "Inputs ac0 = [''cmd'']" "Lag ac0 = 0" "HysteresisWidth ac0 = 0"
    "RateLimit ac0 = Some 0" "BiasValue ac0 = 0" "previousInput ac0 = 0"
    "\<not> initialized ac0" "Output ac0 = ''pos''"
    by (simp_all add: ac0_def SetRateLimit_def NewActuatorComponent_def)
  have g: "PropertyManager_Get ?props ''cmd'' = 1"
    by (rule PropertyManager_Get_Set)
  have "ActuatorComponent_Execute ac0 ?props 0.05
      = (guarded_output ac0 (PropertyManager_Get ?props (hd (Inputs ac0))) 0.05,
         ac0\<lparr>previousInput :=
              (if 0 < HysteresisWidth ac0
               then actuator_accepted ac0 (PropertyManager_Get ?props (hd (Inputs ac0)))
               else previousInput ac0),
            currentValue := guarded_output ac0 (PropertyManager_Get ?props (hd (Inputs ac0))) 0.05,
            targetValue := guarded_target ac0 (PropertyManager_Get ?props (hd (Inputs ac0))) 0.05,
            initialized := True\<rparr>,
         if Output ac0 \<noteq> ''''
         then PropertyManager_Set ?props (Output ac0)
                (guarded_output ac0 (PropertyManager_Get ?props (hd (Inputs ac0))) 0.05)
         else ?props)"
    by (intro ActuatorComponent_Execute_guarded) (simp_all add: f)
  then have "fst (ActuatorComponent_Execute ac0 ?props 0.05) = guarded_output ac0 1 0.05"
    by (simp add: f g)
  moreover have "guarded_output ac0 1 0.05 = 1"
    by (simp add: guarded_output_def guarded_target_def actuator_accepted_def
        hysteresis_stage_def f)
  moreover have "actuator_output ac0 1 0.05 = 0"
    by (simp add: actuator_output_def actuator_target_def actuator_accepted_def
        hysteresis_stage_def rate_limit_stage_def lag_stage_def f)
  ultimately show ?thesis
    unfolding ac0_def [symmetric] g by simp
qed

section \<open>Properties of the flight control system\<close>

lemma aliases_Set [simp]: "aliases (PropertyManager_Set pm name val) = aliases pm"
  by (simp add: PropertyManager_Set_def Let_def)

lemma aliases_SetAll [simp]: "aliases (SetAll pm kvs) = aliases pm"
  by (induction kvs arbitrary: pm) auto

lemma PropertyManager_Get_Set_other:
  "aliases pm = Map.empty \<Longrightarrow> name' \<noteq> name \<Longrightarrow>
   PropertyManager_Get (PropertyManager_Set pm name val) name' = PropertyManager_Get pm name'"
  by (simp add: PropertyManager_Get_def PropertyManager_Set_def)

lemma PropertyManager_Get_SetAll:
  "aliases pm = Map.empty \<Longrightarrow>
   PropertyManager_Get (SetAll pm kvs) name
     = (case map_of (rev kvs) name of Some v \<Rightarrow> v | None \<Rightarrow> PropertyManager_Get pm name)"
proof (induction kvs arbitrary: pm)
  case Nil
  then show ?case by simp
next
  case (Cons kv kvs)
  obtain k v where kv: "kv = (k, v)" by (cases kv)
  have a: "aliases (PropertyManager_Set pm k v) = Map.empty"
    using Cons.prems by simp
  show ?case
    using Cons.IH [OF a] Cons.prems
    by (auto simp: kv map_add_def PropertyManager_Get_Set PropertyManager_Get_Set_other
        split: option.splits)
qed

lemma RateGroupScheduler_Execute_idle:
  "idleGroup rateGroup \<Longrightarrow> RateGroupScheduler_Execute h rateGroup props dt = Some (h, props)"
  by (auto simp: idleGroup_def RateGroupScheduler_Execute_def)

lemma execRateGroups_idle:
  "(\<And>key rateGroup. key \<in> set keys \<Longrightarrow> groups key = Some rateGroup \<Longrightarrow> idleGroup rateGroup)
   \<Longrightarrow> execRateGroups keys groups h props dt = Some (h, props)"
proof (induction keys)
  case Nil
  then show ?case by simp
next
  case (Cons key keys)
  have rest: "execRateGroups keys groups h props dt = Some (h, props)"
    using Cons.prems by (intro Cons.IH) auto
  show ?case
  proof (cases "groups key")
    case None
    then show ?thesis by (simp add: rest)
  next
    case (Some rateGroup)
    then have "idleGroup rateGroup" using Cons.prems by auto
    then show ?thesis
      using Some by (simp add: RateGroupScheduler_Execute_idle rest)
  qed
qed

lemma execRateGroups_one_busy:
  assumes "distinct keys"
    and idle: "\<And>key rateGroup. key \<in> set keys \<Longrightarrow> key \<noteq> busy \<Longrightarrow>
                 groups key = Some rateGroup \<Longrightarrow> idleGroup rateGroup"
  shows "execRateGroups keys groups h props dt
           = (if busy \<in> set keys
              then (case groups busy of
                      None \<Rightarrow> Some (h, props)
                    | Some rateGroup \<Rightarrow> RateGroupScheduler_Execute h rateGroup props dt)
              else Some (h, props))"
  using assms
proof (induction keys)
  case Nil
  then show ?case by simp
next
  case (Cons key keys)
  show ?case
  proof (cases "key = busy")
    case True
    then have notin: "busy \<notin> set keys" using Cons.prems(1) by simp
    have rest: "execRateGroups keys groups h' props' dt = Some (h', props')" for h' props'
      using Cons.prems(2) notin by (intro execRateGroups_idle) auto
    show ?thesis
      using True by (simp add: rest split: option.splits)
  next
    case False
    have ih: "execRateGroups keys groups h props dt
           = (if busy \<in> set keys
              then (case groups busy of
                      None \<Rightarrow> Some (h, props)
                    | Some rateGroup \<Rightarrow> RateGroupScheduler_Execute h rateGroup props dt)
              else Some (h, props))"
      using Cons.prems by (intro Cons.IH) auto
    show ?thesis
    proof (cases "groups key")
      case None
      then show ?thesis using False ih by simp
    next
      case (Some rateGroup)
      then have "idleGroup rateGroup" using Cons.prems(2) False by auto
      then show ?thesis
        using Some False ih by (simp add: RateGroupScheduler_Execute_idle)
    qed
  qed
qed

lemma execComponents_append:
  "execComponents (cs @ ds) h props dt
     = (case execComponents cs h props dt of
          None \<Rightarrow> None
        | Some (h', props') \<Rightarrow> execComponents ds h' props' dt)"
  by (induction cs arbitrary: h props) (auto split: option.splits)

text \<open>
  Claim C1, as amended. \<open>FlightControlSystem_Execute\<close> is a function of the
  property store, the rate groups and components, the aircraft state, dt and the
  order in which the run visits the rate groups; the source leaves that order to
  the iteration of a Go map. A component added to a rate group goes to the end of
  its list and runs after the components added before it. When all rate groups
  but one are idle (disabled, or without components), every visiting order gives
  the same result.
\<close>

theorem C1_execute_order:
  "(visitOrder fcs order1 \<and> visitOrder fcs order2
      \<and> (\<forall>key rateGroup. RateGroups fcs key = Some rateGroup \<and> key \<noteq> busy
             \<longrightarrow> idleGroup rateGroup)
    \<longrightarrow> FlightControlSystem_Execute order1 h fcs state dt
          = FlightControlSystem_Execute order2 h fcs state dt)
   \<and> (RateGroupScheduler_AddComponent h rateGroup component = Some (h', rateGroup')
        \<longrightarrow> rgsComponents rateGroup' = rgsComponents rateGroup @ [component]
          \<and> execComponents (rgsComponents rateGroup') h2 props dt
              = (case execComponents (rgsComponents rateGroup) h2 props dt of
                   None \<Rightarrow> None
                 | Some (h3, props3) \<Rightarrow> execComponents [component] h3 props3 dt))"
proof (intro conjI impI)
  assume a: "visitOrder fcs order1 \<and> visitOrder fcs order2
      \<and> (\<forall>key rateGroup. RateGroups fcs key = Some rateGroup \<and> key \<noteq> busy
             \<longrightarrow> idleGroup rateGroup)"
  then have d: "distinct order1" "distinct order2" and s: "set order1 = set order2"
    by (simp_all add: visitOrder_def)
  have idle: "\<And>key rateGroup. key \<noteq> busy \<Longrightarrow> RateGroups fcs key = Some rateGroup
                \<Longrightarrow> idleGroup rateGroup"
    using a by blast
  have "execRateGroups order1 (RateGroups fcs) h p dt
          = execRateGroups order2 (RateGroups fcs) h p dt" for p
    using idle
    by (simp add: execRateGroups_one_busy [OF d(1), where busy = busy]
        execRateGroups_one_busy [OF d(2), where busy = busy] s)
  then show "FlightControlSystem_Execute order1 h fcs state dt
          = FlightControlSystem_Execute order2 h fcs state dt"
    by (simp add: FlightControlSystem_Execute_def Let_def)
next
  assume a: "RateGroupScheduler_AddComponent h rateGroup component = Some (h', rateGroup')"
  then show l: "rgsComponents rateGroup' = rgsComponents rateGroup @ [component]"
    by (auto simp: RateGroupScheduler_AddComponent_def split: option.splits)
  show "execComponents (rgsComponents rateGroup') h2 props dt
              = (case execComponents (rgsComponents rateGroup) h2 props dt of
                   None \<Rightarrow> None
                 | Some (h3, props3) \<Rightarrow> execComponents [component] h3 props3 dt)"
    unfolding l by (rule execComponents_append)
qed

lemma c1_components:
  "c1_gain = GainC \<lparr>Name = ''fcs/right-aileron-gain'', Type = ''GAIN'',
       Inputs = [''fcs/aileron-cmd-norm''], Output = ''fcs/right-aileron-cmd-norm'',
       RateGroup = '''', Enabled = True, Gain = - 1\<rparr>"
  "c1_act = \<lparr>Name = ''fcs/right-aileron-actuator'', Type = ''ACTUATOR'',
       Inputs = [''fcs/right-aileron-cmd-norm''], Output = ''fcs/right-aileron-pos-rad'',
       RateGroup = ''high'', Enabled = True,
       RateLimit = Some 3, Lag = 0.04, HysteresisWidth = 0, BiasValue = 0,
       currentValue = 0, targetValue = 0, previousInput = 0, initialized = False\<rparr>"
  by (simp_all add: c1_gain_def c1_act_def NewGainComponent_def NewActuatorComponent_def
      SetRateLimit_def SetLag_def)

lemma c1_setup1_facts:
  "c1_setup1 = Some (c1_heap1, c1_fcs1)"
  "fcsEnabled c1_fcs1"
  "Properties c1_fcs1 = NewPropertyManager"
  "RateGroups c1_fcs1
     = Map.empty(''default'' \<mapsto> NewRateGroupScheduler ''default'' 120,
                 ''high'' \<mapsto> NewRateGroupScheduler ''high'' 120,
                 ''default'' \<mapsto> (NewRateGroupScheduler ''default'' 120)\<lparr>rgsComponents := [10]\<rparr>)"
  "c1_heap1 10 = Some (SetRateGroup c1_gain ''default'')"
  "c1_heap1 20 = Some c1_actuator"
  by (simp_all add: c1_heap1_def c1_fcs1_def c1_setup1_def FlightControlSystem_AddComponent_def
      RateGroupScheduler_AddComponent_def c1_heap0_def c1_fcs0_def AddRateGroup_def
      NewFlightControlSystem_def c1_components NewRateGroupScheduler_def Let_def)

lemma c1_setup_facts:
  "c1_setup = Some (c1_heap, c1_fcs)"
  "fcsEnabled c1_fcs"
  "Properties c1_fcs = NewPropertyManager"
  "RateGroups c1_fcs
     = Map.empty(''default'' \<mapsto> NewRateGroupScheduler ''default'' 120,
                 ''high'' \<mapsto> NewRateGroupScheduler ''high'' 120,
                 ''default'' \<mapsto> (NewRateGroupScheduler ''default'' 120)\<lparr>rgsComponents := [10]\<rparr>,
                 ''high'' \<mapsto> (NewRateGroupScheduler ''high'' 120)\<lparr>rgsComponents := [20]\<rparr>)"
  "c1_heap 10 = Some (SetRateGroup c1_gain ''default'')"
  "c1_heap 20 = Some c1_actuator"
  by (simp_all add: c1_heap_def c1_fcs_def c1_setup_def FlightControlSystem_AddComponent_def
      RateGroupScheduler_AddComponent_def c1_setup1_facts c1_components c1_actuator_def
      NewRateGroupScheduler_def Let_def)

lemma c1_props0:
  "aliases (UpdateFromAircraftState NewPropertyManager c1_state) = Map.empty"
  "PropertyManager_Get (UpdateFromAircraftState NewPropertyManager c1_state)
     ''fcs/aileron-cmd-norm'' = 1"
  "PropertyManager_Get (UpdateFromAircraftState NewPropertyManager c1_state)
     ''fcs/right-aileron-cmd-norm'' = 0"
proof -
  have e: "aliases NewPropertyManager = Map.empty"
    by (simp add: NewPropertyManager_def)
  show "aliases (UpdateFromAircraftState NewPropertyManager c1_state) = Map.empty"
    by (simp add: UpdateFromAircraftState_def e)
  show "PropertyManager_Get (UpdateFromAircraftState NewPropertyManager c1_state)
     ''fcs/aileron-cmd-norm'' = 1"
    unfolding UpdateFromAircraftState_def PropertyManager_Get_SetAll [OF e]
    by (simp add: c1_state_def)
  have "PropertyManager_Get NewPropertyManager ''fcs/right-aileron-cmd-norm'' = 0"
    by (simp add: PropertyManager_Get_def NewPropertyManager_def standardProperties_def)
  then show "PropertyManager_Get (UpdateFromAircraftState NewPropertyManager c1_state)
     ''fcs/right-aileron-cmd-norm'' = 0"
    unfolding UpdateFromAircraftState_def PropertyManager_Get_SetAll [OF e]
    by simp
qed

lemma c1_gain_Execute:
  "ComponentProcessor_Execute (SetRateGroup c1_gain ''default'') p dt
     = Some (- PropertyManager_Get p ''fcs/aileron-cmd-norm'',
             SetRateGroup c1_gain ''default'',
             PropertyManager_Set p ''fcs/right-aileron-cmd-norm''
               (- PropertyManager_Get p ''fcs/aileron-cmd-norm''))"
  by (simp add: c1_components GainComponent_Execute_def Let_def)

lemma c1_act_fields:
  "Enabled c1_act" "Inputs c1_act = [''fcs/right-aileron-cmd-norm'']"
  "Output c1_act = ''fcs/right-aileron-pos-rad''" "RateLimit c1_act = Some 3"
  "Lag c1_act = 0.04" "HysteresisWidth c1_act = 0" "BiasValue c1_act = 0"
  "previousInput c1_act = 0" "\<not> initialized c1_act"
  by (simp_all add: c1_components)

lemma c1_actuator_Execute:
  assumes "0 < dt"
  shows "\<exists>ac'. ComponentProcessor_Execute c1_actuator p dt
     = Some (actuator_output c1_act (PropertyManager_Get p ''fcs/right-aileron-cmd-norm'') dt,
             ActuatorC ac',
             PropertyManager_Set p ''fcs/right-aileron-pos-rad''
               (actuator_output c1_act
                  (PropertyManager_Get p ''fcs/right-aileron-cmd-norm'') dt))"
proof -
  have ex: "ActuatorComponent_Execute c1_act p dt
      = (actuator_output c1_act (PropertyManager_Get p (hd (Inputs c1_act))) dt,
         c1_act\<lparr>previousInput :=
              (if 0 < HysteresisWidth c1_act
               then actuator_accepted c1_act (PropertyManager_Get p (hd (Inputs c1_act)))
               else previousInput c1_act),
            currentValue := actuator_output c1_act (PropertyManager_Get p (hd (Inputs c1_act))) dt,
            targetValue := actuator_target c1_act (PropertyManager_Get p (hd (Inputs c1_act))) dt,
            initialized := True\<rparr>,
         if Output c1_act \<noteq> ''''
         then PropertyManager_Set p (Output c1_act)
                (actuator_output c1_act (PropertyManager_Get p (hd (Inputs c1_act))) dt)
         else p)"
    using assms by (intro ActuatorComponent_Execute_stages) (simp_all add: c1_act_fields)
  show ?thesis
    by (simp add: c1_actuator_def ex c1_act_fields)
qed

lemma c1_actuator_outputs:
  "actuator_output c1_act (- 1) 0.01 = - 0.006"
  "actuator_output c1_act 0 0.01 = 0"
  by (simp_all add: actuator_output_def actuator_target_def actuator_accepted_def
      hysteresis_stage_def rate_limit_stage_def lag_stage_def c1_act_fields)

lemma c1_run_default_high:
  "map_option (AileronRight \<circ> ControlSurfaces \<circ> snd \<circ> snd)
     (FlightControlSystem_Execute [''default'', ''high''] c1_heap c1_fcs c1_state 0.01)
   = Some (- 0.006)"
proof -
  define p0 where "p0 = UpdateFromAircraftState NewPropertyManager c1_state"
  define p1 where "p1 = PropertyManager_Set p0 ''fcs/right-aileron-cmd-norm'' (- 1)"
  define p2 where "p2 = PropertyManager_Set p1 ''fcs/right-aileron-pos-rad'' (- 0.006)"
  have g: "ComponentProcessor_Execute (SetRateGroup c1_gain ''default'') p0 0.01
             = Some (- 1, SetRateGroup c1_gain ''default'', p1)"
    by (simp add: c1_gain_Execute p0_def p1_def c1_props0)
  have "PropertyManager_Get p1 ''fcs/right-aileron-cmd-norm'' = - 1"
    by (simp add: p1_def PropertyManager_Get_Set)
  with c1_actuator_Execute [of "0.01" p1] c1_actuator_outputs(1)
  obtain ac' where a: "ComponentProcessor_Execute c1_actuator p1 0.01
                         = Some (- 0.006, ActuatorC ac', p2)"
    by (auto simp: p2_def)
  have r1: "RateGroupScheduler_Execute c1_heap
              ((NewRateGroupScheduler ''default'' 120)\<lparr>rgsComponents := [10]\<rparr>) p0 0.01
            = Some (c1_heap(10 \<mapsto> SetRateGroup c1_gain ''default''), p1)"
    using g by (simp add: RateGroupScheduler_Execute_def NewRateGroupScheduler_def c1_setup_facts)
  have r2: "RateGroupScheduler_Execute (c1_heap(10 \<mapsto> SetRateGroup c1_gain ''default''))
              ((NewRateGroupScheduler ''high'' 120)\<lparr>rgsComponents := [20]\<rparr>) p1 0.01
            = Some (c1_heap(10 \<mapsto> SetRateGroup c1_gain ''default'', 20 \<mapsto> ActuatorC ac'), p2)"
    using a by (simp add: RateGroupScheduler_Execute_def NewRateGroupScheduler_def c1_setup_facts)
  have e: "execRateGroups [''default'', ''high''] (RateGroups c1_fcs) c1_heap p0 0.01
            = Some (c1_heap(10 \<mapsto> SetRateGroup c1_gain ''default'', 20 \<mapsto> ActuatorC ac'), p2)"
    using r1 r2 by (simp add: c1_setup_facts(4) NewRateGroupScheduler_def)
  have "PropertyManager_Get p2 ''fcs/right-aileron-pos-rad'' = - 0.006"
    by (simp add: p2_def PropertyManager_Get_Set)
  then show ?thesis
    using e
    by (simp add: FlightControlSystem_Execute_def c1_setup_facts(2,3) p0_def [symmetric]
        ApplyToAircraftState_def)
qed

lemma c1_run_high_default:
  "map_option (AileronRight \<circ> ControlSurfaces \<circ> snd \<circ> snd)
     (FlightControlSystem_Execute [''high'', ''default''] c1_heap c1_fcs c1_state 0.01)
   = Some 0"
proof -
  define p0 where "p0 = UpdateFromAircraftState NewPropertyManager c1_state"
  define p1 where "p1 = PropertyManager_Set p0 ''fcs/right-aileron-pos-rad'' 0"
  define p2 where "p2 = PropertyManager_Set p1 ''fcs/right-aileron-cmd-norm'' (- 1)"
  have al: "aliases p0 = Map.empty" "aliases p1 = Map.empty"
    by (simp_all add: p0_def p1_def c1_props0)
  have "PropertyManager_Get p0 ''fcs/right-aileron-cmd-norm'' = 0"
    by (simp add: p0_def c1_props0)
  with c1_actuator_Execute [of "0.01" p0] c1_actuator_outputs(2)
  obtain ac' where a: "ComponentProcessor_Execute c1_actuator p0 0.01
                         = Some (0, ActuatorC ac', p1)"
    by (auto simp: p1_def)
  have "PropertyManager_Get p1 ''fcs/aileron-cmd-norm'' = PropertyManager_Get p0 ''fcs/aileron-cmd-norm''"
    unfolding p1_def by (rule PropertyManager_Get_Set_other [OF al(1)]) simp
  also have "\<dots> = 1"
    by (simp add: p0_def c1_props0)
  finally have g: "ComponentProcessor_Execute (SetRateGroup c1_gain ''default'') p1 0.01
             = Some (- 1, SetRateGroup c1_gain ''default'', p2)"
    by (simp add: c1_gain_Execute p2_def)
  have r1: "RateGroupScheduler_Execute c1_heap
              ((NewRateGroupScheduler ''high'' 120)\<lparr>rgsComponents := [20]\<rparr>) p0 0.01
            = Some (c1_heap(20 \<mapsto> ActuatorC ac'), p1)"
    using a by (simp add: RateGroupScheduler_Execute_def NewRateGroupScheduler_def c1_setup_facts)
  have r2: "RateGroupScheduler_Execute (c1_heap(20 \<mapsto> ActuatorC ac'))
              ((NewRateGroupScheduler ''default'' 120)\<lparr>rgsComponents := [10]\<rparr>) p1 0.01
            = Some (c1_heap(20 \<mapsto> ActuatorC ac', 10 \<mapsto> SetRateGroup c1_gain ''default''), p2)"
    using g by (simp add: RateGroupScheduler_Execute_def NewRateGroupScheduler_def c1_setup_facts)
  have e: "execRateGroups [''high'', ''default''] (RateGroups c1_fcs) c1_heap p0 0.01
            = Some (c1_heap(20 \<mapsto> ActuatorC ac', 10 \<mapsto> SetRateGroup c1_gain ''default''), p2)"
    using r1 r2 by (simp add: c1_setup_facts(4) NewRateGroupScheduler_def)
  have "PropertyManager_Get p2 ''fcs/right-aileron-pos-rad'' = PropertyManager_Get p1 ''fcs/right-aileron-pos-rad''"
    unfolding p2_def by (rule PropertyManager_Get_Set_other [OF al(2)]) simp
  also have "\<dots> = 0"
    by (simp add: p1_def PropertyManager_Get_Set)
  finally show ?thesis
    using e
    by (simp add: FlightControlSystem_Execute_def c1_setup_facts(2,3) p0_def [symmetric]
        ApplyToAircraftState_def)
qed

lemma c1_visitOrders:
  "visitOrder c1_fcs [''default'', ''high'']" "visitOrder c1_fcs [''high'', ''default'']"
  "visitOrder c1_fcs1 [''default'', ''high'']" "visitOrder c1_fcs1 [''high'', ''default'']"
  by (auto simp: visitOrder_def c1_setup_facts(4) c1_setup1_facts(4))

text \<open>
  Claim C1 as stated fails. The system holds the right aileron gain in the rate
  group "default" and the right aileron actuator in "high", as the standard
  P-51D system does. From the same store, components, state (full right aileron)
  and dt = 0.01, a run that visits "default" first ends with the right aileron at
  -0.006 rad, a run that visits "high" first ends with it at 0: the actuator has
  run before the gain wrote its input. Both are visiting orders of the Go map.
\<close>

theorem C1_order_counterexample:
  "c1_setup = Some (c1_heap, c1_fcs)
   \<and> visitOrder c1_fcs [''default'', ''high'']
   \<and> visitOrder c1_fcs [''high'', ''default'']
   \<and> map_option (AileronRight \<circ> ControlSurfaces \<circ> snd \<circ> snd)
        (FlightControlSystem_Execute [''default'', ''high''] c1_heap c1_fcs c1_state 0.01)
       = Some (- 0.006)
   \<and> map_option (AileronRight \<circ> ControlSurfaces \<circ> snd \<circ> snd)
        (FlightControlSystem_Execute [''high'', ''default''] c1_heap c1_fcs c1_state 0.01)
       = Some 0
   \<and> FlightControlSystem_Execute [''default'', ''high''] c1_heap c1_fcs c1_state 0.01
       \<noteq> FlightControlSystem_Execute [''high'', ''default''] c1_heap c1_fcs c1_state 0.01"
proof -
  have ne: "FlightControlSystem_Execute [''default'', ''high''] c1_heap c1_fcs c1_state 0.01
       \<noteq> FlightControlSystem_Execute [''high'', ''default''] c1_heap c1_fcs c1_state 0.01"
  proof
    assume "FlightControlSystem_Execute [''default'', ''high''] c1_heap c1_fcs c1_state 0.01
       = FlightControlSystem_Execute [''high'', ''default''] c1_heap c1_fcs c1_state 0.01"
    then have "map_option (AileronRight \<circ> ControlSurfaces \<circ> snd \<circ> snd)
        (FlightControlSystem_Execute [''default'', ''high''] c1_heap c1_fcs c1_state 0.01)
       = map_option (AileronRight \<circ> ControlSurfaces \<circ> snd \<circ> snd)
        (FlightControlSystem_Execute [''high'', ''default''] c1_heap c1_fcs c1_state 0.01)"
      by (rule arg_cong)
    then show False
      unfolding c1_run_default_high c1_run_high_default by simp
  qed
  show ?thesis
    by (intro conjI c1_setup_facts(1) c1_visitOrders(1,2) c1_run_default_high
        c1_run_high_default ne)
qed

theorem C1_execute_order_witness:
  "visitOrder c1_fcs1 [''default'', ''high'']
   \<and> visitOrder c1_fcs1 [''high'', ''default'']
   \<and> idleGroup (NewRateGroupScheduler ''high'' 120)
   \<and> FlightControlSystem_Execute [''default'', ''high''] c1_heap1 c1_fcs1 c1_state 0.01
       = FlightControlSystem_Execute [''high'', ''default''] c1_heap1 c1_fcs1 c1_state 0.01
   \<and> RateGroupScheduler_AddComponent c1_heap0 (NewRateGroupScheduler ''high'' 120) 20
       = Some (c1_heap0(20 \<mapsto> SetRateGroup c1_actuator ''high''),
               (NewRateGroupScheduler ''high'' 120)\<lparr>rgsComponents := [20]\<rparr>)"
proof -
  have idle: "idleGroup (NewRateGroupScheduler ''high'' 120)"
    by (simp add: idleGroup_def NewRateGroupScheduler_def)
  have hyp: "\<forall>key rateGroup. RateGroups c1_fcs1 key = Some rateGroup \<and> key \<noteq> ''default''
             \<longrightarrow> idleGroup rateGroup"
    using idle by (auto simp: c1_setup1_facts(4) split: if_splits)
  have add: "RateGroupScheduler_AddComponent c1_heap0 (NewRateGroupScheduler ''high'' 120) 20
       = Some (c1_heap0(20 \<mapsto> SetRateGroup c1_actuator ''high''),
               (NewRateGroupScheduler ''high'' 120)\<lparr>rgsComponents := [20]\<rparr>)"
    by (simp add: RateGroupScheduler_AddComponent_def c1_heap0_def NewRateGroupScheduler_def)
  have ex: "FlightControlSystem_Execute [''default'', ''high''] c1_heap1 c1_fcs1 c1_state 0.01
       = FlightControlSystem_Execute [''high'', ''default''] c1_heap1 c1_fcs1 c1_state 0.01"
    using C1_execute_order [of c1_fcs1 "[''default'', ''high'']" "[''high'', ''default'']"
        "''default''" c1_heap1 c1_state "0.01"] c1_visitOrders(3,4) hyp
    by blast
  show ?thesis
    using idle ex add c1_visitOrders(3,4) by simp
qed

section \<open>Properties of the table engine\<close>

lemma interpolate1D_loop_bracket:
  assumes "length (Values t) = length (Indices t)" and "i < length (Indices t)"
    and "Indices t ! i < x" and "x < Indices t ! (length (Indices t) - 1)"
  shows "\<exists>j. i \<le> j \<and> j + 1 < length (Indices t) \<and> Indices t ! j < x
            \<and> x \<le> Indices t ! (j + 1)
            \<and> interpolate1D_loop t x i
                = Inr (Values t ! j
                       + (x - Indices t ! j) / (Indices t ! (j + 1) - Indices t ! j)
                         * (Values t ! (j + 1) - Values t ! j))"
  using assms
proof (induction t x i rule: interpolate1D_loop.induct)
  case (1 t x i)
  show ?case
  proof (cases "i + 1 < length (Indices t)")
    case True
    show ?thesis
    proof (cases "x \<le> Indices t ! (i + 1)")
      case le: True
      have "interpolate1D_loop t x i
              = Inr (Values t ! i
                     + (x - Indices t ! i) / (Indices t ! (i + 1) - Indices t ! i)
                       * (Values t ! (i + 1) - Values t ! i))"
        using True le "1.prems"
        by (subst interpolate1D_loop.simps) (simp add: index_def Let_def)
      then show ?thesis
        using True le "1.prems" by blast
    next
      case False
      then have lt: "Indices t ! (i + 1) < x" by simp
      have step: "interpolate1D_loop t x i = interpolate1D_loop t x (i + 1)"
        using True False by (subst interpolate1D_loop.simps) simp
      from "1.IH" [OF True _ "1.prems"(1) True lt "1.prems"(4)] False
      obtain j where "i + 1 \<le> j" "j + 1 < length (Indices t)" "Indices t ! j < x"
        "x \<le> Indices t ! (j + 1)"
        "interpolate1D_loop t x (i + 1)
           = Inr (Values t ! j
                  + (x - Indices t ! j) / (Indices t ! (j + 1) - Indices t ! j)
                    * (Values t ! (j + 1) - Values t ! j))"
        by auto
      then show ?thesis
        unfolding step by (intro exI [of _ j]) simp
    qed
  next
    case False
    then have "i = length (Indices t) - 1" using "1.prems"(2) by simp
    then show ?thesis using "1.prems"(3,4) by simp
  qed
qed

section \<open>Properties of the expression evaluator\<close>

lemma propertyValues_filter:
  "propertyValues names props
     = map (\<lambda>n. the (props n)) (filter (\<lambda>n. props n \<noteq> None) names)"
  by (induction names) (auto split: option.splits)

lemma propertyValues_skip:
  "props name = None \<Longrightarrow>
   propertyValues (before @ name # after) props = propertyValues (before @ after) props"
  by (simp add: propertyValues_filter)

lemma appendResult_extends:
  "\<exists>more. appendResult (Inr (vals @ rest)) r = Inr (vals @ rest @ more)
          \<or> appendResult (Inr (vals @ rest)) r = Inl Panic"
proof (cases r)
  case None
  then show ?thesis by simp
next
  case (Some res)
  show ?thesis
  proof (cases res)
    case (Inl e)
    then show ?thesis using Some by (cases e) simp_all
  next
    case (Inr v)
    then show ?thesis using Some by simp
  qed
qed

lemma appendResult_chain:
  assumes "\<exists>rest. a = Inr (vals @ rest) \<or> a = Inl Panic"
  shows "\<exists>rest. appendResult a r = Inr (vals @ rest) \<or> appendResult a r = Inl Panic"
proof -
  from assms obtain rest where "a = Inr (vals @ rest) \<or> a = Inl Panic" by blast
  then show ?thesis
  proof
    assume a: "a = Inr (vals @ rest)"
    from appendResult_extends [of vals rest r]
    obtain more where "appendResult (Inr (vals @ rest)) r = Inr (vals @ rest @ more)
          \<or> appendResult (Inr (vals @ rest)) r = Inl Panic"
      by blast
    then show ?thesis using a by auto
  next
    assume "a = Inl Panic"
    then show ?thesis by simp
  qed
qed

lemma collectValues_prefix:
  "\<exists>rest. collectValues oper props
            = Inr ((propertyValues (Property oper) props @ opValue oper) @ rest)
        \<or> collectValues oper props = Inl Panic"
proof (cases oper)
  case (Operation names literals tbl sProduct sDifference sSum sQuotient
        sPow sAbs sSin sCos sTan sAsin sAcos sAtan)
  have start: "\<exists>rest. (Inr (propertyValues names props @ literals) :: error + real list)
                 = Inr ((propertyValues names props @ literals) @ rest)
               \<or> (Inr (propertyValues names props @ literals) :: error + real list) = Inl Panic"
    by simp
  show ?thesis
    unfolding Operation collectValues.simps Let_def Operation.sel
    by (intro appendResult_chain start)
qed

lemma collectValues_leaf [simp]:
  "collectValues (leaf names literals) props = Inr (propertyValues names props @ literals)"
  by (simp add: leaf_def)

lemma evaluateOperation_skip:
  assumes "props name = None"
  shows "evaluateOperation
           (Operation (before @ name # after) literals tbl sProduct sDifference sSum
              sQuotient sPow sAbs sSin sCos sTan sAsin sAcos sAtan) opType props
         = evaluateOperation
           (Operation (before @ after) literals tbl sProduct sDifference sSum
              sQuotient sPow sAbs sSin sCos sTan sAsin sAcos sAtan) opType props"
proof -
  have "collectValues
           (Operation (before @ name # after) literals tbl sProduct sDifference sSum
              sQuotient sPow sAbs sSin sCos sTan sAsin sAcos sAtan) props
         = collectValues
           (Operation (before @ after) literals tbl sProduct sDifference sSum
              sQuotient sPow sAbs sSin sCos sTan sAsin sAcos sAtan) props"
    unfolding collectValues.simps propertyValues_skip [of props name, OF assms] by (rule refl)
  then show ?thesis
    by (simp only: evaluateOperation.simps)
qed

text \<open>
  Claim C2, as amended. When the value set of a node is collected, a referenced
  property name that is absent from the store is skipped: the collected list
  begins with the values of the referenced names the store holds, in order,
  followed by the literal values; removing an absent name from the references
  changes nothing; and the collection returns no error (only a table read can
  end it, by a panic). A product node with literal values 2 and 3 and one
  absent property reference evaluates to 6; a node that collects no value at
  all, such as one with the absent reference alone, returns the error "no
  values for operation".
\<close>

theorem C2_absent_property_skipped:
  "propertyValues names props
     = map (\<lambda>n. the (props n)) (filter (\<lambda>n. props n \<noteq> None) names)
   \<and> (\<exists>rest. collectValues oper props
                = Inr ((propertyValues (Property oper) props @ opValue oper) @ rest)
             \<or> collectValues oper props = Inl Panic)
   \<and> (props name = None \<longrightarrow>
        evaluateOperation
           (Operation (before @ name # after) literals tbl sProduct sDifference sSum
              sQuotient sPow sAbs sSin sCos sTan sAsin sAcos sAtan) opType props
         = evaluateOperation
           (Operation (before @ after) literals tbl sProduct sDifference sSum
              sQuotient sPow sAbs sSin sCos sTan sAsin sAcos sAtan) opType props)
   \<and> evaluateOperation (leaf [''nonexistent/prop''] [2, 3]) ''product'' Map.empty = Inr 6
   \<and> evaluateOperation (leaf [''nonexistent/prop''] []) ''product'' Map.empty = Inl NoValues"
proof (intro conjI impI)
  show "propertyValues names props
     = map (\<lambda>n. the (props n)) (filter (\<lambda>n. props n \<noteq> None) names)"
    by (rule propertyValues_filter)
  show "\<exists>rest. collectValues oper props
                = Inr ((propertyValues (Property oper) props @ opValue oper) @ rest)
             \<or> collectValues oper props = Inl Panic"
    by (rule collectValues_prefix)
  show "evaluateOperation (leaf [''nonexistent/prop''] [2, 3]) ''product'' Map.empty = Inr 6"
    by (simp add: performOperation_def)
  show "evaluateOperation (leaf [''nonexistent/prop''] []) ''product'' Map.empty = Inl NoValues"
    by simp
next
  assume "props name = None"
  then show "evaluateOperation
           (Operation (before @ name # after) literals tbl sProduct sDifference sSum
              sQuotient sPow sAbs sSin sCos sTan sAsin sAcos sAtan) opType props
         = evaluateOperation
           (Operation (before @ after) literals tbl sProduct sDifference sSum
              sQuotient sPow sAbs sSin sCos sTan sAsin sAcos sAtan) opType props"
    by (rule evaluateOperation_skip)
qed

text \<open>
  Claim C2 as stated fails: for the product node with literal values 2 and 3 and
  the absent property reference, the collected list is (2, 3), not (0, 2, 3),
  and the node evaluates to 6, not to 0.
\<close>

theorem C2_absent_property_counterexample:
  "Map.empty ''nonexistent/prop'' = (None :: real option)
   \<and> collectValues (leaf [''nonexistent/prop''] [2, 3]) Map.empty = Inr [2, 3]
   \<and> evaluateOperation (leaf [''nonexistent/prop''] [2, 3]) ''product'' Map.empty = Inr 6
   \<and> EvaluateFunction (Some (productFunction (leaf [''nonexistent/prop''] [2, 3]))) Map.empty
       = Inr 6"
  by (simp add: performOperation_def EvaluateFunction_def productFunction_def
      emptyFunction_def)

theorem C2_absent_property_skipped_witness:
  "[''radius'' \<mapsto> 100] ''nonexistent/prop'' = (None :: real option)
   \<and> propertyValues [''nonexistent/prop'', ''radius''] [''radius'' \<mapsto> 100] = [100]
   \<and> evaluateOperation (leaf [''nonexistent/prop'', ''radius''] [2, 3.14159]) ''product''
        [''radius'' \<mapsto> 100]
       = evaluateOperation (leaf [''radius''] [2, 3.14159]) ''product'' [''radius'' \<mapsto> 100]
   \<and> evaluateOperation (leaf [''radius''] [2, 3.14159]) ''product'' [''radius'' \<mapsto> 100]
       = Inr 628.318"
proof -
  let ?props = "[''radius'' \<mapsto> (100::real)]"
  have absent: "?props ''nonexistent/prop'' = None" by simp
  from C2_absent_property_skipped [of "[''nonexistent/prop'', ''radius'']" ?props]
  have a: "propertyValues [''nonexistent/prop'', ''radius''] ?props = [100]"
    by simp
  from C2_absent_property_skipped [of _ ?props _ "''nonexistent/prop''" "[]" "[''radius'']"
      "[2, 3.14159]" None None None None None None None None None None None None None
      "''product''"] absent
  have b: "evaluateOperation (leaf [''nonexistent/prop'', ''radius''] [2, 3.14159]) ''product''
             ?props
           = evaluateOperation (leaf [''radius''] [2, 3.14159]) ''product'' ?props"
    by (simp add: leaf_def)
  have c: "evaluateOperation (leaf [''radius''] [2, 3.14159]) ''product'' ?props = Inr 628.318"
    by (simp add: performOperation_def)
  show ?thesis
    using absent a b c by blast
qed

lemma EvaluateFunction_firstOperation:
  "EvaluateFunction (Some f) props
     = (case firstOperation f of
          Some (oper, opType) \<Rightarrow> evaluateOperation oper opType props
        | None \<Rightarrow>
            (case fnTable f of
               Some t \<Rightarrow> evaluateTable t props
             | None \<Rightarrow> Inl NoValidOperation))"
  unfolding EvaluateFunction_def firstOperation_def
  by (simp split: option.split)

lemma firstOperation_None:
  "firstOperation f = None \<longleftrightarrow>
     fnProduct f = None \<and> fnSum f = None \<and> fnDifference f = None \<and> fnQuotient f = None
     \<and> fnPow f = None \<and> fnAbs f = None \<and> fnSin f = None \<and> fnCos f = None
     \<and> fnTan f = None \<and> fnAsin f = None \<and> fnAcos f = None \<and> fnAtan f = None"
  unfolding firstOperation_def
  by (simp split: option.split)

lemma EvaluateFunction_first:
  "firstOperation f = Some (oper, opType) \<Longrightarrow>
   EvaluateFunction (Some f) props = evaluateOperation oper opType props"
  by (simp add: EvaluateFunction_firstOperation)

lemma EvaluateFunction_none:
  "firstOperation f = None \<Longrightarrow>
   EvaluateFunction (Some f) props
     = (case fnTable f of Some t \<Rightarrow> evaluateTable t props | None \<Rightarrow> Inl NoValidOperation)"
  by (simp add: EvaluateFunction_firstOperation)

text \<open>
  Claim C3, as amended. \<open>EvaluateFunction\<close> returns an error for a \<^verbatim>\<open>nil\<close>
  function; for a function with none of the twelve operation fields and no table
  it returns "no valid operation"; with a table only it returns what the table
  lookup returns. Otherwise it evaluates the first present operation: an empty
  collected value list gives the error "no values for operation" (also for a
  product node, which does not evaluate to 1), and a non-empty one gives the
  reduced value and no error.
\<close>

theorem C3_evaluation_errors:
  "EvaluateFunction None props = Inl NilFunction
   \<and> ((firstOperation f = None)
        = (fnProduct f = None \<and> fnSum f = None \<and> fnDifference f = None
           \<and> fnQuotient f = None \<and> fnPow f = None \<and> fnAbs f = None \<and> fnSin f = None
           \<and> fnCos f = None \<and> fnTan f = None \<and> fnAsin f = None \<and> fnAcos f = None
           \<and> fnAtan f = None))
   \<and> (firstOperation f = None \<and> fnTable f = None
        \<longrightarrow> EvaluateFunction (Some f) props = Inl NoValidOperation)
   \<and> (firstOperation f = None \<and> fnTable f = Some t
        \<longrightarrow> EvaluateFunction (Some f) props = evaluateTable t props)
   \<and> (firstOperation f = Some (oper, opType) \<and> collectValues oper props = Inr []
        \<longrightarrow> EvaluateFunction (Some f) props = Inl NoValues)
   \<and> (firstOperation f = Some (oper, opType) \<and> collectValues oper props = Inr vals
        \<and> vals \<noteq> []
        \<longrightarrow> EvaluateFunction (Some f) props = Inr (performOperation opType vals))
   \<and> (firstOperation f = Some (oper, opType) \<and> collectValues oper props = Inl e
        \<longrightarrow> EvaluateFunction (Some f) props = Inl e)"
proof (intro conjI impI)
  show "EvaluateFunction None props = Inl NilFunction"
    by (simp add: EvaluateFunction_def)
  show "(firstOperation f = None)
        = (fnProduct f = None \<and> fnSum f = None \<and> fnDifference f = None
           \<and> fnQuotient f = None \<and> fnPow f = None \<and> fnAbs f = None \<and> fnSin f = None
           \<and> fnCos f = None \<and> fnTan f = None \<and> fnAsin f = None \<and> fnAcos f = None
           \<and> fnAtan f = None)"
    by (rule firstOperation_None)
next
  assume "firstOperation f = None \<and> fnTable f = None"
  then show "EvaluateFunction (Some f) props = Inl NoValidOperation"
    by (simp add: EvaluateFunction_none)
next
  assume "firstOperation f = None \<and> fnTable f = Some t"
  then show "EvaluateFunction (Some f) props = evaluateTable t props"
    by (simp add: EvaluateFunction_none)
next
  assume "firstOperation f = Some (oper, opType) \<and> collectValues oper props = Inr []"
  then show "EvaluateFunction (Some f) props = Inl NoValues"
    by (simp add: EvaluateFunction_first)
next
  assume "firstOperation f = Some (oper, opType) \<and> collectValues oper props = Inr vals
        \<and> vals \<noteq> []"
  then show "EvaluateFunction (Some f) props = Inr (performOperation opType vals)"
    by (simp add: EvaluateFunction_first)
next
  assume "firstOperation f = Some (oper, opType) \<and> collectValues oper props = Inl e"
  then show "EvaluateFunction (Some f) props = Inl e"
    by (simp add: EvaluateFunction_first)
qed

text \<open>
  Claim C3 as stated fails: a function whose product field is set to a node with
  no values has one of the twelve operation fields set, its collected value
  list is empty, and its evaluation returns the error "no values for operation"
  rather than 1.
\<close>

theorem C3_empty_product_counterexample:
  "fnProduct (productFunction (leaf [] [])) = Some (leaf [] [])
   \<and> collectValues (leaf [] []) Map.empty = Inr []
   \<and> EvaluateFunction (Some (productFunction (leaf [] []))) Map.empty = Inl NoValues"
  by (simp add: EvaluateFunction_def productFunction_def emptyFunction_def)

theorem C3_evaluation_errors_witness:
  "firstOperation emptyFunction = None \<and> fnTable emptyFunction = None
   \<and> EvaluateFunction (Some emptyFunction) Map.empty = Inl NoValidOperation
   \<and> firstOperation (productFunction (leaf [] [2, 3])) = Some (leaf [] [2, 3], ''product'')
   \<and> collectValues (leaf [] [2, 3]) Map.empty = Inr [2, 3]
   \<and> EvaluateFunction (Some (productFunction (leaf [] [2, 3]))) Map.empty = Inr 6
   \<and> firstOperation (productFunction (leaf [] [])) = Some (leaf [] [], ''product'')
   \<and> collectValues (leaf [] []) Map.empty = Inr []
   \<and> EvaluateFunction (Some (productFunction (leaf [] []))) Map.empty = Inl NoValues"
proof -
  have e: "firstOperation emptyFunction = None \<and> fnTable emptyFunction = None"
    by (simp add: firstOperation_def emptyFunction_def)
  have p: "firstOperation (productFunction oper) = Some (oper, ''product'')" for oper
    by (simp add: firstOperation_def productFunction_def emptyFunction_def)
  have c1: "collectValues (leaf [] [2, 3]) Map.empty = Inr [2, 3]"
    and c2: "collectValues (leaf [] []) Map.empty = Inr []"
    by simp_all
  from C3_evaluation_errors [of Map.empty emptyFunction] e
  have r1: "EvaluateFunction (Some emptyFunction) Map.empty = Inl NoValidOperation"
    by blast
  from C3_evaluation_errors [of Map.empty "productFunction (leaf [] [2, 3])" _
      "leaf [] [2, 3]" "''product''" "[2, 3]"] p c1
  have "EvaluateFunction (Some (productFunction (leaf [] [2, 3]))) Map.empty
          = Inr (performOperation ''product'' [2, 3])"
    by simp
  then have r2: "EvaluateFunction (Some (productFunction (leaf [] [2, 3]))) Map.empty = Inr 6"
    by (simp add: performOperation_def)
  from C3_evaluation_errors [of Map.empty "productFunction (leaf [] [])" _
      "leaf [] []" "''product''"] p c2
  have r3: "EvaluateFunction (Some (productFunction (leaf [] []))) Map.empty = Inl NoValues"
    by blast
  show ?thesis
    using e p c1 c2 r1 r2 r3 by simp
qed

section \<open>Properties of float64 rounding\<close>

lemma round_even_nonneg: "0 \<le> r \<Longrightarrow> 0 \<le> round_even r"
  by (simp add: round_even_def Let_def)

lemma round_even_err: "\<bar>of_int (round_even r) - r\<bar> \<le> 1 / 2"
proof -
  have "of_int \<lfloor>r\<rfloor> \<le> r" "r < of_int \<lfloor>r\<rfloor> + 1" by linarith+
  then show ?thesis
    by (auto simp: round_even_def Let_def)
qed

lemma round_magnitude_nonneg: "0 \<le> a \<Longrightarrow> 0 \<le> round_magnitude a"
  by (simp add: round_magnitude_def round_even_nonneg)

lemma fl_not_NaN [simp]: "fl x \<noteq> NaN" "\<not> isNaN (fl x)"
  by (simp_all add: fl_def Let_def inf64_def zero64_def)

lemma fl_nonneg:
  assumes "0 \<le> x"
  shows "fl x = PosInf \<or> (\<exists>r\<ge>0. fl x = Finite r)"
  using assms round_magnitude_nonneg [of "\<bar>x\<bar>"]
  by (auto simp: fl_def Let_def inf64_def zero64_def)

lemma fl_pos:
  assumes "0 \<le> x" and "fl x = Finite r"
  shows "0 \<le> r"
  using fl_nonneg [OF assms(1)] assms(2) by auto

lemma round_magnitude_err:
  assumes "0 < a"
  shows "\<bar>round_magnitude a - a\<bar> \<le> 2 powr (- 53) * a + 2 powr (- 1075)"
proof -
  define k where "k = ulp_exponent a"
  define p where "p = (2::real) powr of_int k"
  have p0: "0 < p" by (simp add: p_def)
  have "\<bar>of_int (round_even (a / p)) - a / p\<bar> \<le> 1 / 2"
    by (rule round_even_err)
  then have "\<bar>of_int (round_even (a / p)) - a / p\<bar> * p \<le> 1 / 2 * p"
    using p0 by (intro mult_right_mono) simp_all
  moreover have "\<bar>of_int (round_even (a / p)) - a / p\<bar> * p
                  = \<bar>of_int (round_even (a / p)) * p - a\<bar>"
  proof -
    have "\<bar>of_int (round_even (a / p)) - a / p\<bar> * p
            = \<bar>(of_int (round_even (a / p)) - a / p) * p\<bar>"
      using p0 by (simp add: abs_mult)
    also have "(of_int (round_even (a / p)) - a / p) * p = of_int (round_even (a / p)) * p - a"
      using p0 by (simp add: left_diff_distrib)
    finally show ?thesis .
  qed
  ultimately have e: "\<bar>round_magnitude a - a\<bar> \<le> p / 2"
    by (simp add: round_magnitude_def k_def [symmetric] p_def [symmetric])
  have "p / 2 \<le> 2 powr (- 53) * a + 2 powr (- 1075)"
  proof (cases "- 1022 \<le> \<lfloor>log 2 a\<rfloor>")
    case True
    then have k: "k = \<lfloor>log 2 a\<rfloor> - 52" by (simp add: k_def ulp_exponent_def)
    have "2 powr of_int \<lfloor>log 2 a\<rfloor> \<le> a"
      using floor_log_eq_powr_iff [of a 2 "\<lfloor>log 2 a\<rfloor>"] assms by simp
    then have A: "2 powr (- 53) * 2 powr of_int \<lfloor>log 2 a\<rfloor> \<le> 2 powr (- 53) * a"
      by (intro mult_left_mono) simp_all
    have B: "p / 2 = 2 powr (- 53) * 2 powr of_int \<lfloor>log 2 a\<rfloor>"
      by (simp add: p_def k powr_add [symmetric] powr_diff field_simps)
    have "p / 2 \<le> 2 powr (- 53) * a" unfolding B by (rule A)
    moreover have "(0::real) \<le> 2 powr (- 1075)" by simp
    ultimately show ?thesis by linarith
  next
    case False
    then have k: "k = - 1074" by (simp add: k_def ulp_exponent_def)
    have "(2::real) powr (- 1075 + 1) = 2 powr (- 1075) * 2 powr 1"
      by (rule powr_add)
    then have "p / 2 = 2 powr (- 1075)"
      by (simp add: p_def k)
    moreover have "0 \<le> 2 powr (- 53) * a" using assms by simp
    ultimately show ?thesis by linarith
  qed
  with e show ?thesis by linarith
qed

lemma fl_err:
  assumes "round_magnitude \<bar>x\<bar> < overflow_threshold"
  shows "isFinite (fl x)"
    and "\<bar>val64 (fl x) - x\<bar> \<le> 2 powr (- 53) * \<bar>x\<bar> + 2 powr (- 1075)"
proof -
  show "isFinite (fl x)"
    using assms by (simp add: fl_def Let_def zero64_def)
  show "\<bar>val64 (fl x) - x\<bar> \<le> 2 powr (- 53) * \<bar>x\<bar> + 2 powr (- 1075)"
  proof (cases "x = 0")
    case True
    then show ?thesis
      by (simp add: fl_def round_magnitude_def round_even_def zero64_def inf64_def)
  next
    case False
    then have "0 < \<bar>x\<bar>" by simp
    from round_magnitude_err [OF this]
    have e: "\<bar>round_magnitude \<bar>x\<bar> - \<bar>x\<bar>\<bar> \<le> 2 powr (- 53) * \<bar>x\<bar> + 2 powr (- 1075)" .
    have v: "val64 (fl x) = (if x < 0 then - round_magnitude \<bar>x\<bar> else round_magnitude \<bar>x\<bar>)"
      using assms by (simp add: fl_def Let_def zero64_def)
    show ?thesis
      using e unfolding v by (cases "x < 0") (simp_all add: abs_if split: if_splits)
  qed
qed

text \<open>Rounding at the powers of two: exact in the normal range, an infinity from
  \<open>2 powr 1024\<close> on, zero below half the least subnormal.\<close>

lemma ulp_exponent_pow2: "ulp_exponent (2 powr of_int j) = max j (- 1022) - 52"
  by (simp add: ulp_exponent_def)

lemma round_even_of_int [simp]: "round_even (of_int n) = n"
  by (simp add: round_even_def)

lemma round_magnitude_pow2:
  assumes "- 1022 \<le> j"
  shows "round_magnitude (2 powr of_int j) = 2 powr of_int j"
proof -
  have k: "ulp_exponent (2 powr of_int j) = j - 52"
    using assms by (simp add: ulp_exponent_pow2)
  have "(2::real) powr of_int j / 2 powr of_int (j - 52) = 2 powr 52"
    by (simp add: powr_diff [symmetric])
  also have "\<dots> = of_int (2 ^ 52)" by simp
  finally have q: "(2::real) powr of_int j / 2 powr of_int (j - 52) = of_int (2 ^ 52)" .
  have "round_magnitude (2 powr of_int j) = of_int (2 ^ 52) * 2 powr of_int (j - 52)"
    unfolding round_magnitude_def k q round_even_of_int ..
  also have "\<dots> = 2 powr 52 * 2 powr of_int (j - 52)" by simp
  also have "\<dots> = 2 powr (52 + of_int (j - 52))" by (rule powr_add [symmetric])
  also have "52 + of_int (j - 52) = (of_int j :: real)" by simp
  finally show ?thesis .
qed

lemma round_magnitude_tiny:
  assumes "0 < a" and "a < 2 powr (- 1075)"
  shows "round_magnitude a = 0"
proof -
  have "log 2 a < - 1075"
    using assms by (simp add: log_less_iff)
  then have "\<lfloor>log 2 a\<rfloor> < - 1022" by linarith
  then have k: "ulp_exponent a = - 1074" by (simp add: ulp_exponent_def)
  have "a / 2 powr (- 1074) < 2 powr (- 1075) / 2 powr (- 1074)"
    using assms by (intro divide_strict_right_mono) simp_all
  also have "\<dots> = 2 powr (- 1)" by (simp add: powr_diff [symmetric])
  also have "\<dots> = 1 / 2" by (simp add: powr_minus inverse_eq_divide)
  finally have lt: "a / 2 powr (- 1074) < 1 / 2" .
  have ge: "0 \<le> a / 2 powr (- 1074)" using assms by simp
  have "\<lfloor>a / 2 powr (- 1074)\<rfloor> = 0" using lt ge by linarith
  then have "round_even (a / 2 powr (- 1074)) = 0"
    using lt by (simp add: round_even_def Let_def)
  then show ?thesis by (simp add: round_magnitude_def k)
qed

lemma fl_pow2:
  assumes "- 1022 \<le> j" and "j < 1024"
  shows "fl (2 powr of_int j) = Finite (2 powr of_int j)"
proof -
  have "(2::real) powr of_int j < overflow_threshold"
    unfolding overflow_threshold_def using assms by (intro powr_less_mono) simp_all
  moreover have "(0::real) < 2 powr of_int j" by simp
  ultimately show ?thesis
    using assms(1) by (simp add: fl_def round_magnitude_pow2 Let_def)
qed

lemma fl_pow2_overflow:
  assumes "1024 \<le> j"
  shows "fl (2 powr of_int j) = PosInf"
proof -
  have "overflow_threshold \<le> 2 powr of_int j"
    unfolding overflow_threshold_def using assms by (intro powr_mono) simp_all
  moreover have "- 1022 \<le> j" using assms by simp
  ultimately show ?thesis
    by (simp add: fl_def round_magnitude_pow2 Let_def inf64_def)
qed

lemma fl_pow2_underflow:
  assumes "j < - 1075"
  shows "fl (2 powr of_int j) = Finite 0"
proof -
  have "(2::real) powr of_int j < 2 powr (- 1075)"
    using assms by simp
  then have "round_magnitude (2 powr of_int j) = 0"
    by (intro round_magnitude_tiny) simp_all
  moreover have "(0::real) < overflow_threshold" by (simp add: overflow_threshold_def)
  ultimately show ?thesis by (simp add: fl_def Let_def zero64_def)
qed

lemma fl_one [simp]: "fl 1 = Finite 1"
  using fl_pow2 [of 0] by simp

section \<open>Properties of float64 normalisation\<close>

lemma fl_nonneg64: "0 \<le> x \<Longrightarrow> nonneg64 (fl x)"
  using fl_nonneg [of x] by auto

lemma fmul_self_nonneg64: "isFinite a \<Longrightarrow> nonneg64 (fmul a a)"
  by (cases a) (auto simp: fmul_def zero64_def intro: fl_nonneg64)

lemma fadd_nonneg64: "nonneg64 a \<Longrightarrow> nonneg64 b \<Longrightarrow> nonneg64 (fadd a b)"
  by (cases a; cases b) (auto simp: fadd_def zero64_def intro: fl_nonneg64)

lemma fsqrt_nonneg64: "nonneg64 a \<Longrightarrow> nonneg64 (fsqrt a)"
  by (cases a) (auto simp: fsqrt_def intro: fl_nonneg64)

lemma fdiv_not_NaN:
  assumes "isFinite x" and "nonneg64 m" and "\<not> feq m (Finite 0)"
  shows "\<not> isNaN (fdiv x m)"
  using assms
  by (cases x; cases m) (auto simp: fdiv_def feq_def fle_def zero64_def inf64_def)

lemma Vector3_Magnitude64_nonneg64:
  assumes "isFinite (X64 v)" and "isFinite (Y64 v)" and "isFinite (Z64 v)"
  shows "nonneg64 (Vector3_Magnitude64 v)"
  unfolding Vector3_Magnitude64_def
  by (intro fsqrt_nonneg64 fadd_nonneg64 fmul_self_nonneg64 assms)

lemma Quaternion_Norm64_nonneg64:
  assumes "isFinite (W64 q)" and "isFinite (QX64 q)" and "isFinite (QY64 q)"
    and "isFinite (QZ64 q)"
  shows "nonneg64 (Quaternion_Norm64 q)"
  unfolding Quaternion_Norm64_def
  by (intro fsqrt_nonneg64 fadd_nonneg64 fmul_self_nonneg64 assms)

lemma fmul_zero64 [simp]: "fmul (zero64 a) (zero64 a) = Finite 0"
  by (simp add: fmul_def zero64_def)

lemma fadd_zero_zero [simp]: "fadd (Finite 0) (Finite 0) = Finite 0"
  by (simp add: fadd_def zero64_def)

lemma fsqrt_zero [simp]: "fsqrt (Finite 0) = Finite 0"
  by (simp add: fsqrt_def)

lemma feq_zero [simp]: "feq (Finite 0) (Finite 0)"
  by (simp add: feq_def fle_def)

lemma fmul_pow2:
  "fmul (Finite (2 powr of_int i)) (Finite (2 powr of_int j)) = fl (2 powr of_int (i + j))"
  by (simp add: fmul_def powr_add)

lemma fdiv_pow2:
  "fdiv (Finite (2 powr of_int i)) (Finite (2 powr of_int j)) = fl (2 powr of_int (i - j))"
  by (simp add: fdiv_def powr_diff)

lemma tiny_vector_Normalize64:
  "Vector3_Normalize64 \<lparr>X64 = Finite (2 powr - 600), Y64 = Finite 0, Z64 = Finite 0\<rparr>
     = \<lparr>X64 = Finite 0, Y64 = Finite 0, Z64 = Finite 0\<rparr>"
proof -
  have "fmul (Finite (2 powr - 600)) (Finite (2 powr - 600)) = Finite 0"
    using fmul_pow2 [of "- 600" "- 600"] fl_pow2_underflow [of "- 1200"] by simp
  moreover have "fmul (Finite 0) (Finite 0) = Finite 0"
    by (simp add: fmul_def zero64_def)
  ultimately show ?thesis
    by (simp add: Vector3_Normalize64_def Vector3_Magnitude64_def Let_def)
qed

lemma huge_quaternion_Normalize64:
  "Quaternion_Normalize64
     \<lparr>W64 = Finite (2 powr 600), QX64 = Finite 0, QY64 = Finite 0, QZ64 = Finite 0\<rparr>
     = \<lparr>W64 = Finite 0, QX64 = Finite 0, QY64 = Finite 0, QZ64 = Finite 0\<rparr>"
proof -
  have "fmul (Finite (2 powr 600)) (Finite (2 powr 600)) = PosInf"
    using fmul_pow2 [of 600 600] fl_pow2_overflow [of 1200] by simp
  moreover have "fmul (Finite 0) (Finite 0) = Finite 0"
    by (simp add: fmul_def zero64_def)
  moreover have "fadd PosInf (Finite 0) = PosInf"
    by (simp add: fadd_def)
  moreover have "fsqrt PosInf = PosInf" "\<not> feq PosInf (Finite 0)"
    by (simp_all add: fsqrt_def feq_def fle_def)
  moreover have "fdiv (Finite (2 powr 600)) PosInf = Finite 0" "fdiv (Finite 0) PosInf = Finite 0"
    by (simp_all add: fdiv_def zero64_def)
  ultimately show ?thesis
    by (simp add: Quaternion_Normalize64_def Quaternion_Norm64_def Let_def)
qed

text \<open>
  Claim C10, amended. In float64 arithmetic \<^verbatim>\<open>Vector3.Normalize\<close> returns the zero
  vector for the zero vector (whatever the signs of its zeros) and
  \<^verbatim>\<open>Quaternion.Normalize\<close> returns the identity quaternion for the zero quaternion.
  The guard tests the computed magnitude: whenever the computed magnitude is
  zero the zero vector (the identity quaternion) is returned, and otherwise every
  component is divided by the computed magnitude. For an input whose components
  are all finite, no component of the result is NaN.
\<close>

theorem C10_normalize_guarded:
  "Vector3_Normalize64 \<lparr>X64 = zero64 a, Y64 = zero64 b, Z64 = zero64 c\<rparr>
     = \<lparr>X64 = Finite 0, Y64 = Finite 0, Z64 = Finite 0\<rparr>
   \<and> Quaternion_Normalize64 \<lparr>W64 = zero64 a, QX64 = zero64 b, QY64 = zero64 c, QZ64 = zero64 d\<rparr>
     = \<lparr>W64 = Finite 1, QX64 = Finite 0, QY64 = Finite 0, QZ64 = Finite 0\<rparr>
   \<and> Vector3_Normalize64 v
     = (if feq (Vector3_Magnitude64 v) (Finite 0)
        then \<lparr>X64 = Finite 0, Y64 = Finite 0, Z64 = Finite 0\<rparr>
        else \<lparr>X64 = fdiv (X64 v) (Vector3_Magnitude64 v),
              Y64 = fdiv (Y64 v) (Vector3_Magnitude64 v),
              Z64 = fdiv (Z64 v) (Vector3_Magnitude64 v)\<rparr>)
   \<and> Quaternion_Normalize64 q
     = (if feq (Quaternion_Norm64 q) (Finite 0)
        then \<lparr>W64 = Finite 1, QX64 = Finite 0, QY64 = Finite 0, QZ64 = Finite 0\<rparr>
        else \<lparr>W64 = fdiv (W64 q) (Quaternion_Norm64 q),
              QX64 = fdiv (QX64 q) (Quaternion_Norm64 q),
              QY64 = fdiv (QY64 q) (Quaternion_Norm64 q),
              QZ64 = fdiv (QZ64 q) (Quaternion_Norm64 q)\<rparr>)
   \<and> (isFinite (X64 v) \<and> isFinite (Y64 v) \<and> isFinite (Z64 v) \<longrightarrow>
        \<not> isNaN (X64 (Vector3_Normalize64 v)) \<and> \<not> isNaN (Y64 (Vector3_Normalize64 v))
        \<and> \<not> isNaN (Z64 (Vector3_Normalize64 v)))
   \<and> (isFinite (W64 q) \<and> isFinite (QX64 q) \<and> isFinite (QY64 q) \<and> isFinite (QZ64 q) \<longrightarrow>
        \<not> isNaN (W64 (Quaternion_Normalize64 q)) \<and> \<not> isNaN (QX64 (Quaternion_Normalize64 q))
        \<and> \<not> isNaN (QY64 (Quaternion_Normalize64 q))
        \<and> \<not> isNaN (QZ64 (Quaternion_Normalize64 q)))"
proof (intro conjI impI)
  show "Vector3_Normalize64 \<lparr>X64 = zero64 a, Y64 = zero64 b, Z64 = zero64 c\<rparr>
     = \<lparr>X64 = Finite 0, Y64 = Finite 0, Z64 = Finite 0\<rparr>"
    by (simp add: Vector3_Normalize64_def Vector3_Magnitude64_def Let_def)
  show "Quaternion_Normalize64 \<lparr>W64 = zero64 a, QX64 = zero64 b, QY64 = zero64 c, QZ64 = zero64 d\<rparr>
     = \<lparr>W64 = Finite 1, QX64 = Finite 0, QY64 = Finite 0, QZ64 = Finite 0\<rparr>"
    by (simp add: Quaternion_Normalize64_def Quaternion_Norm64_def Let_def)
  show "Vector3_Normalize64 v
     = (if feq (Vector3_Magnitude64 v) (Finite 0)
        then \<lparr>X64 = Finite 0, Y64 = Finite 0, Z64 = Finite 0\<rparr>
        else \<lparr>X64 = fdiv (X64 v) (Vector3_Magnitude64 v),
              Y64 = fdiv (Y64 v) (Vector3_Magnitude64 v),
              Z64 = fdiv (Z64 v) (Vector3_Magnitude64 v)\<rparr>)"
    by (simp add: Vector3_Normalize64_def Let_def)
  show "Quaternion_Normalize64 q
     = (if feq (Quaternion_Norm64 q) (Finite 0)
        then \<lparr>W64 = Finite 1, QX64 = Finite 0, QY64 = Finite 0, QZ64 = Finite 0\<rparr>
        else \<lparr>W64 = fdiv (W64 q) (Quaternion_Norm64 q),
              QX64 = fdiv (QX64 q) (Quaternion_Norm64 q),
              QY64 = fdiv (QY64 q) (Quaternion_Norm64 q),
              QZ64 = fdiv (QZ64 q) (Quaternion_Norm64 q)\<rparr>)"
    by (simp add: Quaternion_Normalize64_def Let_def)
next
  assume f: "isFinite (X64 v) \<and> isFinite (Y64 v) \<and> isFinite (Z64 v)"
  then have m: "nonneg64 (Vector3_Magnitude64 v)"
    by (intro Vector3_Magnitude64_nonneg64) simp_all
  show "\<not> isNaN (X64 (Vector3_Normalize64 v))" "\<not> isNaN (Y64 (Vector3_Normalize64 v))"
    "\<not> isNaN (Z64 (Vector3_Normalize64 v))"
    using f m by (simp_all add: Vector3_Normalize64_def Let_def fdiv_not_NaN)
next
  assume f: "isFinite (W64 q) \<and> isFinite (QX64 q) \<and> isFinite (QY64 q) \<and> isFinite (QZ64 q)"
  then have m: "nonneg64 (Quaternion_Norm64 q)"
    by (intro Quaternion_Norm64_nonneg64) simp_all
  show "\<not> isNaN (W64 (Quaternion_Normalize64 q))" "\<not> isNaN (QX64 (Quaternion_Normalize64 q))"
    "\<not> isNaN (QY64 (Quaternion_Normalize64 q))" "\<not> isNaN (QZ64 (Quaternion_Normalize64 q))"
    using f m by (simp_all add: Quaternion_Normalize64_def Let_def fdiv_not_NaN)
qed

text \<open>
  Claim C10 as stated fails for inputs whose squares leave the float64 range.
  The vector (2 powr -600, 0, 0) is not the zero vector and its norm is
  2 powr -600, so scaling by the reciprocal of the norm gives first component
  1; but its square underflows to zero, the computed magnitude is zero and the
  guard returns the zero vector. The quaternion (2 powr 600, 0, 0, 0) has a
  square that overflows, the computed norm is infinite and every component
  divided by it is zero: the result is the zero quaternion.
\<close>

theorem C10_range_counterexample:
  "Vector3_Normalize64 \<lparr>X64 = Finite (2 powr - 600), Y64 = Finite 0, Z64 = Finite 0\<rparr>
     = \<lparr>X64 = Finite 0, Y64 = Finite 0, Z64 = Finite 0\<rparr>
   \<and> fdiv (Finite (2 powr - 600)) (Finite (2 powr - 600)) = Finite 1
   \<and> Quaternion_Normalize64
       \<lparr>W64 = Finite (2 powr 600), QX64 = Finite 0, QY64 = Finite 0, QZ64 = Finite 0\<rparr>
     = \<lparr>W64 = Finite 0, QX64 = Finite 0, QY64 = Finite 0, QZ64 = Finite 0\<rparr>
   \<and> fdiv (Finite (2 powr 600)) (Finite (2 powr 600)) = Finite 1"
  using tiny_vector_Normalize64 huge_quaternion_Normalize64
    fdiv_pow2 [of "- 600" "- 600"] fdiv_pow2 [of 600 600]
  by simp

lemma fl_two [simp]: "fl 2 = Finite 2"
  using fl_pow2 [of 1] by simp

lemma fl_four [simp]: "fl 4 = Finite 4"
  using fl_pow2 [of 2] by simp

lemma axis_vector_Normalize64:
  "Vector3_Normalize64 \<lparr>X64 = Finite 2, Y64 = Finite 0, Z64 = Finite 0\<rparr>
     = \<lparr>X64 = Finite 1, Y64 = Finite 0, Z64 = Finite 0\<rparr>"
  by (simp add: Vector3_Normalize64_def Vector3_Magnitude64_def Let_def fmul_def fadd_def
      fsqrt_def fdiv_def feq_def fle_def zero64_def)

lemma axis_quaternion_Normalize64:
  "Quaternion_Normalize64 \<lparr>W64 = Finite 0, QX64 = Finite 2, QY64 = Finite 0, QZ64 = NegZero\<rparr>
     = \<lparr>W64 = Finite 0, QX64 = Finite 1, QY64 = Finite 0, QZ64 = NegZero\<rparr>"
  by (simp add: Quaternion_Normalize64_def Quaternion_Norm64_def Let_def fmul_def fadd_def
      fsqrt_def fdiv_def feq_def fle_def zero64_def)

theorem C10_normalize_guarded_witness:
  "isFinite (Finite 2) \<and> isFinite (Finite 0) \<and> isFinite NegZero
   \<and> Vector3_Normalize64 \<lparr>X64 = Finite 2, Y64 = Finite 0, Z64 = Finite 0\<rparr>
       = \<lparr>X64 = Finite 1, Y64 = Finite 0, Z64 = Finite 0\<rparr>
   \<and> \<not> isNaN (X64 (Vector3_Normalize64 \<lparr>X64 = Finite 2, Y64 = Finite 0, Z64 = Finite 0\<rparr>))
   \<and> Quaternion_Normalize64 \<lparr>W64 = Finite 0, QX64 = Finite 2, QY64 = Finite 0, QZ64 = NegZero\<rparr>
       = \<lparr>W64 = Finite 0, QX64 = Finite 1, QY64 = Finite 0, QZ64 = NegZero\<rparr>
   \<and> \<not> isNaN (QX64 (Quaternion_Normalize64
                 \<lparr>W64 = Finite 0, QX64 = Finite 2, QY64 = Finite 0, QZ64 = NegZero\<rparr>))"
proof -
  let ?v = "\<lparr>X64 = Finite 2, Y64 = Finite 0, Z64 = Finite 0\<rparr>"
  let ?q = "\<lparr>W64 = Finite 0, QX64 = Finite 2, QY64 = Finite 0, QZ64 = NegZero\<rparr>"
  have f: "isFinite (X64 ?v) \<and> isFinite (Y64 ?v) \<and> isFinite (Z64 ?v)"
    "isFinite (W64 ?q) \<and> isFinite (QX64 ?q) \<and> isFinite (QY64 ?q) \<and> isFinite (QZ64 ?q)"
    by simp_all
  from C10_normalize_guarded [of False False False False ?v ?q] f
  have "\<not> isNaN (X64 (Vector3_Normalize64 ?v))" "\<not> isNaN (QX64 (Quaternion_Normalize64 ?q))"
    by blast+
  then show ?thesis
    by (simp add: axis_vector_Normalize64 axis_quaternion_Normalize64)
qed

section \<open>Properties of the propulsion system over float64\<close>

lemma Max64_zero_cases:
  "Max64 (Finite 0) y = PosInf \<or> Max64 (Finite 0) y = NaN
   \<or> (\<exists>r\<ge>0. Max64 (Finite 0) y = Finite r)"
  by (cases y) (auto simp: Max64_def feq_def fle_def flt_def)

lemma Max64_zero_NaN: "isNaN (Max64 (Finite 0) y) \<longleftrightarrow> isNaN y"
  by (cases y) (auto simp: Max64_def feq_def fle_def flt_def)

lemma Max64_zero_nonneg64: "\<not> isNaN y \<Longrightarrow> nonneg64 (Max64 (Finite 0) y)"
  by (cases y) (auto simp: Max64_def feq_def fle_def flt_def)

lemma Max64_zero_clamp:
  "flt y (Finite 0) \<Longrightarrow> Max64 (Finite 0) y = Finite 0"
  "flt (Finite 0) y \<Longrightarrow> Max64 (Finite 0) y = y"
  by (cases y; auto simp: Max64_def feq_def fle_def flt_def)+

lemma fl_half: "fl 0.5 = Finite (1 / 2)"
proof -
  have "(2::real) powr of_int (- 1) = 1 / 2"
    by (simp add: powr_minus inverse_eq_divide)
  with fl_pow2 [of "- 1"] show ?thesis by simp
qed

lemma inducedVelocity_nonneg64:
  assumes "flt (Finite 0) t"
  shows "nonneg64 (fsqrt (fdiv t (fl 0.5)))"
proof -
  have "nonneg64 (fdiv t (Finite (1 / 2)))"
    using assms
    by (cases t) (auto simp: flt_def fle_def fdiv_def inf64_def intro: fl_nonneg64)
  then show ?thesis
    unfolding fl_half by (rule fsqrt_nonneg64)
qed

lemma updatePropeller64_Thrust:
  "Thrust64 (Propeller64 (updatePropeller64 ps dt)) = Max64 (Finite 0) (thrustFormula64 ps)"
  by (simp add: updatePropeller64_def Let_def)

lemma updatePropeller64_InducedVelocity:
  "InducedVelocity64 (Propeller64 (updatePropeller64 ps dt))
     = (if flt (Finite 0) (Thrust64 (Propeller64 (updatePropeller64 ps dt)))
        then fsqrt (fdiv (Thrust64 (Propeller64 (updatePropeller64 ps dt))) (fl 0.5))
        else Finite 0)"
  by (simp add: updatePropeller64_def Let_def)

lemma consumeFuel64_Propeller [simp]: "Propeller64 (consumeFuel64 ps fuelBurn) = Propeller64 ps"
  by (simp add: consumeFuel64_def split: prod.split)

lemma updateFuelConsumption64_Propeller [simp]:
  "Propeller64 (updateFuelConsumption64 ps dt) = Propeller64 ps"
  by (simp add: updateFuelConsumption64_def Let_def)

lemma Update64_Propeller:
  "Propeller64 (Update64 ps throttleInput dt)
     = Propeller64 (updatePropeller64 (engineUpdated64 ps throttleInput dt) dt)"
  by (simp add: Update64_def engineUpdated64_def Let_def)

lemma Max64_zero_eq:
  "Max64 (Finite 0) y
     = (if isNaN y then NaN else if flt (Finite 0) y then y else Finite 0)"
  by (cases y) (auto simp: Max64_def feq_def fle_def flt_def)

lemma NaN_propagates [simp]:
  "fadd a NaN = NaN" "fadd NaN a = NaN" "fmul a NaN = NaN" "fmul NaN a = NaN"
  "fdiv a NaN = NaN" "fdiv NaN a = NaN"
  by (simp_all add: fadd_def fmul_def fdiv_def)

text \<open>
  Claim C9, amended. After every call to \<open>Update\<close>, for any throttle input and dt
  and from any state, the propeller thrust is the value of the thrust formula
  when that value is above zero, NaN when that value is NaN (\<^verbatim>\<open>math.Max\<close> hands
  NaN on), and zero otherwise (negative values are clamped to 0); so the thrust
  is NaN or non-negative. The induced velocity is the square root of thrust /
  0.5 when the thrust is above zero and 0 otherwise (also for a NaN thrust); it
  is never NaN and never negative.
\<close>

theorem C9_thrust_nonnegative:
  "Thrust64 (Propeller64 (Update64 ps throttleInput dt))
     = (if isNaN (thrustFormula64 (engineUpdated64 ps throttleInput dt)) then NaN
        else if flt (Finite 0) (thrustFormula64 (engineUpdated64 ps throttleInput dt))
        then thrustFormula64 (engineUpdated64 ps throttleInput dt)
        else Finite 0)
   \<and> (isNaN (Thrust64 (Propeller64 (Update64 ps throttleInput dt)))
        \<or> nonneg64 (Thrust64 (Propeller64 (Update64 ps throttleInput dt))))
   \<and> InducedVelocity64 (Propeller64 (Update64 ps throttleInput dt))
     = (if flt (Finite 0) (Thrust64 (Propeller64 (Update64 ps throttleInput dt)))
        then fsqrt (fdiv (Thrust64 (Propeller64 (Update64 ps throttleInput dt))) (fl 0.5))
        else Finite 0)
   \<and> nonneg64 (InducedVelocity64 (Propeller64 (Update64 ps throttleInput dt)))"
proof -
  define e where "e = engineUpdated64 ps throttleInput dt"
  define T where "T = Thrust64 (Propeller64 (Update64 ps throttleInput dt))"
  have T: "T = Max64 (Finite 0) (thrustFormula64 e)"
    by (simp add: T_def e_def Update64_Propeller updatePropeller64_Thrust)
  have a: "T = (if isNaN (thrustFormula64 e) then NaN
                else if flt (Finite 0) (thrustFormula64 e) then thrustFormula64 e
                else Finite 0)"
    unfolding T by (rule Max64_zero_eq)
  have b: "isNaN T \<or> nonneg64 T"
    unfolding T using Max64_zero_nonneg64 [of "thrustFormula64 e"] Max64_zero_NaN [of "thrustFormula64 e"]
    by blast
  have c: "InducedVelocity64 (Propeller64 (Update64 ps throttleInput dt))
             = (if flt (Finite 0) T then fsqrt (fdiv T (fl 0.5)) else Finite 0)"
    unfolding T_def Update64_Propeller by (rule updatePropeller64_InducedVelocity)
  have d: "nonneg64 (InducedVelocity64 (Propeller64 (Update64 ps throttleInput dt)))"
  proof (cases "flt (Finite 0) T")
    case True
    from inducedVelocity_nonneg64 [OF True] show ?thesis
      unfolding c using True by (simp only: if_True)
  next
    case False
    then show ?thesis unfolding c by simp
  qed
  show ?thesis
    using a b c d unfolding T_def e_def by blast
qed

text \<open>
  Claim C9 as stated fails for a NaN throttle input. With the engine of the
  P-51D system running, \<^verbatim>\<open>Update(NaN, 0.01)\<close> stores the throttle position NaN
  (\<^verbatim>\<open>math.Max\<close> and \<^verbatim>\<open>math.Min\<close> hand NaN on), the engine RPM and the thrust formula
  are NaN, and the stored thrust is NaN: the comparison 0 <= thrust is false.
\<close>

theorem C9_nan_throttle_counterexample:
  "Thrust64 (Propeller64
      (Update64 (NewPropulsionSystem64
                  \<lparr>Engine64 := (Engine64 NewPropulsionSystem64)\<lparr>IsRunning64 := True\<rparr>\<rparr>)
         NaN (fl 0.01))) = NaN
   \<and> \<not> fle (Finite 0) NaN"
proof -
  let ?ps = "NewPropulsionSystem64\<lparr>Engine64 := (Engine64 NewPropulsionSystem64)\<lparr>IsRunning64 := True\<rparr>\<rparr>"
  have m: "Max64 (Finite 0) (Min64 (Finite 1) NaN) = NaN"
    by (simp add: Max64_def Min64_def)
  have "PropRPM64 (Propeller64 (engineUpdated64 ?ps NaN (fl 0.01))) = NaN"
    by (simp add: engineUpdated64_def updateEngine64_def m Let_def)
  then have "thrustFormula64 (engineUpdated64 ?ps NaN (fl 0.01)) = NaN"
    by (simp add: thrustFormula64_def Let_def)
  then have "Thrust64 (Propeller64 (Update64 ?ps NaN (fl 0.01))) = NaN"
    by (simp add: Update64_Propeller updatePropeller64_Thrust Max64_def)
  then show ?thesis by (simp add: fle_def)
qed

section \<open>Properties of the 1D table lookup over float64\<close>

lemma fle_total: "\<not> isNaN a \<Longrightarrow> \<not> isNaN b \<Longrightarrow> fle a b \<or> fle b a"
  by (cases a; cases b) (auto simp: fle_def)

lemma flt_imp_fle: "flt a b \<Longrightarrow> fle a b"
  using fle_total [of a b] by (auto simp: flt_def)

lemma not_fle_flt: "\<not> isNaN a \<Longrightarrow> \<not> isNaN b \<Longrightarrow> \<not> fle a b \<Longrightarrow> flt b a"
  by (simp add: flt_def)

lemma flt_irrefl: "\<not> (flt a b \<and> flt b a)"
  using fle_total [of a b] by (auto simp: flt_def)

lemma fle_NaN [simp]: "\<not> fle NaN a" "\<not> fle a NaN"
  by (simp_all add: fle_def)

lemma interpolate1D_loop64_NaN:
  "interpolate1D_loop64 t NaN i = index (Values64 t) (length (Indices64 t) - 1)"
proof (induction t "NaN :: float64" i rule: interpolate1D_loop64.induct)
  case (1 t i)
  show ?case
  proof (cases "i + 1 < length (Indices64 t)")
    case True
    then have "interpolate1D_loop64 t NaN i = interpolate1D_loop64 t NaN (i + 1)"
      by (subst interpolate1D_loop64.simps) simp
    with "1.hyps" [OF True] show ?thesis by simp
  next
    case False
    then show ?thesis by (subst interpolate1D_loop64.simps) simp
  qed
qed

lemma interpolate1D_loop64_bracket:
  assumes "length (Values64 t) = length (Indices64 t)" and "i < length (Indices64 t)"
    and "\<not> isNaN x" and "\<forall>b\<in>set (Indices64 t). \<not> isNaN b"
    and "flt (Indices64 t ! i) x" and "flt x (Indices64 t ! (length (Indices64 t) - 1))"
  shows "\<exists>j. i \<le> j \<and> j + 1 < length (Indices64 t) \<and> flt (Indices64 t ! j) x
            \<and> fle x (Indices64 t ! (j + 1))
            \<and> interpolate1D_loop64 t x i = Inr (interpolated64 t x j)"
  using assms
proof (induction t x i rule: interpolate1D_loop64.induct)
  case (1 t x i)
  show ?case
  proof (cases "i + 1 < length (Indices64 t)")
    case True
    show ?thesis
    proof (cases "fle x (Indices64 t ! (i + 1))")
      case le: True
      have "fle (Indices64 t ! i) x" using "1.prems"(5) by (rule flt_imp_fle)
      then have "interpolate1D_loop64 t x i = Inr (interpolated64 t x i)"
        using True le "1.prems"(1)
        by (subst interpolate1D_loop64.simps) (simp add: index_def Let_def interpolated64_def)
      then show ?thesis
        using True le "1.prems" by blast
    next
      case False
      have "\<not> isNaN (Indices64 t ! (i + 1))"
        using "1.prems"(4) True by simp
      with False "1.prems"(3) have lt: "flt (Indices64 t ! (i + 1)) x"
        by (simp add: not_fle_flt)
      have step: "interpolate1D_loop64 t x i = interpolate1D_loop64 t x (i + 1)"
        using True False by (subst interpolate1D_loop64.simps) simp
      from "1.IH" [OF True _ "1.prems"(1) True "1.prems"(3,4) lt "1.prems"(6)] False
      obtain j where "i + 1 \<le> j" "j + 1 < length (Indices64 t)" "flt (Indices64 t ! j) x"
        "fle x (Indices64 t ! (j + 1))"
        "interpolate1D_loop64 t x (i + 1) = Inr (interpolated64 t x j)"
        by auto
      then show ?thesis
        unfolding step by (intro exI [of _ j]) simp
    qed
  next
    case False
    then have "i = length (Indices64 t) - 1" using "1.prems"(2) by simp
    then show ?thesis using "1.prems"(5,6) flt_irrefl by metis
  qed
qed

text \<open>Rounding 1 - 2 powr -60: the float64 values just below 1 are 2 powr -53
  apart, so the nearest one is 1 itself.\<close>

lemma round_magnitude_below_one: "round_magnitude (1 - 2 powr (- 60)) = 1"
proof -
  define a :: real where "a = 1 - 2 powr (- 60)"
  have p60: "(2::real) powr (- 60) = 1 / 2 ^ 60"
    by (simp add: powr_minus inverse_eq_divide)
  have a0: "0 < a" and lo: "2 powr of_int (- 1) \<le> a" and hi: "a < 2 powr (of_int (- 1) + 1)"
    by (simp_all add: a_def p60 powr_minus inverse_eq_divide)
  have "\<lfloor>log 2 a\<rfloor> = - 1"
    using floor_log_eq_powr_iff [of a 2 "- 1"] a0 lo hi by simp
  then have k: "ulp_exponent a = - 53"
    by (simp add: ulp_exponent_def)
  have p53: "(2::real) powr (- 53) = 1 / 2 ^ 53"
    by (simp add: powr_minus inverse_eq_divide)
  have q: "a / 2 powr (- 53) = 2 ^ 53 - 1 / 2 ^ 7"
    by (simp add: a_def p60 p53 field_simps)
  have fl: "\<lfloor>a / 2 powr (- 53)\<rfloor> = 2 ^ 53 - 1"
    unfolding q by (simp add: floor_eq_iff)
  have "round_even (a / 2 powr (- 53)) = 2 ^ 53"
    unfolding round_even_def fl Let_def unfolding q by simp
  then have "round_magnitude a = of_int (2 ^ 53) * 2 powr (- 53)"
    by (simp add: round_magnitude_def k)
  also have "\<dots> = 1" by (simp add: p53)
  finally show ?thesis by (simp add: a_def)
qed

lemma fl_below_one: "fl (2 powr (- 60) - 1) = Finite (- 1)"
proof -
  have p60: "(2::real) powr (- 60) = 1 / 2 ^ 60"
    by (simp add: powr_minus inverse_eq_divide)
  have neg: "(2::real) powr (- 60) - 1 < 0" by (simp add: p60)
  have ab: "\<bar>(2::real) powr (- 60) - 1\<bar> = 1 - 2 powr (- 60)"
    using neg by simp
  have "(1::real) < overflow_threshold"
    by (simp add: overflow_threshold_def)
  then show ?thesis
    unfolding fl_def ab round_magnitude_below_one Let_def using neg by simp
qed

lemma fl_minus_one: "fl (- 1) = Finite (- 1)"
proof -
  have "round_magnitude 1 = 1" using round_magnitude_pow2 [of 0] by simp
  moreover have "(1::real) < overflow_threshold"
    by (simp add: overflow_threshold_def)
  ultimately show ?thesis by (simp add: fl_def Let_def)
qed

lemma dip_table_value: "interpolate1D64 dip_table (Finite 1) = Inr (Finite 0)"
proof -
  have c: "\<not> fle (Finite 1) (Finite 0)" "\<not> fle (Finite 2) (Finite 1)"
    "fle (Finite 0) (Finite 1)" "fle (Finite 1) (Finite 1)"
    by (simp_all add: fle_def)
  have s1: "fsub (Finite 1) (Finite 0) = Finite 1"
    by (simp add: fsub_def fneg_def fadd_def)
  have d: "fdiv (Finite 1) (Finite 1) = Finite 1"
    by (simp add: fdiv_def)
  have s2: "fsub (Finite (2 powr - 60)) (Finite 1) = Finite (- 1)"
    using fl_below_one by (simp add: fsub_def fneg_def fadd_def)
  have m: "fmul (Finite 1) (Finite (- 1)) = Finite (- 1)"
    using fl_minus_one by (simp add: fmul_def)
  have a: "fadd (Finite 1) (Finite (- 1)) = Finite 0"
    by (simp add: fadd_def zero64_def)
  have "interpolate1D_loop64 dip_table (Finite 1) 0 = Inr (Finite 0)"
    by (subst interpolate1D_loop64.simps)
      (simp add: dip_table_def c s1 d s2 m a index_def Let_def)
  then show ?thesis
    by (simp add: interpolate1D64_def dip_table_def c Let_def)
qed

text \<open>
  Claim C4, amended. For every non-empty 1D table with as many values as
  breakpoints and every float64 query x: interpolation returns the first stored
  value when x is at or below the first breakpoint; the last stored value when x
  is not at or below the first breakpoint and is at or above the last, and also
  when x is NaN; otherwise, for a table without NaN breakpoints, the float64
  value of y0 + (x - x0) / (x1 - x0) * (y1 - y0) between the first pair of
  neighbouring breakpoints that bracket x. A clamped result is one of the stored
  values; nothing is said of the range of an interpolated result, which rounding
  can carry outside the stored values.
\<close>

theorem C4_interpolate1D:
  assumes ne: "Indices64 t \<noteq> []" and len: "length (Values64 t) = length (Indices64 t)"
  shows "(fle x (hd (Indices64 t)) \<longrightarrow> interpolate1D64 t x = Inr (hd (Values64 t)))
       \<and> (\<not> fle x (hd (Indices64 t)) \<and> fle (last (Indices64 t)) x
            \<longrightarrow> interpolate1D64 t x = Inr (last (Values64 t)))
       \<and> (isNaN x \<longrightarrow> interpolate1D64 t x = Inr (last (Values64 t)))
       \<and> (\<not> isNaN x \<and> (\<forall>b\<in>set (Indices64 t). \<not> isNaN b)
            \<and> \<not> fle x (hd (Indices64 t)) \<and> \<not> fle (last (Indices64 t)) x \<longrightarrow>
            (\<exists>j. j + 1 < length (Indices64 t) \<and> flt (Indices64 t ! j) x
               \<and> fle x (Indices64 t ! (j + 1))
               \<and> interpolate1D64 t x = Inr (interpolated64 t x j)))
       \<and> (fle x (hd (Indices64 t)) \<or> fle (last (Indices64 t)) x \<or> isNaN x \<longrightarrow>
            (\<exists>v\<in>set (Values64 t). interpolate1D64 t x = Inr v))"
proof -
  have n0: "0 < length (Indices64 t)" using ne by simp
  have vne: "Values64 t \<noteq> []" using ne len by auto
  have h: "Indices64 t ! 0 = hd (Indices64 t)" "Values64 t ! 0 = hd (Values64 t)"
    using ne vne by (simp_all add: hd_conv_nth)
  have l: "Indices64 t ! (length (Indices64 t) - Suc 0) = last (Indices64 t)"
    "Values64 t ! (length (Indices64 t) - Suc 0) = last (Values64 t)"
    using ne vne len by (simp_all add: last_conv_nth)
  have first: "fle x (hd (Indices64 t)) \<Longrightarrow> interpolate1D64 t x = Inr (hd (Values64 t))"
    using n0 len by (simp add: interpolate1D64_def Let_def index_def h)
  have lst: "\<not> fle x (hd (Indices64 t)) \<Longrightarrow> fle (last (Indices64 t)) x
               \<Longrightarrow> interpolate1D64 t x = Inr (last (Values64 t))"
    using n0 len by (simp add: interpolate1D64_def Let_def index_def h l)
  have nan: "isNaN x \<Longrightarrow> interpolate1D64 t x = Inr (last (Values64 t))"
  proof -
    assume "isNaN x"
    then have x: "x = NaN" by (cases x) simp_all
    show ?thesis
      unfolding x using n0 len
      by (simp add: interpolate1D64_def Let_def interpolate1D_loop64_NaN index_def l)
  qed
  have mid: "\<exists>j. j + 1 < length (Indices64 t) \<and> flt (Indices64 t ! j) x
               \<and> fle x (Indices64 t ! (j + 1))
               \<and> interpolate1D64 t x = Inr (interpolated64 t x j)"
    if x: "\<not> isNaN x" and b: "\<forall>b\<in>set (Indices64 t). \<not> isNaN b"
      and a1: "\<not> fle x (hd (Indices64 t))" and a2: "\<not> fle (last (Indices64 t)) x"
  proof -
    have "\<not> isNaN (hd (Indices64 t))" "\<not> isNaN (last (Indices64 t))"
      using b ne by simp_all
    then have f: "flt (Indices64 t ! 0) x"
      and g: "flt x (Indices64 t ! (length (Indices64 t) - 1))"
      using x a1 a2 by (simp_all add: h l not_fle_flt)
    have eq: "interpolate1D64 t x = interpolate1D_loop64 t x 0"
      using n0 a1 a2 by (simp add: interpolate1D64_def Let_def h l)
    from interpolate1D_loop64_bracket [OF len n0 x b f g]
    show ?thesis
      unfolding eq by auto
  qed
  have stored: "\<exists>v\<in>set (Values64 t). interpolate1D64 t x = Inr v"
    if p: "fle x (hd (Indices64 t)) \<or> fle (last (Indices64 t)) x \<or> isNaN x"
  proof -
    consider "fle x (hd (Indices64 t))"
      | "\<not> fle x (hd (Indices64 t))" "fle (last (Indices64 t)) x" | "isNaN x"
      using p by blast
    then show ?thesis
    proof cases
      case 1
      then show ?thesis using first vne by simp
    next
      case 2
      then show ?thesis using lst vne by simp
    next
      case 3
      then show ?thesis using nan vne by simp
    qed
  qed
  show ?thesis
    using first lst nan mid stored by blast
qed

text \<open>
  Claim C4 as stated fails for the range of an interpolated result. The table
  \<open>dip_table\<close> has the increasing breakpoints 0, 1, 2 and the values 1,
  2 powr -60, 1. At the query 1 the lookup interpolates in the first interval,
  with fraction 1: the difference 2 powr -60 - 1 rounds to -1, and 1 + 1 * (-1)
  is 0, which is below every stored value.
\<close>

theorem C4_range_counterexample:
  "Indices64 dip_table = [Finite 0, Finite 1, Finite 2]
   \<and> fle (Finite 0) (Finite 1) \<and> fle (Finite 1) (Finite 2)
   \<and> Values64 dip_table = [Finite 1, Finite (2 powr - 60), Finite 1]
   \<and> interpolate1D64 dip_table (Finite 1) = Inr (Finite 0)
   \<and> flt (Finite 0) (Finite (2 powr - 60)) \<and> flt (Finite 0) (Finite 1)"
  by (simp add: dip_table_value) (simp add: dip_table_def fle_def flt_def)

theorem C4_interpolate1D_witness:
  "Indices64 dip_table \<noteq> [] \<and> length (Values64 dip_table) = length (Indices64 dip_table)
   \<and> fle (Finite (- 1)) (hd (Indices64 dip_table))
   \<and> interpolate1D64 dip_table (Finite (- 1)) = Inr (Finite 1)
   \<and> fle (last (Indices64 dip_table)) PosInf
   \<and> interpolate1D64 dip_table PosInf = Inr (Finite 1)
   \<and> interpolate1D64 dip_table NaN = Inr (Finite 1)
   \<and> (\<exists>j. interpolate1D64 dip_table (Finite (1 / 2))
             = Inr (interpolated64 dip_table (Finite (1 / 2)) j))
   \<and> (\<exists>v\<in>set (Values64 dip_table). interpolate1D64 dip_table NaN = Inr v)"
proof -
  have ne: "Indices64 dip_table \<noteq> []"
    and len: "length (Values64 dip_table) = length (Indices64 dip_table)"
    by (simp_all add: dip_table_def)
  have hl: "hd (Indices64 dip_table) = Finite 0" "last (Indices64 dip_table) = Finite 2"
    "hd (Values64 dip_table) = Finite 1" "last (Values64 dip_table) = Finite 1"
    "set (Indices64 dip_table) = {Finite 0, Finite 1, Finite 2}"
    by (simp_all add: dip_table_def)
  have c: "fle (Finite (- 1)) (Finite 0)" "fle (Finite 2) PosInf" "\<not> fle PosInf (Finite 0)"
    "\<not> fle (Finite (1 / 2)) (Finite 0)" "\<not> fle (Finite 2) (Finite (1 / 2))"
    by (simp_all add: fle_def)
  from C4_interpolate1D [OF ne len, of "Finite (- 1)"]
  have a: "interpolate1D64 dip_table (Finite (- 1)) = Inr (Finite 1)"
    by (simp add: hl c)
  from C4_interpolate1D [OF ne len, of PosInf]
  have b: "interpolate1D64 dip_table PosInf = Inr (Finite 1)"
    by (simp add: hl c)
  from C4_interpolate1D [OF ne len, of NaN]
  have n: "interpolate1D64 dip_table NaN = Inr (Finite 1)"
    and s: "\<exists>v\<in>set (Values64 dip_table). interpolate1D64 dip_table NaN = Inr v"
    by (simp_all add: hl dip_table_def)
  from C4_interpolate1D [OF ne len, of "Finite (1 / 2)"]
  have m: "\<exists>j. interpolate1D64 dip_table (Finite (1 / 2))
             = Inr (interpolated64 dip_table (Finite (1 / 2)) j)"
    by (auto simp: hl c)
  show ?thesis
    using a b n s m ne len by (simp add: hl c)
qed

end
